theory Spec2Isabelle
  imports Complex_Main "HOL-Library.Signed_Division"
begin

section \<open>The memory mapping engine of \<^verbatim>\<open>passes/memory/memory_libmap.cc\<close>\<close>

text \<open>
  A shallow embedding of the mapping pipeline of \<^verbatim>\<open>MemMapping\<close> and of the
  selection loop of \<^verbatim>\<open>MemoryLibMapPass::execute\<close>. Every stage of the source
  replaces the working vector \<^verbatim>\<open>cfgs\<close> wholesale; here a stage is a function from
  the candidate list to the new candidate list. A \<^verbatim>\<open>log_error\<close>, a failed
  \<^verbatim>\<open>log_assert\<close> and an \<^verbatim>\<open>abort()\<close> end the pass, so a stage that can reach one
  returns \<open>error + \<dots>\<close>.

  Names follow the source. A field name that several structs of the source share
  (\<^verbatim>\<open>kind\<close>, \<^verbatim>\<open>opts\<close>, \<^verbatim>\<open>port_def\<close>, \<dots>) carries a prefix for its struct, and an
  enumerator that clashes with a constant of HOL (\<^verbatim>\<open>None\<close>, \<^verbatim>\<open>Any\<close>) a prefix for
  its enum.
\<close>

subsection \<open>Enumerations\<close>

datatype RamKind = Auto | Logic | NotLogic | Distributed | Block | Huge

datatype MemoryInitKind = InitNone | InitZero | InitAny

datatype PortKind = Sr | Ar | Sw | Srsw | Arsw

datatype ClkPolKind = Anyedge | Posedge | Negedge

datatype RdEnKind = RdEnNone | RdEnAny | WriteImplies | WriteExcludes

datatype ResetKind = RstInit | RstAsync | RstSync

datatype ResetValKind = RvNone | RvZero | RvNamed

datatype SrstKind = SrstOverEn | EnOverSrst | SrstAny

datatype TransTargetKind = Self | Other | Named

datatype TransKind = New | Old

subsection \<open>Signals and constants of the netlist\<close>

text \<open>
  The netlist types come from the kernel headers, which are not among the sources. The
  pass only compares them for equality, looks for the bit value \<^verbatim>\<open>State::S1\<close> and
  tests \<^verbatim>\<open>is_fully_undef\<close> (every bit is \<^verbatim>\<open>Sx\<close> or \<^verbatim>\<open>Sz\<close>), so a constant is
  the list of its bits and a signal the list of its bits, each a constant bit or a bit
  of a named wire.
\<close>

datatype State = S0 | S1 | Sx | Sz | Sa | Sm

type_synonym Const = "State list"

datatype SigBit = ConstBit State | WireBit string nat

type_synonym SigSpec = "SigBit list"

definition is_fully_undef :: "Const \<Rightarrow> bool" where
  "is_fully_undef c = list_all (\<lambda>b. b = Sx \<or> b = Sz) c"

subsection \<open>Option maps\<close>

text \<open>
  \<^verbatim>\<open>typedef dict<std::string, Const> Options\<close>. The dictionary is an association
  list with the most recently inserted entry first, which is also the order in which the
  kernel's \<^verbatim>\<open>dict\<close> iterates; \<^verbatim>\<open>find\<close> is \<open>map_of\<close>, and an insertion of a key
  that \<^verbatim>\<open>find\<close> has just missed is a \<open>Cons\<close>.
\<close>

type_synonym Options = "(string \<times> Const) list"

fun opts_applied :: "Options \<Rightarrow> Options \<Rightarrow> bool" where
  "opts_applied dst [] = True"
| "opts_applied dst ((k, v) # src) =
     (case map_of dst k of
        None \<Rightarrow> False
      | Some v' \<Rightarrow> if v' \<noteq> v then False else opts_applied dst src)"

text \<open>
  \<^verbatim>\<open>apply_opts\<close> updates \<^verbatim>\<open>dst\<close> in place and returns a flag; the model returns
  the flag and the updated map. On a conflict the source returns at once, leaving the
  keys it has already inserted.
\<close>

fun apply_opts :: "Options \<Rightarrow> Options \<Rightarrow> bool \<times> Options" where
  "apply_opts dst [] = (True, dst)"
| "apply_opts dst ((k, v) # src) =
     (case map_of dst k of
        None \<Rightarrow> apply_opts ((k, v) # dst) src
      | Some v' \<Rightarrow> if v' \<noteq> v then (False, dst) else apply_opts dst src)"

subsection \<open>The library\<close>

record 'a Capability =
  cap_val :: 'a
  cap_opts :: Options
  cap_portopts :: Options

record ClockDef =
  clk_kind :: ClkPolKind
  clk_name :: string

record ResetValDef =
  rst_kind :: ResetKind
  val_kind :: ResetValKind
  rst_name :: string

record WrTransDef =
  target_kind :: TransTargetKind
  target_name :: string
  trans_kind :: TransKind

record WidthDef =
  wd_tied :: bool
  wr_widths :: "int list"
  rd_widths :: "int list"

text \<open>
  The capability lists \<^verbatim>\<open>addrce\<close> and \<^verbatim>\<open>wrcs\<close> of a port group are read by
  the emitter only and are left out.
\<close>

record PortGroupDef =
  pg_kind :: PortKind
  names :: "string list"
  clock :: "ClockDef Capability list"
  width :: "WidthDef Capability list"
  rden :: "RdEnKind Capability list"
  rdrstval :: "ResetValDef Capability list"
  rdsrstmode :: "SrstKind Capability list"
  wrprio :: "string Capability list"
  wrtrans :: "WrTransDef Capability list"

text \<open>
  \<^verbatim>\<open>double cost\<close> is a rational here. The costs the pass computes are sums and
  products of the library's unit costs, of integers and of the factors \<^verbatim>\<open>0.5\<close> and
  \<^verbatim>\<open>2\<close>; for unit costs that are small dyadic fractions the floating-point
  operations are exact and agree with the rational ones. For a unit cost that is not
  dyadic, such as \<^verbatim>\<open>0.1\<close>, the rounding of the source can order two costs
  differently from the rationals here, in \<^verbatim>\<open>handle_geom\<close>,
  \<^verbatim>\<open>prune_post_geom\<close> and \<^verbatim>\<open>execute\<close>.
\<close>

record MemoryDimsDef =
  abits :: int
  dbits :: "int list"
  dims_tied :: bool
  resource_name :: string
  resource_count :: int
  dims_cost :: rat

record RamDef =
  ram_id :: string
  ram_kind :: RamKind
  prune_rom :: bool
  ports :: "PortGroupDef Capability list"
  dims :: "MemoryDimsDef Capability list"
  byte :: "int Capability list"
  init :: "MemoryInitKind Capability list"
  style :: "string Capability list"

record PassOptions =
  no_auto_distributed :: bool
  no_auto_block :: bool
  no_auto_huge :: bool
  debug_geom :: bool

record Library =
  ram_defs :: "RamDef list"
  lib_opts :: PassOptions

subsection \<open>The abstract memory\<close>

text \<open>
  \<^verbatim>\<open>Mem\<close>, \<^verbatim>\<open>MemWr\<close> and \<^verbatim>\<open>MemRd\<close> are declared in \<^verbatim>\<open>kernel/mem.h\<close>; the
  records hold the fields the mapping stages read.
\<close>

record MemWr =
  wr_clk_enable :: bool
  wr_clk_polarity :: bool
  wr_clk :: SigBit
  wr_en :: SigSpec
  wr_wide_log2 :: int
  priority_mask :: "bool list"

record MemRd =
  rd_clk_enable :: bool
  rd_clk_polarity :: bool
  ce_over_srst :: bool
  rd_clk :: SigBit
  rd_en :: SigSpec
  arst :: SigSpec
  srst :: SigSpec
  rd_data :: SigSpec
  rd_wide_log2 :: int
  init_value :: Const
  arst_value :: Const
  srst_value :: Const
  transparency_mask :: "bool list"
  collision_x_mask :: "bool list"

record Mem =
  mem_width :: int
  start_offset :: int
  mem_size :: int
  inits :: "Const list"
  mem_rd_ports :: "MemRd list"
  mem_wr_ports :: "MemWr list"

text \<open>
  What the pass asks of its collaborators: \<^verbatim>\<open>Mem::emulate_read_first_ok()\<close>, the
  comparison of two addresses under the x-mux signal map (\<^verbatim>\<open>addr_compatible\<close>), and
  the two questions put to the SAT solver (\<^verbatim>\<open>get_wr_implies_rd\<close>,
  \<^verbatim>\<open>get_wr_excludes_rd\<close>). Each is a parameter of the model, indexed by write port
  and read port as in the source.
\<close>

record Oracles =
  emulate_read_first_ok :: bool
  addr_compatible :: "nat \<Rightarrow> nat \<Rightarrow> bool"
  get_wr_implies_rd :: "nat \<Rightarrow> nat \<Rightarrow> bool"
  get_wr_excludes_rd :: "nat \<Rightarrow> nat \<Rightarrow> bool"

subsection \<open>Candidate configurations\<close>

text \<open>
  Port, group and capability indices are never negative and are natural numbers; the
  cross indices \<^verbatim>\<open>rd_port\<close> and \<^verbatim>\<open>wr_port\<close> are integers, \<open>-1\<close> meaning
  unpaired. The quantities of the geometry search are C \<^verbatim>\<open>int\<close>s, and integers here
  (no stage comes near the 32-bit range on a memory that fits a device).
\<close>

record WrPortConfig =
  wr_rd_port :: int
  wr_port_def :: nat
  wr_portopts :: Options
  emu_prio :: "nat list"
  wr_clkpol_kind :: ClkPolKind
  wr_width_def :: nat

record RdPortConfig =
  rd_wr_port :: int
  rd_port_def :: nat
  rd_portopts :: Options
  resetvals :: "(string \<times> Const) list"
  emu_sync :: bool
  emu_en :: bool
  emu_arst :: bool
  emu_srst :: bool
  emu_init :: bool
  emu_srst_en_prio :: bool
  emit_en :: bool
  emu_trans :: "nat list"
  rd_clkpol_kind :: ClkPolKind
  rd_width_def :: nat

record MemConfig =
  ram_def :: nat
  cfg_opts :: Options
  wr_ports :: "WrPortConfig list"
  rd_ports :: "RdPortConfig list"
  clocks_anyedge :: "(string \<times> SigBit \<times> bool) list"
  clocks_pnedge :: "(string \<times> SigBit \<times> bool) list"
  emu_read_first :: bool
  dims_def :: nat
  cfg_byte :: int
  base_width_log2 :: int
  unit_width_log2 :: int
  swizzle :: "int list"
  hard_wide_mask :: int
  emu_wide_mask :: int
  repl_d :: int
  repl_port :: int
  score_emu :: int
  score_mux :: int
  score_demux :: int
  cost :: rat

type_synonym MemConfigs = "MemConfig list"

text \<open>
  The constructors. \<^verbatim>\<open>WrPortConfig()\<close> and \<^verbatim>\<open>RdPortConfig()\<close> set the cross
  index and the emulation flags; the source leaves every other scalar field
  uninitialised until the stage that assigns it, and the model puts \<open>0\<close> (or
  \<open>Anyedge\<close>) there. \<^verbatim>\<open>new_MemConfig i\<close> is the candidate the constructor of
  \<^verbatim>\<open>MemMapping\<close> creates for library entry \<open>i\<close>.
\<close>

definition new_WrPortConfig :: WrPortConfig where
  "new_WrPortConfig =
     \<lparr>wr_rd_port = -1, wr_port_def = 0, wr_portopts = [], emu_prio = [],
      wr_clkpol_kind = Anyedge, wr_width_def = 0\<rparr>"

definition new_RdPortConfig :: RdPortConfig where
  "new_RdPortConfig =
     \<lparr>rd_wr_port = -1, rd_port_def = 0, rd_portopts = [], resetvals = [],
      emu_sync = False, emu_en = False, emu_arst = False, emu_srst = False,
      emu_init = False, emu_srst_en_prio = False, emit_en = False, emu_trans = [],
      rd_clkpol_kind = Anyedge, rd_width_def = 0\<rparr>"

definition new_MemConfig :: "nat \<Rightarrow> MemConfig" where
  "new_MemConfig i =
     \<lparr>ram_def = i, cfg_opts = [], wr_ports = [], rd_ports = [],
      clocks_anyedge = [], clocks_pnedge = [], emu_read_first = False,
      dims_def = 0, cfg_byte = 0, base_width_log2 = 0, unit_width_log2 = 0,
      swizzle = [], hard_wide_mask = 0, emu_wide_mask = 0, repl_d = 0, repl_port = 0,
      score_emu = 0, score_mux = 0, score_demux = 0, cost = 0\<rparr>"

subsection \<open>Committing capabilities\<close>

definition apply_wrport_opts :: "MemConfig \<Rightarrow> nat \<Rightarrow> 'a Capability \<Rightarrow> bool \<times> MemConfig" where
  "apply_wrport_opts cfg pidx cap =
     (case apply_opts (cfg_opts cfg) (cap_opts cap) of
        (False, o1) \<Rightarrow> (False, cfg\<lparr>cfg_opts := o1\<rparr>)
      | (True, o1) \<Rightarrow>
          (case apply_opts (wr_portopts (wr_ports cfg ! pidx)) (cap_portopts cap) of
             (ok, po) \<Rightarrow>
               (ok, cfg\<lparr>cfg_opts := o1,
                         wr_ports := (wr_ports cfg)[pidx := (wr_ports cfg ! pidx)\<lparr>wr_portopts := po\<rparr>]\<rparr>)))"

definition apply_rdport_opts :: "MemConfig \<Rightarrow> nat \<Rightarrow> 'a Capability \<Rightarrow> bool \<times> MemConfig" where
  "apply_rdport_opts cfg pidx cap =
     (if rd_wr_port (rd_ports cfg ! pidx) \<noteq> -1
      then apply_wrport_opts cfg (nat (rd_wr_port (rd_ports cfg ! pidx))) cap
      else
        (case apply_opts (cfg_opts cfg) (cap_opts cap) of
           (False, o1) \<Rightarrow> (False, cfg\<lparr>cfg_opts := o1\<rparr>)
         | (True, o1) \<Rightarrow>
             (case apply_opts (rd_portopts (rd_ports cfg ! pidx)) (cap_portopts cap) of
                (ok, po) \<Rightarrow>
                  (ok, cfg\<lparr>cfg_opts := o1,
                            rd_ports := (rd_ports cfg)[pidx := (rd_ports cfg ! pidx)\<lparr>rd_portopts := po\<rparr>]\<rparr>))))"

definition wrport_opts_applied :: "MemConfig \<Rightarrow> nat \<Rightarrow> 'a Capability \<Rightarrow> bool" where
  "wrport_opts_applied cfg pidx cap =
     (opts_applied (cfg_opts cfg) (cap_opts cap) \<and>
      opts_applied (wr_portopts (wr_ports cfg ! pidx)) (cap_portopts cap))"

definition rdport_opts_applied :: "MemConfig \<Rightarrow> nat \<Rightarrow> 'a Capability \<Rightarrow> bool" where
  "rdport_opts_applied cfg pidx cap =
     (if rd_wr_port (rd_ports cfg ! pidx) \<noteq> -1
      then wrport_opts_applied cfg (nat (rd_wr_port (rd_ports cfg ! pidx))) cap
      else (opts_applied (cfg_opts cfg) (cap_opts cap) \<and>
            opts_applied (rd_portopts (rd_ports cfg ! pidx)) (cap_portopts cap)))"

definition apply_clock :: "MemConfig \<Rightarrow> ClockDef \<Rightarrow> SigBit \<Rightarrow> bool \<Rightarrow> bool \<times> MemConfig" where
  "apply_clock cfg d clk clk_polarity =
     (if clk_name d = [] then (True, cfg)
      else if clk_kind d = Anyedge then
        (case map_of (clocks_anyedge cfg) (clk_name d) of
           None \<Rightarrow>
             (True, cfg\<lparr>clocks_anyedge := (clk_name d, (clk, clk_polarity)) # clocks_anyedge cfg\<rparr>)
         | Some p \<Rightarrow> (p = (clk, clk_polarity), cfg))
      else
        (let flip = (clk_polarity \<noteq> (clk_kind d = Posedge)) in
         case map_of (clocks_pnedge cfg) (clk_name d) of
           None \<Rightarrow> (True, cfg\<lparr>clocks_pnedge := (clk_name d, (clk, flip)) # clocks_pnedge cfg\<rparr>)
         | Some p \<Rightarrow> (p = (clk, flip), cfg)))"

definition apply_rstval :: "RdPortConfig \<Rightarrow> ResetValDef \<Rightarrow> Const \<Rightarrow> bool \<times> RdPortConfig" where
  "apply_rstval pcfg d v =
     (if val_kind d = RvNone then (False, pcfg)
      else if val_kind d = RvZero then (\<not> list_ex (\<lambda>b. b = S1) v, pcfg)
      else
        (case map_of (resetvals pcfg) (rst_name d) of
           None \<Rightarrow> (True, pcfg\<lparr>resetvals := (rst_name d, v) # resetvals pcfg\<rparr>)
         | Some w \<Rightarrow> (w = v, pcfg)))"

section \<open>The pipeline of \<^verbatim>\<open>MemMapping\<close>\<close>

datatype error =
    NoAvailableRams RamKind
  | NoAvailableStyle string
  | NoValidMapping
  | AssertFailed
  | Aborted

subsection \<open>Soft-logic fallback\<close>

text \<open>
  \<^verbatim>\<open>determine_style\<close> reads the memory's attributes and sets \<^verbatim>\<open>kind\<close> and
  \<^verbatim>\<open>style\<close>; the model takes the two as given.
\<close>

fun same_domain :: "MemWr \<Rightarrow> MemWr list \<Rightarrow> bool" where
  "same_domain p0 [] = True"
| "same_domain p0 (port # rest) =
     (if \<not> wr_clk_enable port then False
      else if wr_clk port \<noteq> wr_clk p0 then False
      else if wr_clk_polarity port \<noteq> wr_clk_polarity p0 then False
      else same_domain p0 rest)"

definition determine_logic_ok :: "RamKind \<Rightarrow> Mem \<Rightarrow> bool" where
  "determine_logic_ok kind mem =
     (if kind \<noteq> Auto \<and> kind \<noteq> Logic then False
      else case mem_wr_ports mem of
        [] \<Rightarrow> True
      | p0 # rest \<Rightarrow> same_domain p0 (p0 # rest))"

subsection \<open>Kind, style and init filters\<close>

text \<open>
  The body of the loop of \<^verbatim>\<open>handle_ram_kind\<close>, assignment by assignment. The three
  \<^verbatim>\<open>no_auto_*\<close> tests read \<^verbatim>\<open>kind\<close>, the requested kind, as the source does.
\<close>

definition ram_kind_pass :: "Library \<Rightarrow> RamKind \<Rightarrow> RamDef \<Rightarrow> bool" where
  "ram_kind_pass lib kind rdef =
     (let pass = False;
          pass = (if ram_kind rdef = kind then True else pass);
          pass =
            (if kind = Auto \<or> kind = NotLogic then
               (let pass = True;
                    pass = (if kind = Distributed \<and> no_auto_distributed (lib_opts lib)
                            then False else pass);
                    pass = (if kind = Block \<and> no_auto_block (lib_opts lib)
                            then False else pass);
                    pass = (if kind = Huge \<and> no_auto_huge (lib_opts lib)
                            then False else pass)
                in pass)
             else pass)
      in pass)"

definition handle_ram_kind :: "Library \<Rightarrow> RamKind \<Rightarrow> string \<Rightarrow> MemConfigs \<Rightarrow> error + MemConfigs" where
  "handle_ram_kind lib kind style_s cfgs =
     (if style_s \<noteq> [] then Inr cfgs
      else
        (let new_cfgs = filter (\<lambda>cfg. ram_kind_pass lib kind (ram_defs lib ! ram_def cfg)) cfgs
         in case new_cfgs of
              _ # _ \<Rightarrow> Inr new_cfgs
            | [] \<Rightarrow>
                (case kind of
                   Distributed \<Rightarrow> Inl (NoAvailableRams kind)
                 | Block \<Rightarrow> Inl (NoAvailableRams kind)
                 | Huge \<Rightarrow> Inl (NoAvailableRams kind)
                 | NotLogic \<Rightarrow> Inl (NoAvailableRams kind)
                 | _ \<Rightarrow> Inr new_cfgs)))"

definition style_cfg :: "string \<Rightarrow> MemConfig \<Rightarrow> string Capability \<Rightarrow> MemConfigs" where
  "style_cfg style_s cfg d =
     (if cap_val d \<noteq> style_s then []
      else case apply_opts (cfg_opts cfg) (cap_opts d) of
             (False, _) \<Rightarrow> []
           | (True, o1) \<Rightarrow> [cfg\<lparr>cfg_opts := o1\<rparr>])"

definition handle_ram_style :: "Library \<Rightarrow> string \<Rightarrow> MemConfigs \<Rightarrow> error + MemConfigs" where
  "handle_ram_style lib style_s cfgs =
     (if style_s = [] then Inr cfgs
      else
        (let new_cfgs =
               concat (map (\<lambda>cfg. concat (map (style_cfg style_s cfg)
                                               (style (ram_defs lib ! ram_def cfg)))) cfgs)
         in case new_cfgs of
              [] \<Rightarrow> Inl (NoAvailableStyle style_s)
            | _ # _ \<Rightarrow> Inr new_cfgs))"

definition init_cfg :: "bool \<Rightarrow> MemConfig \<Rightarrow> MemoryInitKind Capability \<Rightarrow> MemConfigs" where
  "init_cfg has_one cfg d =
     (if has_one \<and> cap_val d \<noteq> InitAny then []
      else if \<not> has_one \<and> cap_val d \<noteq> InitAny \<and> cap_val d \<noteq> InitZero then []
      else case apply_opts (cfg_opts cfg) (cap_opts d) of
             (False, _) \<Rightarrow> []
           | (True, o1) \<Rightarrow> [cfg\<lparr>cfg_opts := o1\<rparr>])"

definition handle_init :: "Mem \<Rightarrow> Library \<Rightarrow> MemConfigs \<Rightarrow> MemConfigs" where
  "handle_init mem lib cfgs =
     (let defined = filter (\<lambda>d. \<not> is_fully_undef d) (inits mem);
          has_nonx = (defined \<noteq> []);
          has_one = list_ex (\<lambda>d. list_ex (\<lambda>b. b = S1) d) defined
      in if \<not> has_nonx then cfgs
         else concat (map (\<lambda>cfg. concat (map (init_cfg has_one cfg)
                                              (init (ram_defs lib ! ram_def cfg)))) cfgs))"

subsection \<open>Write-port binding\<close>

definition wr_bind_clock :: "MemWr \<Rightarrow> MemConfig \<Rightarrow> WrPortConfig \<Rightarrow> ClockDef Capability \<Rightarrow> MemConfigs" where
  "wr_bind_clock port cfg2 pcfg2 cdef =
     (case apply_opts (cfg_opts cfg2) (cap_opts cdef) of
        (False, _) \<Rightarrow> []
      | (True, o3) \<Rightarrow>
          (case apply_opts (wr_portopts pcfg2) (cap_portopts cdef) of
             (False, _) \<Rightarrow> []
           | (True, po3) \<Rightarrow>
               (case apply_clock (cfg2\<lparr>cfg_opts := o3\<rparr>) (cap_val cdef)
                                 (wr_clk port) (wr_clk_polarity port) of
                  (False, _) \<Rightarrow> []
                | (True, cfg3) \<Rightarrow>
                    [cfg3\<lparr>wr_ports := wr_ports cfg3 @
                        [pcfg2\<lparr>wr_portopts := po3,
                               wr_clkpol_kind := clk_kind (cap_val cdef)\<rparr>]\<rparr>])))"

definition wr_bind_def :: "MemWr \<Rightarrow> MemConfig \<Rightarrow> nat \<Rightarrow> PortGroupDef Capability \<Rightarrow> MemConfigs" where
  "wr_bind_def port cfg i d =
     (if pg_kind (cap_val d) = Ar \<or> pg_kind (cap_val d) = Sr then []
      else
        let used = length (filter (\<lambda>oport. wr_port_def oport = i) (wr_ports cfg))
        in if used \<ge> length (names (cap_val d)) then []
           else case apply_opts (cfg_opts cfg) (cap_opts d) of
                  (False, _) \<Rightarrow> []
                | (True, o2) \<Rightarrow>
                    concat (map (wr_bind_clock port (cfg\<lparr>cfg_opts := o2\<rparr>)
                                   (new_WrPortConfig\<lparr>wr_rd_port := -1, wr_port_def := i\<rparr>))
                                (clock (cap_val d))))"

definition wr_bind_cfg :: "Library \<Rightarrow> MemWr \<Rightarrow> MemConfig \<Rightarrow> MemConfigs" where
  "wr_bind_cfg lib port cfg =
     (let pdefs = ports (ram_defs lib ! ram_def cfg)
      in concat (map (\<lambda>i. wr_bind_def port cfg i (pdefs ! i)) [0..<length pdefs]))"

text \<open>
  The loop over the write ports: an asynchronous port clears the candidates and returns
  from \<^verbatim>\<open>handle_wr_ports\<close>.
\<close>

fun wr_ports_loop :: "Library \<Rightarrow> MemWr list \<Rightarrow> MemConfigs \<Rightarrow> MemConfigs" where
  "wr_ports_loop lib [] cfgs = cfgs"
| "wr_ports_loop lib (port # rest) cfgs =
     (if \<not> wr_clk_enable port then []
      else wr_ports_loop lib rest (concat (map (wr_bind_cfg lib port) cfgs)))"

definition handle_wr_ports :: "Mem \<Rightarrow> Library \<Rightarrow> MemConfigs \<Rightarrow> MemConfigs" where
  "handle_wr_ports mem lib cfgs =
     (let cfgs1 = (if mem_wr_ports mem = []
                   then filter (\<lambda>cfg. \<not> prune_rom (ram_defs lib ! ram_def cfg)) cfgs
                   else cfgs)
      in wr_ports_loop lib (mem_wr_ports mem) cfgs1)"

subsection \<open>Read-port binding\<close>

definition rd_unshared_rden :: "MemRd \<Rightarrow> MemConfig \<Rightarrow> RdPortConfig \<Rightarrow> RdEnKind Capability \<Rightarrow> MemConfigs" where
  "rd_unshared_rden port cfg3 pcfg3 endef =
     (case apply_opts (cfg_opts cfg3) (cap_opts endef) of
        (False, _) \<Rightarrow> []
      | (True, o4) \<Rightarrow>
          (case apply_opts (rd_portopts pcfg3) (cap_portopts endef) of
             (False, _) \<Rightarrow> []
           | (True, po4) \<Rightarrow>
               (let pcfg4 = pcfg3\<lparr>rd_portopts := po4\<rparr>;
                    pcfg4 = (if cap_val endef = RdEnNone \<and> rd_en port \<noteq> [ConstBit S1]
                             then pcfg4\<lparr>emu_en := True\<rparr> else pcfg4);
                    pcfg4 = pcfg4\<lparr>emit_en := (cap_val endef \<noteq> RdEnNone)\<rparr>
                in [cfg3\<lparr>cfg_opts := o4, rd_ports := rd_ports cfg3 @ [pcfg4]\<rparr>])))"

definition rd_unshared_clock ::
  "MemRd \<Rightarrow> PortGroupDef \<Rightarrow> MemConfig \<Rightarrow> RdPortConfig \<Rightarrow> ClockDef Capability \<Rightarrow> MemConfigs" where
  "rd_unshared_clock port pdef cfg2 pcfg2 cdef =
     (case apply_opts (cfg_opts cfg2) (cap_opts cdef) of
        (False, _) \<Rightarrow> []
      | (True, o3) \<Rightarrow>
          (case apply_opts (rd_portopts pcfg2) (cap_portopts cdef) of
             (False, _) \<Rightarrow> []
           | (True, po3) \<Rightarrow>
               (case apply_clock (cfg2\<lparr>cfg_opts := o3\<rparr>) (cap_val cdef)
                                 (rd_clk port) (rd_clk_polarity port) of
                  (False, _) \<Rightarrow> []
                | (True, cfg3) \<Rightarrow>
                    concat (map (rd_unshared_rden port cfg3
                                   (pcfg2\<lparr>rd_portopts := po3,
                                          rd_clkpol_kind := clk_kind (cap_val cdef)\<rparr>))
                                (rden pdef)))))"

definition rd_unshared :: "MemRd \<Rightarrow> MemConfig \<Rightarrow> nat \<Rightarrow> PortGroupDef Capability \<Rightarrow> MemConfigs" where
  "rd_unshared port cfg i d =
     (if pg_kind (cap_val d) = Sw then []
      else if \<not> rd_clk_enable port \<and> (pg_kind (cap_val d) = Sr \<or> pg_kind (cap_val d) = Srsw)
      then []
      else
        let used = length (filter (\<lambda>oport. wr_port_def oport = i) (wr_ports cfg))
        in if used \<ge> length (names (cap_val d)) then []
           else case apply_opts (cfg_opts cfg) (cap_opts d) of
                  (False, _) \<Rightarrow> []
                | (True, o2) \<Rightarrow>
                    (let cfg2 = cfg\<lparr>cfg_opts := o2\<rparr>;
                         pcfg2 = new_RdPortConfig\<lparr>rd_wr_port := -1, rd_port_def := i\<rparr>
                     in if pg_kind (cap_val d) = Sr \<or> pg_kind (cap_val d) = Srsw
                        then concat (map (rd_unshared_clock port (cap_val d) cfg2
                                            (pcfg2\<lparr>emu_sync := False\<rparr>))
                                         (clock (cap_val d)))
                        else [cfg2\<lparr>rd_ports := rd_ports cfg2 @
                                 [pcfg2\<lparr>emu_sync := rd_clk_enable port\<rparr>]\<rparr>]))"

text \<open>
  The second pass: the read port shares the port group of write port \<open>wpidx\<close>. One
  \<^verbatim>\<open>rden\<close> capability of an \<^verbatim>\<open>Srsw\<close> group gives at most one candidate.
\<close>

definition rd_shared_rden ::
  "Oracles \<Rightarrow> MemRd \<Rightarrow> nat \<Rightarrow> nat \<Rightarrow> MemConfig \<Rightarrow> RdPortConfig \<Rightarrow> RdEnKind Capability \<Rightarrow> MemConfigs" where
  "rd_shared_rden orc port pidx wpidx cfg2 pcfg2 endef =
     (case apply_wrport_opts cfg2 wpidx endef of
        (False, _) \<Rightarrow> []
      | (True, cfg3) \<Rightarrow>
          (case
             (case cap_val endef of
                RdEnNone \<Rightarrow> Some (pcfg2\<lparr>emu_en := (rd_en port \<noteq> [ConstBit S1])\<rparr>)
              | RdEnAny \<Rightarrow> Some pcfg2
              | WriteImplies \<Rightarrow> Some (pcfg2\<lparr>emu_en := (\<not> get_wr_implies_rd orc wpidx pidx)\<rparr>)
              | WriteExcludes \<Rightarrow>
                  (if \<not> get_wr_excludes_rd orc wpidx pidx then None else Some pcfg2))
           of
             None \<Rightarrow> []
           | Some pcfg3 \<Rightarrow>
               [cfg3\<lparr>rd_ports := rd_ports cfg3 @
                  [pcfg3\<lparr>emit_en := (cap_val endef \<noteq> RdEnNone)\<rparr>]\<rparr>]))"

text \<open>
  The \<^verbatim>\<open>RdPortConfig\<close> the second pass starts from: fresh from the constructor,
  paired with the write port, on the write port's group.
\<close>

definition shared_RdPortConfig :: "MemRd \<Rightarrow> PortGroupDef \<Rightarrow> nat \<Rightarrow> nat \<Rightarrow> RdPortConfig" where
  "shared_RdPortConfig port pdef wpidx didx =
     new_RdPortConfig
       \<lparr>rd_wr_port := int wpidx, rd_port_def := didx,
        emu_sync := (rd_clk_enable port \<and> pg_kind pdef = Arsw)\<rparr>"

definition rd_shared :: "Mem \<Rightarrow> Library \<Rightarrow> Oracles \<Rightarrow> nat \<Rightarrow> MemConfig \<Rightarrow> nat \<Rightarrow> MemConfigs" where
  "rd_shared mem lib orc pidx cfg wpidx =
     (let port = mem_rd_ports mem ! pidx;
          wport = mem_wr_ports mem ! wpidx;
          didx = wr_port_def (wr_ports cfg ! wpidx);
          d = ports (ram_defs lib ! ram_def cfg) ! didx
      in if wr_rd_port (wr_ports cfg ! wpidx) \<noteq> -1 then []
         else if pg_kind (cap_val d) = Sw then []
         else if \<not> addr_compatible orc wpidx pidx then []
         else if pg_kind (cap_val d) = Srsw \<and>
                 (\<not> rd_clk_enable port \<or> rd_clk port \<noteq> wr_clk wport \<or>
                  rd_clk_polarity port \<noteq> wr_clk_polarity wport) then []
         else
           (let cfg2 = cfg\<lparr>wr_ports := (wr_ports cfg)
                              [wpidx := (wr_ports cfg ! wpidx)\<lparr>wr_rd_port := int pidx\<rparr>]\<rparr>;
                pcfg2 = shared_RdPortConfig port (cap_val d) wpidx didx
            in if pg_kind (cap_val d) = Srsw
               then concat (map (rd_shared_rden orc port pidx wpidx cfg2 pcfg2) (rden (cap_val d)))
               else [cfg2\<lparr>rd_ports := rd_ports cfg2 @ [pcfg2]\<rparr>]))"

definition rd_bind_cfg :: "Mem \<Rightarrow> Library \<Rightarrow> Oracles \<Rightarrow> nat \<Rightarrow> MemConfig \<Rightarrow> MemConfigs" where
  "rd_bind_cfg mem lib orc pidx cfg =
     (let pdefs = ports (ram_defs lib ! ram_def cfg)
      in concat (map (\<lambda>i. rd_unshared (mem_rd_ports mem ! pidx) cfg i (pdefs ! i))
                     [0..<length pdefs]) @
         concat (map (rd_shared mem lib orc pidx cfg) [0..<length (mem_wr_ports mem)]))"

definition handle_rd_ports :: "Mem \<Rightarrow> Library \<Rightarrow> Oracles \<Rightarrow> MemConfigs \<Rightarrow> MemConfigs" where
  "handle_rd_ports mem lib orc cfgs =
     fold (\<lambda>pidx cfgs. concat (map (rd_bind_cfg mem lib orc pidx) cfgs))
          [0..<length (mem_rd_ports mem)] cfgs"

subsection \<open>Transparency\<close>

definition read_first_fork :: "MemConfig \<Rightarrow> MemConfigs" where
  "read_first_fork cfg =
     cfg # (if list_all (\<lambda>pcfg. rd_wr_port pcfg = -1) (rd_ports cfg)
            then [cfg\<lparr>emu_read_first := True\<rparr>] else [])"

definition trans_target_ok :: "MemConfig \<Rightarrow> PortGroupDef \<Rightarrow> nat \<Rightarrow> nat \<Rightarrow> WrTransDef \<Rightarrow> bool" where
  "trans_target_ok cfg rpdef rpidx wpidx t =
     (case target_kind t of
        Self \<Rightarrow> wr_rd_port (wr_ports cfg ! wpidx) = int rpidx
      | Other \<Rightarrow> wr_rd_port (wr_ports cfg ! wpidx) \<noteq> int rpidx
      | Named \<Rightarrow> names rpdef ! 0 = target_name t)"

definition trans_kind_ok :: "bool \<Rightarrow> WrTransDef \<Rightarrow> bool" where
  "trans_kind_ok transparent t =
     (if transparent then trans_kind t \<noteq> Old else trans_kind t = Old)"

text \<open>
  The loop over the \<^verbatim>\<open>wrtrans\<close> capabilities of the write port's group: the
  candidates it pushes, in order, and \<^verbatim>\<open>found_free\<close>, which the source sets as soon as
  one matching capability has its options already applied.
\<close>

fun trans_caps ::
  "MemConfig \<Rightarrow> PortGroupDef \<Rightarrow> nat \<Rightarrow> nat \<Rightarrow> bool \<Rightarrow> WrTransDef Capability list \<Rightarrow> bool \<times> MemConfigs" where
  "trans_caps cfg rpdef rpidx wpidx transparent [] = (False, [])"
| "trans_caps cfg rpdef rpidx wpidx transparent (tdef # tdefs) =
     (case trans_caps cfg rpdef rpidx wpidx transparent tdefs of
        (found_free, new_cfgs) \<Rightarrow>
          if \<not> trans_target_ok cfg rpdef rpidx wpidx (cap_val tdef) then (found_free, new_cfgs)
          else if \<not> trans_kind_ok transparent (cap_val tdef) then (found_free, new_cfgs)
          else if wrport_opts_applied cfg wpidx tdef then (True, cfg # new_cfgs)
          else (case apply_wrport_opts cfg wpidx tdef of
                  (False, _) \<Rightarrow> (found_free, new_cfgs)
                | (True, cfg2) \<Rightarrow> (found_free, cfg2 # new_cfgs)))"

definition push_emu_trans :: "MemConfig \<Rightarrow> nat \<Rightarrow> nat \<Rightarrow> MemConfig" where
  "push_emu_trans cfg rpidx wpidx =
     cfg\<lparr>rd_ports := (rd_ports cfg)
        [rpidx := (rd_ports cfg ! rpidx)
                    \<lparr>emu_trans := emu_trans (rd_ports cfg ! rpidx) @ [wpidx]\<rparr>]\<rparr>"

definition trans_cfg :: "Mem \<Rightarrow> Library \<Rightarrow> nat \<Rightarrow> nat \<Rightarrow> MemConfig \<Rightarrow> MemConfigs" where
  "trans_cfg mem lib rpidx wpidx cfg =
     (let rport = mem_rd_ports mem ! rpidx;
          rpcfg = rd_ports cfg ! rpidx;
          wpcfg = wr_ports cfg ! wpidx;
          rdef = ram_defs lib ! ram_def cfg;
          wpdef = ports rdef ! wr_port_def wpcfg;
          rpdef = ports rdef ! rd_port_def rpcfg
      in if collision_x_mask rport ! wpidx \<and> \<not> emu_read_first cfg then [cfg]
         else
           let transparent = (transparency_mask rport ! wpidx \<or> emu_read_first cfg)
           in if emu_sync rpcfg
              then [if transparent then push_emu_trans cfg rpidx wpidx else cfg]
              else
                (case trans_caps cfg (cap_val rpdef) rpidx wpidx transparent
                        (wrtrans (cap_val wpdef)) of
                   (found_free, new_cfgs) \<Rightarrow>
                     new_cfgs @
                     (if \<not> found_free \<and> transparent
                      then [push_emu_trans cfg rpidx wpidx] else [])))"

definition trans_pair :: "Mem \<Rightarrow> nat \<Rightarrow> nat \<Rightarrow> bool" where
  "trans_pair mem rpidx wpidx =
     (let rport = mem_rd_ports mem ! rpidx; wport = mem_wr_ports mem ! wpidx
      in wr_clk_enable wport \<and> rd_clk rport = wr_clk wport \<and>
         rd_clk_polarity rport = wr_clk_polarity wport)"

definition handle_trans :: "Mem \<Rightarrow> Library \<Rightarrow> Oracles \<Rightarrow> MemConfigs \<Rightarrow> MemConfigs" where
  "handle_trans mem lib orc cfgs =
     (let cfgs1 = (if emulate_read_first_ok orc then concat (map read_first_fork cfgs)
                   else cfgs)
      in fold (\<lambda>rpidx cfgs.
                 if \<not> rd_clk_enable (mem_rd_ports mem ! rpidx) then cfgs
                 else fold (\<lambda>wpidx cfgs.
                              if trans_pair mem rpidx wpidx
                              then concat (map (trans_cfg mem lib rpidx wpidx) cfgs)
                              else cfgs)
                           [0..<length (mem_wr_ports mem)] cfgs)
              [0..<length (mem_rd_ports mem)] cfgs1)"

subsection \<open>Priority\<close>

fun prio_caps :: "MemConfig \<Rightarrow> PortGroupDef \<Rightarrow> nat \<Rightarrow> string Capability list \<Rightarrow> bool \<times> MemConfigs" where
  "prio_caps cfg p1def p2idx [] = (False, [])"
| "prio_caps cfg p1def p2idx (prdef # prdefs) =
     (case prio_caps cfg p1def p2idx prdefs of
        (found_free, new_cfgs) \<Rightarrow>
          if names p1def ! 0 \<noteq> cap_val prdef then (found_free, new_cfgs)
          else if wrport_opts_applied cfg p2idx prdef then (True, cfg # new_cfgs)
          else (case apply_wrport_opts cfg p2idx prdef of
                  (False, _) \<Rightarrow> (found_free, new_cfgs)
                | (True, cfg2) \<Rightarrow> (found_free, cfg2 # new_cfgs)))"

definition push_emu_prio :: "MemConfig \<Rightarrow> nat \<Rightarrow> nat \<Rightarrow> MemConfig" where
  "push_emu_prio cfg p1idx p2idx =
     cfg\<lparr>wr_ports := (wr_ports cfg)
        [p2idx := (wr_ports cfg ! p2idx)
                    \<lparr>emu_prio := emu_prio (wr_ports cfg ! p2idx) @ [p1idx]\<rparr>]\<rparr>"

text \<open>
  The source binds \<^verbatim>\<open>p1cfg\<close> to \<^verbatim>\<open>cfg.rd_ports[p1idx]\<close>: the port group whose
  first name is compared with the \<^verbatim>\<open>wrprio\<close> names is the one of read port
  \<open>p1idx\<close>. For a memory with no more read ports than \<open>p1idx\<close> the source reads
  past the end of the vector, which the language leaves undefined; the definition
  describes the source for \<open>p1idx < length (rd_ports cfg)\<close> only.
\<close>

definition prio_cfg :: "Library \<Rightarrow> nat \<Rightarrow> nat \<Rightarrow> MemConfig \<Rightarrow> MemConfigs" where
  "prio_cfg lib p1idx p2idx cfg =
     (let p1cfg = rd_ports cfg ! p1idx;
          p2cfg = wr_ports cfg ! p2idx;
          rdef = ram_defs lib ! ram_def cfg;
          p1def = ports rdef ! rd_port_def p1cfg;
          p2def = ports rdef ! wr_port_def p2cfg
      in case prio_caps cfg (cap_val p1def) p2idx (wrprio (cap_val p2def)) of
           (found_free, new_cfgs) \<Rightarrow>
             new_cfgs @ (if \<not> found_free then [push_emu_prio cfg p1idx p2idx] else []))"

definition handle_priority :: "Mem \<Rightarrow> Library \<Rightarrow> MemConfigs \<Rightarrow> MemConfigs" where
  "handle_priority mem lib cfgs =
     fold (\<lambda>p1idx cfgs.
             fold (\<lambda>p2idx cfgs.
                     if \<not> priority_mask (mem_wr_ports mem ! p2idx) ! p1idx then cfgs
                     else concat (map (prio_cfg lib p1idx p2idx) cfgs))
                  [0..<length (mem_wr_ports mem)] cfgs)
          [0..<length (mem_wr_ports mem)] cfgs"

subsection \<open>Read-port initial value and resets\<close>

definition set_rd_port :: "MemConfig \<Rightarrow> nat \<Rightarrow> RdPortConfig \<Rightarrow> MemConfig" where
  "set_rd_port cfg pidx pcfg = cfg\<lparr>rd_ports := (rd_ports cfg)[pidx := pcfg]\<rparr>"

text \<open>
  The capability loop that \<^verbatim>\<open>handle_rd_init\<close> and \<^verbatim>\<open>handle_rd_arst\<close> share word
  for word, for the reset kind and the reset value of the stage.
\<close>

fun rd_rst_caps ::
  "ResetKind \<Rightarrow> Const \<Rightarrow> MemConfig \<Rightarrow> nat \<Rightarrow> ResetValDef Capability list \<Rightarrow> bool \<times> MemConfigs" where
  "rd_rst_caps rk v cfg pidx [] = (False, [])"
| "rd_rst_caps rk v cfg pidx (rstdef # rstdefs) =
     (case rd_rst_caps rk v cfg pidx rstdefs of
        (found_free, new_cfgs) \<Rightarrow>
          if rst_kind (cap_val rstdef) \<noteq> rk then (found_free, new_cfgs)
          else (case apply_rstval (rd_ports cfg ! pidx) (cap_val rstdef) v of
                  (False, _) \<Rightarrow> (found_free, new_cfgs)
                | (True, pcfg2) \<Rightarrow>
                    (let cfg2 = set_rd_port cfg pidx pcfg2
                     in if rdport_opts_applied cfg2 pidx rstdef then (True, cfg2 # new_cfgs)
                        else (case apply_rdport_opts cfg2 pidx rstdef of
                                (False, _) \<Rightarrow> (found_free, new_cfgs)
                              | (True, cfg2') \<Rightarrow> (found_free, cfg2' # new_cfgs)))))"

definition rd_init_cfg :: "Mem \<Rightarrow> Library \<Rightarrow> nat \<Rightarrow> MemConfig \<Rightarrow> MemConfigs" where
  "rd_init_cfg mem lib pidx cfg =
     (let pcfg = rd_ports cfg ! pidx;
          pdef = ports (ram_defs lib ! ram_def cfg) ! rd_port_def pcfg
      in if emu_sync pcfg \<or> emu_en pcfg then [cfg]
         else case rd_rst_caps RstInit (init_value (mem_rd_ports mem ! pidx)) cfg pidx
                     (rdrstval (cap_val pdef)) of
                (found_free, new_cfgs) \<Rightarrow>
                  new_cfgs @ (if \<not> found_free
                              then [set_rd_port cfg pidx (pcfg\<lparr>emu_init := True\<rparr>)] else []))"

definition handle_rd_init :: "Mem \<Rightarrow> Library \<Rightarrow> MemConfigs \<Rightarrow> MemConfigs" where
  "handle_rd_init mem lib cfgs =
     fold (\<lambda>pidx cfgs.
             let port = mem_rd_ports mem ! pidx
             in if \<not> rd_clk_enable port then cfgs
                else if is_fully_undef (init_value port) then cfgs
                else concat (map (rd_init_cfg mem lib pidx) cfgs))
          [0..<length (mem_rd_ports mem)] cfgs"

definition rd_arst_cfg :: "Mem \<Rightarrow> Library \<Rightarrow> nat \<Rightarrow> MemConfig \<Rightarrow> MemConfigs" where
  "rd_arst_cfg mem lib pidx cfg =
     (let pcfg = rd_ports cfg ! pidx;
          pdef = ports (ram_defs lib ! ram_def cfg) ! rd_port_def pcfg
      in if emu_sync pcfg \<or> emu_en pcfg then [cfg]
         else case rd_rst_caps RstAsync (arst_value (mem_rd_ports mem ! pidx)) cfg pidx
                     (rdrstval (cap_val pdef)) of
                (found_free, new_cfgs) \<Rightarrow>
                  new_cfgs @ (if \<not> found_free
                              then [set_rd_port cfg pidx (pcfg\<lparr>emu_arst := True\<rparr>)] else []))"

definition handle_rd_arst :: "Mem \<Rightarrow> Library \<Rightarrow> MemConfigs \<Rightarrow> MemConfigs" where
  "handle_rd_arst mem lib cfgs =
     fold (\<lambda>pidx cfgs.
             let port = mem_rd_ports mem ! pidx
             in if \<not> rd_clk_enable port then cfgs
                else if arst port = [ConstBit S0] then cfgs
                else if is_fully_undef (arst_value port) then cfgs
                else concat (map (rd_arst_cfg mem lib pidx) cfgs))
          [0..<length (mem_rd_ports mem)] cfgs"

definition rd_srst_mode :: "MemRd \<Rightarrow> MemConfig \<Rightarrow> nat \<Rightarrow> SrstKind Capability \<Rightarrow> MemConfigs" where
  "rd_srst_mode port cfg2 pidx mdef =
     (let pcfg3 = rd_ports cfg2 ! pidx;
          pcfg3 = (if cap_val mdef = SrstOverEn \<and> ce_over_srst port
                   then pcfg3\<lparr>emu_srst_en_prio := True\<rparr> else pcfg3);
          pcfg3 = (if cap_val mdef = EnOverSrst \<and> \<not> ce_over_srst port
                   then pcfg3\<lparr>emu_srst_en_prio := True\<rparr> else pcfg3)
      in case apply_rdport_opts (set_rd_port cfg2 pidx pcfg3) pidx mdef of
           (False, _) \<Rightarrow> []
         | (True, cfg3) \<Rightarrow> [cfg3])"

fun rd_srst_caps ::
  "MemRd \<Rightarrow> PortGroupDef \<Rightarrow> MemConfig \<Rightarrow> nat \<Rightarrow> ResetValDef Capability list \<Rightarrow> bool \<times> MemConfigs" where
  "rd_srst_caps port pdef cfg pidx [] = (False, [])"
| "rd_srst_caps port pdef cfg pidx (rstdef # rstdefs) =
     (case rd_srst_caps port pdef cfg pidx rstdefs of
        (found_free, new_cfgs) \<Rightarrow>
          if rst_kind (cap_val rstdef) \<noteq> RstSync then (found_free, new_cfgs)
          else (case apply_rstval (rd_ports cfg ! pidx) (cap_val rstdef) (srst_value port) of
                  (False, _) \<Rightarrow> (found_free, new_cfgs)
                | (True, pcfg2) \<Rightarrow>
                    (let cfg2 = set_rd_port cfg pidx pcfg2;
                         free = rdport_opts_applied cfg2 pidx rstdef
                     in case (if free then (True, cfg2) else apply_rdport_opts cfg2 pidx rstdef) of
                          (False, _) \<Rightarrow> (found_free, new_cfgs)
                        | (True, cfg2') \<Rightarrow>
                            (free \<or> found_free,
                             (if rd_en port = [ConstBit S1] then [cfg2']
                              else concat (map (rd_srst_mode port cfg2' pidx) (rdsrstmode pdef)))
                             @ new_cfgs))))"

definition rd_srst_cfg :: "Mem \<Rightarrow> Library \<Rightarrow> nat \<Rightarrow> MemConfig \<Rightarrow> MemConfigs" where
  "rd_srst_cfg mem lib pidx cfg =
     (let pcfg = rd_ports cfg ! pidx;
          pdef = ports (ram_defs lib ! ram_def cfg) ! rd_port_def pcfg
      in if emu_sync pcfg \<or> emu_en pcfg then [cfg]
         else case rd_srst_caps (mem_rd_ports mem ! pidx) (cap_val pdef) cfg pidx
                     (rdrstval (cap_val pdef)) of
                (found_free, new_cfgs) \<Rightarrow>
                  new_cfgs @ (if \<not> found_free
                              then [set_rd_port cfg pidx (pcfg\<lparr>emu_srst := True\<rparr>)] else []))"

definition handle_rd_srst :: "Mem \<Rightarrow> Library \<Rightarrow> MemConfigs \<Rightarrow> MemConfigs" where
  "handle_rd_srst mem lib cfgs =
     fold (\<lambda>pidx cfgs.
             let port = mem_rd_ports mem ! pidx
             in if \<not> rd_clk_enable port then cfgs
                else if srst port = [ConstBit S0] then cfgs
                else if is_fully_undef (srst_value port) then cfgs
                else concat (map (rd_srst_cfg mem lib pidx) cfgs))
          [0..<length (mem_rd_ports mem)] cfgs"

subsection \<open>Emulation score and port replication\<close>

text \<open>
  The two loops of \<^verbatim>\<open>score_emu_ports\<close> over the ports of one candidate carry the
  score and a usage vector, one counter per port group of the library entry.
\<close>

fun score_wr_ports :: "WrPortConfig list \<Rightarrow> int \<times> int list \<Rightarrow> int \<times> int list" where
  "score_wr_ports [] st = st"
| "score_wr_ports (pcfg # rest) (score, port_usage_wr) =
     score_wr_ports rest
       (score + int (length (emu_prio pcfg)),
        port_usage_wr[wr_port_def pcfg := port_usage_wr ! wr_port_def pcfg + 1])"

definition score_rd_port :: "RdPortConfig \<Rightarrow> int \<Rightarrow> int" where
  "score_rd_port pcfg score =
     (let score = score + 3 * int (length (emu_trans pcfg));
          score = (if emu_en pcfg then score + 3 else score);
          score = (if emu_init pcfg then score + 2 else score);
          score = (if emu_arst pcfg then score + 2 else score);
          score = (if emu_srst pcfg then score + 2 else score);
          score = (if emu_srst_en_prio pcfg then score + 1 else score);
          score = (if rd_wr_port pcfg = -1 then score + 1 else score)
      in score)"

fun score_rd_ports :: "RdPortConfig list \<Rightarrow> int \<times> int list \<Rightarrow> int \<times> int list" where
  "score_rd_ports [] st = st"
| "score_rd_ports (pcfg # rest) (score, port_usage_rd) =
     score_rd_ports rest
       (score_rd_port pcfg score,
        (if rd_wr_port pcfg = -1
         then port_usage_rd[rd_port_def pcfg := port_usage_rd ! rd_port_def pcfg + 1]
         else port_usage_rd))"

text \<open>
  The loop over the port groups; a failed \<^verbatim>\<open>log_assert\<close> ends the pass. C's
  integer division and remainder truncate towards zero: \<open>sdiv\<close> and \<open>smod\<close>.
\<close>

fun repl_port_loop ::
  "PortGroupDef Capability list \<Rightarrow> int list \<Rightarrow> int list \<Rightarrow> nat list \<Rightarrow> int \<Rightarrow> error + int" where
  "repl_port_loop pdefs port_usage_wr port_usage_rd [] repl = Inr repl"
| "repl_port_loop pdefs port_usage_wr port_usage_rd (i # rest) repl =
     (let space = int (length (names (cap_val (pdefs ! i)))) - port_usage_wr ! i
      in if \<not> space \<ge> 0 then Inl AssertFailed
         else if port_usage_rd ! i > 0 then
           (if \<not> space > 0 then Inl AssertFailed
            else
              let usage = port_usage_rd ! i;
                  cur = (usage + space - 1) sdiv space
              in repl_port_loop pdefs port_usage_wr port_usage_rd rest
                   (if cur > repl then cur else repl))
         else repl_port_loop pdefs port_usage_wr port_usage_rd rest repl)"

definition score_emu_cfg :: "Library \<Rightarrow> MemConfig \<Rightarrow> error + MemConfig" where
  "score_emu_cfg lib cfg =
     (let rdef = ram_defs lib ! ram_def cfg;
          n = length (ports rdef);
          score = (if emu_read_first cfg then 3 * int (length (wr_ports cfg)) else 0);
          (score, port_usage_wr) = score_wr_ports (wr_ports cfg) (score, replicate n 0);
          (score, port_usage_rd) = score_rd_ports (rd_ports cfg) (score, replicate n 0)
      in case repl_port_loop (ports rdef) port_usage_wr port_usage_rd [0..<n] 1 of
           Inl e \<Rightarrow> Inl e
         | Inr repl \<Rightarrow> Inr (cfg\<lparr>score_emu := score, repl_port := repl\<rparr>))"

fun score_emu_ports :: "Library \<Rightarrow> MemConfigs \<Rightarrow> error + MemConfigs" where
  "score_emu_ports lib [] = Inr []"
| "score_emu_ports lib (cfg # cfgs) =
     (case score_emu_cfg lib cfg of
        Inl e \<Rightarrow> Inl e
      | Inr cfg' \<Rightarrow>
          (case score_emu_ports lib cfgs of
             Inl e \<Rightarrow> Inl e
           | Inr cfgs' \<Rightarrow> Inr (cfg' # cfgs')))"

subsection \<open>Geometry split\<close>

definition split_dims :: "Library \<Rightarrow> MemConfig \<Rightarrow> MemConfigs" where
  "split_dims lib cfg =
     (let ddefs = dims (ram_defs lib ! ram_def cfg)
      in concat (map (\<lambda>didx.
                        case apply_opts (cfg_opts cfg) (cap_opts (ddefs ! didx)) of
                          (False, _) \<Rightarrow> []
                        | (True, o2) \<Rightarrow> [cfg\<lparr>cfg_opts := o2, dims_def := didx\<rparr>])
                     [0..<length ddefs]))"

fun byte_caps :: "MemConfig \<Rightarrow> int Capability list \<Rightarrow> bool \<times> MemConfigs" where
  "byte_caps cfg [] = (False, [])"
| "byte_caps cfg (bdef # bdefs) =
     (case byte_caps cfg bdefs of
        (found_free, new_cfgs) \<Rightarrow>
          if opts_applied (cfg_opts cfg) (cap_opts bdef)
          then (True, cfg\<lparr>cfg_byte := cap_val bdef\<rparr> # new_cfgs)
          else (case apply_opts (cfg_opts cfg) (cap_opts bdef) of
                  (False, _) \<Rightarrow> (found_free, new_cfgs)
                | (True, o2) \<Rightarrow>
                    (found_free, cfg\<lparr>cfg_opts := o2, cfg_byte := cap_val bdef\<rparr> # new_cfgs)))"

definition split_byte :: "Library \<Rightarrow> MemConfig \<Rightarrow> MemConfigs" where
  "split_byte lib cfg =
     (case byte_caps cfg (byte (ram_defs lib ! ram_def cfg)) of
        (found_free, new_cfgs) \<Rightarrow>
          new_cfgs @ (if \<not> found_free then [cfg\<lparr>cfg_byte := 0\<rparr>] else []))"

definition split_wr_width :: "Library \<Rightarrow> nat \<Rightarrow> MemConfig \<Rightarrow> MemConfigs" where
  "split_wr_width lib pidx cfg =
     (let pcfg = wr_ports cfg ! pidx;
          pdef = ports (ram_defs lib ! ram_def cfg) ! wr_port_def pcfg;
          wdefs = width (cap_val pdef)
      in concat (map (\<lambda>widx.
                        case apply_wrport_opts cfg pidx (wdefs ! widx) of
                          (False, _) \<Rightarrow> []
                        | (True, cfg2) \<Rightarrow>
                            [cfg2\<lparr>wr_ports := (wr_ports cfg2)
                               [pidx := (wr_ports cfg2 ! pidx)\<lparr>wr_width_def := widx\<rparr>]\<rparr>])
                     [0..<length wdefs]))"

definition split_rd_width :: "Library \<Rightarrow> nat \<Rightarrow> MemConfig \<Rightarrow> MemConfigs" where
  "split_rd_width lib pidx cfg =
     (let pcfg = rd_ports cfg ! pidx
      in if rd_wr_port pcfg \<noteq> -1
         then [set_rd_port cfg pidx
                 (pcfg\<lparr>rd_width_def := wr_width_def (wr_ports cfg ! nat (rd_wr_port pcfg))\<rparr>)]
         else
           let pdef = ports (ram_defs lib ! ram_def cfg) ! rd_port_def pcfg;
               wdefs = width (cap_val pdef)
           in concat (map (\<lambda>widx.
                             case apply_rdport_opts cfg pidx (wdefs ! widx) of
                               (False, _) \<Rightarrow> []
                             | (True, cfg2) \<Rightarrow>
                                 [set_rd_port cfg2 pidx
                                    ((rd_ports cfg2 ! pidx)\<lparr>rd_width_def := widx\<rparr>)])
                          [0..<length wdefs]))"

definition handle_geom_split :: "Mem \<Rightarrow> Library \<Rightarrow> MemConfigs \<Rightarrow> MemConfigs" where
  "handle_geom_split mem lib cfgs =
     (let cfgs = concat (map (split_dims lib) cfgs);
          cfgs = concat (map (split_byte lib) cfgs);
          cfgs = fold (\<lambda>pidx cfgs. concat (map (split_wr_width lib pidx) cfgs))
                      [0..<length (mem_wr_ports mem)] cfgs;
          cfgs = fold (\<lambda>pidx cfgs. concat (map (split_rd_width lib pidx) cfgs))
                      [0..<length (mem_rd_ports mem)] cfgs
      in cfgs)"

subsection \<open>Pre-geometry pruning\<close>

fun same_geom_wr :: "WrPortConfig list \<Rightarrow> WrPortConfig list \<Rightarrow> nat list \<Rightarrow> bool" where
  "same_geom_wr as bs [] = True"
| "same_geom_wr as bs (i # rest) =
     (let pa = as ! i; pb = bs ! i
      in if wr_rd_port pa \<noteq> wr_rd_port pb then False
         else if wr_port_def pa \<noteq> wr_port_def pb then False
         else if wr_width_def pa \<noteq> wr_width_def pb then False
         else same_geom_wr as bs rest)"

fun same_geom_rd :: "RdPortConfig list \<Rightarrow> RdPortConfig list \<Rightarrow> nat list \<Rightarrow> bool" where
  "same_geom_rd as bs [] = True"
| "same_geom_rd as bs (i # rest) =
     (let pa = as ! i; pb = bs ! i
      in if rd_wr_port pa \<noteq> rd_wr_port pb then False
         else if rd_port_def pa \<noteq> rd_port_def pb then False
         else if rd_width_def pa \<noteq> rd_width_def pb then False
         else same_geom_rd as bs rest)"

definition same_geom :: "MemConfig \<Rightarrow> MemConfig \<Rightarrow> bool" where
  "same_geom a b =
     (if ram_def a \<noteq> ram_def b then False
      else if dims_def a \<noteq> dims_def b then False
      else if cfg_byte a \<noteq> cfg_byte b then False
      else if \<not> same_geom_wr (wr_ports a) (wr_ports b) [0..<length (wr_ports a)] then False
      else same_geom_rd (rd_ports a) (rd_ports b) [0..<length (rd_ports a)])"

text \<open>
  One round of the outer loop of \<^verbatim>\<open>prune_pre_geom\<close>, for candidate \<open>i\<close>, on the
  vector \<^verbatim>\<open>keep\<close> of length \<open>i\<close>. The inner loop stops at the first kept \<open>j < i\<close> of the
  same geometry. When candidate \<open>i\<close> has the lower score the source executes
  \<^verbatim>\<open>keep[i] = false; keep.push_back(true);\<close>. The store addresses position \<open>i\<close>,
  one past the last element of \<^verbatim>\<open>keep\<close>: it changes no element, and the
  \<^verbatim>\<open>push_back\<close> that follows puts \<^verbatim>\<open>true\<close> at that position.
\<close>

definition prune_pre_step :: "MemConfigs \<Rightarrow> bool list \<Rightarrow> nat \<Rightarrow> bool list" where
  "prune_pre_step cfgs keep i =
     (case find (\<lambda>j. keep ! j \<and> same_geom (cfgs ! i) (cfgs ! j)) [0..<i] of
        Some j \<Rightarrow>
          if score_emu (cfgs ! i) < score_emu (cfgs ! j)
          then (if i < length keep then keep[i := False] else keep) @ [True]
          else keep @ [False]
      | None \<Rightarrow> keep @ [True])"

definition prune_pre_geom :: "MemConfigs \<Rightarrow> MemConfigs" where
  "prune_pre_geom cfgs =
     (let keep = fold (\<lambda>i keep. prune_pre_step cfgs keep i) [0..<length cfgs] []
      in map (\<lambda>i. cfgs ! i) (filter (\<lambda>i. keep ! i) [0..<length cfgs]))"

subsection \<open>Geometry search\<close>

text \<open>
  \<^verbatim>\<open>a << n\<close> on C integers, for a shift count that is not negative.
\<close>

definition shl :: "int \<Rightarrow> int \<Rightarrow> int" where
  "shl a n = a * 2 ^ nat n"

text \<open>
  The value of an \<^verbatim>\<open>int\<close> expression whose mathematical value is \<open>x\<close>, on a
  target with 32-bit two's complement \<^verbatim>\<open>int\<close> where the arithmetic wraps around.
\<close>

definition int32 :: "int \<Rightarrow> int" where
  "int32 x = (x + 2 ^ 31) mod 2 ^ 32 - 2 ^ 31"

text \<open>
  The conversion of a \<^verbatim>\<open>double\<close> to an \<^verbatim>\<open>int\<close> drops the fractional part.
\<close>

definition double_to_int :: "rat \<Rightarrow> int" where
  "double_to_int x = (if x \<ge> 0 then \<lfloor>x\<rfloor> else \<lceil>x\<rceil>)"

text \<open>
  \<^verbatim>\<open>SigSpec::extract(offset, length)\<close>.
\<close>

definition sig_extract :: "SigSpec \<Rightarrow> int \<Rightarrow> int \<Rightarrow> SigSpec" where
  "sig_extract sig offset len = take (nat len) (drop (nat offset) sig)"

text \<open>
  The byte boundaries: bit 0, and every bit \<open>i\<close> whose write enable differs from that
  of bit \<open>i - 1\<close> in a sub-word \<open>sub\<close> of a write port; the source lets \<open>sub\<close> run
  below \<^verbatim>\<open>port.wide_log2\<close>.
\<close>

definition byte_boundary :: "Mem \<Rightarrow> bool list" where
  "byte_boundary mem =
     map (\<lambda>i. i = 0 \<or>
               list_ex (\<lambda>port.
                  list_ex (\<lambda>sub. wr_en port ! (sub * nat (mem_width mem) + i) \<noteq>
                                  wr_en port ! (sub * nat (mem_width mem) + i - 1))
                          [0..<nat (wr_wide_log2 port)])
                 (mem_wr_ports mem))
         [0..<nat (mem_width mem)]"

text \<open>
  \<^verbatim>\<open>sort_and_unify\<close> leaves one copy of every bit of the enable signal.
\<close>

definition wren_size :: "Mem \<Rightarrow> int list" where
  "wren_size mem = map (\<lambda>port. int (length (remdups (wr_en port)))) (mem_wr_ports mem)"

definition xlat_width_range :: "MemoryDimsDef \<Rightarrow> int list \<Rightarrow> error + (int \<times> int)" where
  "xlat_width_range d widths =
     (if widths = [] then Inr (0, int (length (dbits d)) - 1)
      else case find (\<lambda>i. dbits d ! i = widths ! 0) [0..<length (dbits d)] of
             Some i \<Rightarrow> Inr (int i, int i + int (length widths) - 1)
           | None \<Rightarrow> Inl Aborted)"

fun collect :: "(error + 'a) list \<Rightarrow> error + 'a list" where
  "collect [] = Inr []"
| "collect (r # rs) =
     (case r of
        Inl e \<Rightarrow> Inl e
      | Inr x \<Rightarrow> (case collect rs of Inl e \<Rightarrow> Inl e | Inr xs \<Rightarrow> Inr (x # xs)))"

text \<open>
  The values \<^verbatim>\<open>handle_geom\<close> computes once for a candidate, before it iterates over
  the base widths.
\<close>

record GeomVars =
  wr_width_range :: "(int \<times> int) list"
  rd_width_range :: "(int \<times> int) list"
  byte_width_log2 :: int
  max_wide_log2 :: int
  wide_nu_start :: int
  wide_nu_end :: int

definition calc_byte_width_log2 :: "MemoryDimsDef \<Rightarrow> int \<Rightarrow> int" where
  "calc_byte_width_log2 d b =
     (if b = 0 then int (length (dbits d)) - 1
      else fold (\<lambda>i r. if b \<ge> dbits d ! i then int i else r) [0..<length (dbits d)] 0)"

definition uniform :: "Mem \<Rightarrow> MemWr \<Rightarrow> nat \<Rightarrow> bool" where
  "uniform mem port j =
     list_all (\<lambda>k. sig_extract (wr_en port) (int k * mem_width mem) (shl (mem_width mem) (int j)) =
                   sig_extract (wr_en port) ((int k + shl 1 (int j)) * mem_width mem)
                           (shl (mem_width mem) (int j)))
              (filter (\<lambda>k. k mod 2 ^ (j + 1) = 0) [0..<2 ^ nat (wr_wide_log2 port)])"

definition wide_nu_port :: "Mem \<Rightarrow> Library \<Rightarrow> MemConfig \<Rightarrow> nat \<Rightarrow> int \<times> int \<Rightarrow> int \<times> int" where
  "wide_nu_port mem lib cfg i st =
     (let port = mem_wr_ports mem ! i;
          pcfg = wr_ports cfg ! i;
          pdef = cap_val (ports (ram_defs lib ! ram_def cfg) ! wr_port_def pcfg);
          wdef = cap_val (width pdef ! wr_width_def pcfg);
          (nu_start, nu_end) = st;
          nu_start =
            (case find (\<lambda>j. \<not> uniform mem port j) [0..<nat (wr_wide_log2 port)] of
               Some j \<Rightarrow> if int j < nu_start then int j else nu_start
             | None \<Rightarrow> nu_start)
      in if wd_tied wdef \<and> wr_rd_port pcfg \<noteq> -1 then
           (let rport = mem_rd_ports mem ! nat (wr_rd_port pcfg)
            in if rd_wide_log2 rport > wr_wide_log2 port
               then (if wr_wide_log2 port < nu_start then wr_wide_log2 port else nu_start,
                     if rd_wide_log2 rport > nu_end then rd_wide_log2 rport else nu_end)
               else (nu_start, nu_end))
         else (nu_start, nu_end))"

definition geom_vars :: "Mem \<Rightarrow> Library \<Rightarrow> MemConfig \<Rightarrow> error + GeomVars" where
  "geom_vars mem lib cfg =
     (let rdef = ram_defs lib ! ram_def cfg;
          d = cap_val (dims rdef ! dims_def cfg)
      in case collect (map (\<lambda>pcfg.
                  xlat_width_range d
                    (wr_widths (cap_val (width (cap_val (ports rdef ! wr_port_def pcfg))
                                           ! wr_width_def pcfg))))
                (wr_ports cfg)) of
           Inl e \<Rightarrow> Inl e
         | Inr wr_range \<Rightarrow>
        (case collect (map (\<lambda>pcfg.
                  let wdef = cap_val (width (cap_val (ports rdef ! rd_port_def pcfg))
                                        ! rd_width_def pcfg)
                  in xlat_width_range d (if wd_tied wdef then wr_widths wdef else rd_widths wdef))
                (rd_ports cfg)) of
           Inl e \<Rightarrow> Inl e
         | Inr rd_range \<Rightarrow>
             (let max_wr_wide_log2 =
                    fold (\<lambda>port m. if wr_wide_log2 port > m then wr_wide_log2 port else m)
                         (mem_wr_ports mem) 0;
                  max_wide =
                    fold (\<lambda>port m. if rd_wide_log2 port > m then rd_wide_log2 port else m)
                         (mem_rd_ports mem) max_wr_wide_log2;
                  (nu_start, nu_end) =
                    fold (wide_nu_port mem lib cfg) [0..<length (mem_wr_ports mem)]
                         (max_wide, max_wr_wide_log2)
              in Inr \<lparr>wr_width_range = wr_range, rd_width_range = rd_range,
                      byte_width_log2 = calc_byte_width_log2 d (cfg_byte cfg),
                      max_wide_log2 = max_wide,
                      wide_nu_start = nu_start, wide_nu_end = nu_end\<rparr>)))"

text \<open>
  The number of hard wide bits below \<^verbatim>\<open>wide_log2\<close>: the loop
  \<^verbatim>\<open>for (i = 0; i < port.wide_log2; i++) if (mask & 1 << i) w++;\<close>.
\<close>

definition count_hw :: "int \<Rightarrow> int \<Rightarrow> int" where
  "count_hw wide_log2 hwm = int (length (filter (\<lambda>i. bit hwm i) [0..<nat wide_log2]))"

definition min_width_step :: "Mem \<Rightarrow> GeomVars \<Rightarrow> int \<Rightarrow> int \<Rightarrow> nat \<Rightarrow> bool \<times> int \<Rightarrow> bool \<times> int" where
  "min_width_step mem gv base hwm pidx st =
     (case st of (min_width_ok, min_width_bit) \<Rightarrow>
        let port = mem_wr_ports mem ! pidx;
            w = base + count_hw (wr_wide_log2 port) hwm
        in if w < fst (wr_width_range gv ! pidx) \<and> w < byte_width_log2 gv
           then (False, if min_width_bit > wr_wide_log2 port then wr_wide_log2 port
                        else min_width_bit)
           else (min_width_ok, min_width_bit))"

definition min_width_check :: "Mem \<Rightarrow> GeomVars \<Rightarrow> int \<Rightarrow> int \<Rightarrow> bool \<times> int" where
  "min_width_check mem gv base hwm =
     fold (min_width_step mem gv base hwm) [0..<length (mem_wr_ports mem)]
          (True, wide_nu_start gv)"

definition max_width_ok :: "Mem \<Rightarrow> GeomVars \<Rightarrow> int \<Rightarrow> int \<Rightarrow> bool" where
  "max_width_ok mem gv base new_hw_mask =
     (list_all (\<lambda>pidx. \<not> base + count_hw (wr_wide_log2 (mem_wr_ports mem ! pidx)) new_hw_mask
                          > snd (wr_width_range gv ! pidx))
               [0..<length (mem_wr_ports mem)] \<and>
      list_all (\<lambda>pidx. \<not> base + count_hw (rd_wide_log2 (mem_rd_ports mem ! pidx)) new_hw_mask
                          > snd (rd_width_range gv ! pidx))
               [0..<length (mem_rd_ports mem)])"

text \<open>
  One scan for the next hard wide bit: from \<open>scan_from - 1\<close> down to \<open>scan_to\<close>, the
  first bit that is not in the mask; the new mask if it passes the maximum widths.
  \<open>None\<close> is the label \<^verbatim>\<open>hw_bit_failed\<close>.
\<close>

definition scan_hw :: "Mem \<Rightarrow> GeomVars \<Rightarrow> int \<Rightarrow> int \<Rightarrow> int \<Rightarrow> int \<Rightarrow> int option" where
  "scan_hw mem gv base hwm scan_from scan_to =
     (case find (\<lambda>b. \<not> bit hwm b) (rev [nat scan_to..<nat scan_from]) of
        None \<Rightarrow> None
      | Some b \<Rightarrow>
          (let new_hw_mask = set_bit b hwm
           in if max_width_ok mem gv base new_hw_mask then Some new_hw_mask else None))"

text \<open>
  The label \<^verbatim>\<open>next_hw\<close>. A failed scan with \<^verbatim>\<open>retry\<close> sets
  \<^verbatim>\<open>byte_failed\<close> and jumps back to the label, where (\<^verbatim>\<open>min_width_ok\<close> holding) the
  \<^verbatim>\<open>byte_failed\<close> branch is taken, with no further retry. The result is the new mask,
  or \<open>None\<close> for \<^verbatim>\<open>bw_done\<close>, and \<^verbatim>\<open>byte_failed\<close>.
\<close>

definition next_hw ::
  "Mem \<Rightarrow> GeomVars \<Rightarrow> int \<Rightarrow> int \<Rightarrow> int \<Rightarrow> bool \<Rightarrow> int \<Rightarrow> bool \<Rightarrow> int option \<times> bool" where
  "next_hw mem gv base hwm hard_wide_num min_width_ok min_width_bit byte_failed =
     (if \<not> min_width_ok then (scan_hw mem gv base hwm min_width_bit 0, byte_failed)
      else if byte_failed
      then (scan_hw mem gv base hwm (max_wide_log2 gv) (wide_nu_end gv), byte_failed)
      else if base + hard_wide_num < byte_width_log2 gv then
        (case scan_hw mem gv base hwm (wide_nu_start gv) 0 of
           Some m \<Rightarrow> (Some m, byte_failed)
         | None \<Rightarrow> (scan_hw mem gv base hwm (max_wide_log2 gv) (wide_nu_end gv), True))
      else (scan_hw mem gv base hwm (max_wide_log2 gv) 0, byte_failed))"

text \<open>
  The running best: \<^verbatim>\<open>got_config\<close>, \<^verbatim>\<open>best_cost\<close> (declared \<^verbatim>\<open>int\<close> in the
  source, so the assignment \<^verbatim>\<open>best_cost = cost\<close> truncates) and the candidate.
\<close>

type_synonym Best = "bool \<times> int \<times> MemConfig"

definition emu_w :: "int \<Rightarrow> int \<Rightarrow> int \<Rightarrow> int" where
  "emu_w emu_wide_bits wide_log2 hwm =
     emu_wide_bits - int (length (filter (\<lambda>i. \<not> bit hwm i) [0..<nat wide_log2]))"

definition calc_score_demux :: "Mem \<Rightarrow> int \<Rightarrow> int \<Rightarrow> int \<Rightarrow> int" where
  "calc_score_demux mem emu_wide_bits mult_a hwm =
     sum_list (map (\<lambda>i. let w = emu_w emu_wide_bits (wr_wide_log2 (mem_wr_ports mem ! i)) hwm
                         in if w \<noteq> 0 \<or> mult_a \<noteq> 1 then shl mult_a w * wren_size mem ! i
                            else 0)
                   [0..<length (mem_wr_ports mem)])"

definition calc_score_mux :: "Mem \<Rightarrow> int \<Rightarrow> int \<Rightarrow> int \<Rightarrow> int" where
  "calc_score_mux mem emu_wide_bits mult_a hwm =
     sum_list (map (\<lambda>port. (shl mult_a (emu_w emu_wide_bits (rd_wide_log2 port) hwm) - 1)
                            * int (length (rd_data port)))
                   (mem_rd_ports mem))"

text \<open>
  The body of \<^verbatim>\<open>if (min_width_ok)\<close> up to the comparison: the configuration that
  is evaluated, with its replication, scores and cost.
\<close>

definition geom_candidate ::
  "Mem \<Rightarrow> MemoryDimsDef \<Rightarrow> GeomVars \<Rightarrow> int \<Rightarrow> int \<Rightarrow> int list \<Rightarrow> int \<Rightarrow> int \<Rightarrow> MemConfig \<Rightarrow> MemConfig" where
  "geom_candidate mem d gv base unit_log2 swz hwm hard_wide_num cfg =
     (let unit_width = dbits d ! nat unit_log2;
          emu_wide_bits = max_wide_log2 gv - hard_wide_num;
          mult_wide = shl 1 emu_wide_bits;
          addrs = shl 1 (abits d - base + emu_wide_bits);
          min_addr = start_offset mem sdiv addrs;
          max_addr = (start_offset mem + mem_size mem - 1) sdiv addrs;
          mult_a = max_addr - min_addr + 1;
          bits = mult_a * mult_wide * int (length swz);
          repl = (bits + unit_width - 1) sdiv unit_width;
          score_demux_v = calc_score_demux mem emu_wide_bits mult_a hwm;
          score_mux_v = calc_score_mux mem emu_wide_bits mult_a hwm;
          cost_v = dims_cost d * of_int repl * of_int (repl_port cfg)
                   + of_int score_mux_v * (1 / 2)
                   + of_int score_demux_v * (1 / 2)
                   + of_int (score_emu cfg * 2)
      in cfg\<lparr>base_width_log2 := base, unit_width_log2 := unit_log2, swizzle := swz,
             hard_wide_mask := hwm,
             emu_wide_mask := and (shl 1 (max_wide_log2 gv) - 1) (not hwm),
             repl_d := repl, score_demux := score_demux_v, score_mux := score_mux_v,
             cost := cost_v\<rparr>)"

definition geom_eval ::
  "Mem \<Rightarrow> MemoryDimsDef \<Rightarrow> GeomVars \<Rightarrow> int \<Rightarrow> int \<Rightarrow> int list \<Rightarrow> int \<Rightarrow> int \<Rightarrow> Best \<Rightarrow> Best" where
  "geom_eval mem d gv base unit_log2 swz hwm hard_wide_num best =
     (case best of (got_config, best_cost, cfg) \<Rightarrow>
        let cand = geom_candidate mem d gv base unit_log2 swz hwm hard_wide_num cfg
        in if \<not> got_config \<or> cost cand < of_int best_cost
           then (True, double_to_int (cost cand), cand)
           else best)"

text \<open>
  The loop \<^verbatim>\<open>while (1)\<close> of one base width: evaluate the current mask if the minimum
  widths hold, stop for tied dimensions, otherwise add the next hard wide bit or leave
  through \<^verbatim>\<open>bw_done\<close>.
\<close>

function hw_loop ::
  "Mem \<Rightarrow> MemoryDimsDef \<Rightarrow> GeomVars \<Rightarrow> int \<Rightarrow> int \<Rightarrow> int list \<Rightarrow> int \<Rightarrow> int \<Rightarrow> bool \<Rightarrow> Best \<Rightarrow> Best" where
  "hw_loop mem d gv base unit_log2 swz hwm hard_wide_num byte_failed best =
     (case min_width_check mem gv base hwm of
        (min_width_ok, min_width_bit) \<Rightarrow>
          (let best' = (if min_width_ok
                        then geom_eval mem d gv base unit_log2 swz hwm hard_wide_num best
                        else best)
           in if dims_tied d then best'
              else (case next_hw mem gv base hwm hard_wide_num min_width_ok min_width_bit
                           byte_failed of
                      (None, _) \<Rightarrow> best'
                    | (Some new_hw_mask, byte_failed') \<Rightarrow>
                        hw_loop mem d gv base unit_log2 swz new_hw_mask (hard_wide_num + 1)
                          byte_failed' best')))"
  by pat_completeness auto

text \<open>
  The swizzle of one base width: the source bits in order, padded with \<open>-1\<close> to a
  multiple of \<^verbatim>\<open>effective_byte\<close> before every byte boundary and at the end. The
  loop \<^verbatim>\<open>while (GetSize(swizzle) % effective_byte) swizzle.push_back(-1)\<close> adds
  \<open>(- length) mod effective_byte\<close> pads.
\<close>

definition pad_swizzle :: "int \<Rightarrow> int list \<Rightarrow> int list" where
  "pad_swizzle effective_byte swz =
     swz @ replicate (nat ((- int (length swz)) mod effective_byte)) (-1)"

definition make_swizzle :: "Mem \<Rightarrow> int \<Rightarrow> int list" where
  "make_swizzle mem effective_byte =
     pad_swizzle effective_byte
       (fold (\<lambda>i swz. (if byte_boundary mem ! i then pad_swizzle effective_byte swz else swz)
                       @ [int i])
             [0..<nat (mem_width mem)] [])"

definition clamp_unit :: "GeomVars \<Rightarrow> int \<Rightarrow> int" where
  "clamp_unit gv base =
     fold (\<lambda>x u. if u > snd x then snd x else u) (rd_width_range gv)
       (fold (\<lambda>x u. if u > snd x then snd x else u) (wr_width_range gv) base)"

text \<open>
  The loop over the base widths. A division by an \<^verbatim>\<open>effective_byte\<close> of zero stops
  the process and is reported as \<open>Aborted\<close>.
\<close>

fun base_loop :: "Mem \<Rightarrow> MemoryDimsDef \<Rightarrow> GeomVars \<Rightarrow> nat list \<Rightarrow> Best \<Rightarrow> error + Best" where
  "base_loop mem d gv [] best = Inr best"
| "base_loop mem d gv (b # rest) best =
     (let base = int b;
          unit_log2 = clamp_unit gv base
      in if unit_log2 \<noteq> base \<and> fst best then Inr best
         else
           (let unit_width = dbits d ! nat unit_log2;
                b0 = cfg_byte (snd (snd best));
                effective_byte = (if b0 = 0 \<or> b0 > unit_width then unit_width else b0);
                effective_byte = (if mem_wr_ports mem = [] then 1 else effective_byte)
            in if effective_byte = 0 then Inl Aborted
               else if unit_width smod effective_byte \<noteq> 0 then Inl AssertFailed
               else base_loop mem d gv rest
                      (hw_loop mem d gv base unit_log2 (make_swizzle mem effective_byte)
                         0 0 False best)))"

definition start_base :: "MemoryDimsDef \<Rightarrow> GeomVars \<Rightarrow> int" where
  "start_base d gv =
     fold (\<lambda>x s. if fst x < s then fst x else s) (rd_width_range gv)
       (fold (\<lambda>x s. if fst x < s then fst x else s) (wr_width_range gv)
          (int (length (dbits d)) - 1))"

definition handle_geom_cfg :: "Mem \<Rightarrow> Library \<Rightarrow> MemConfig \<Rightarrow> error + MemConfig" where
  "handle_geom_cfg mem lib cfg =
     (let d = cap_val (dims (ram_defs lib ! ram_def cfg) ! dims_def cfg)
      in case geom_vars mem lib cfg of
           Inl e \<Rightarrow> Inl e
         | Inr gv \<Rightarrow>
             (case base_loop mem d gv [nat (start_base d gv)..<length (dbits d)]
                     (False, 0, cfg) of
                Inl e \<Rightarrow> Inl e
              | Inr (got_config, best_cost, cfg') \<Rightarrow>
                  if \<not> got_config then Inl AssertFailed else Inr cfg'))"

definition handle_geom :: "Mem \<Rightarrow> Library \<Rightarrow> MemConfigs \<Rightarrow> error + MemConfigs" where
  "handle_geom mem lib cfgs = collect (map (handle_geom_cfg mem lib) cfgs)"

subsection \<open>Post-geometry pruning\<close>

definition resource_key :: "Library \<Rightarrow> MemConfig \<Rightarrow> string" where
  "resource_key lib cfg =
     (let rdef = ram_defs lib ! ram_def cfg;
          d = cap_val (dims rdef ! dims_def cfg)
      in if resource_name d \<noteq> [] then resource_name d
         else (case ram_kind rdef of
                 Distributed \<Rightarrow> ''[distributed]''
               | Block \<Rightarrow> ''[block]''
               | Huge \<Rightarrow> ''[huge]''
               | _ \<Rightarrow> []))"

definition prune_post_step ::
  "Library \<Rightarrow> MemConfigs \<Rightarrow> nat \<Rightarrow> bool list \<times> (string \<times> nat) list \<Rightarrow> bool list \<times> (string \<times> nat) list" where
  "prune_post_step lib cfgs i st =
     (case st of (keep, rsrc) \<Rightarrow>
        let k = resource_key lib (cfgs ! i)
        in case map_of rsrc k of
             None \<Rightarrow> (keep @ [True], (k, i) # rsrc)
           | Some j \<Rightarrow>
               if cost (cfgs ! i) < cost (cfgs ! j)
               then (keep[j := False] @ [True],
                     map (\<lambda>(k', v). if k' = k then (k', i) else (k', v)) rsrc)
               else (keep @ [False], rsrc))"

definition prune_post_geom :: "Library \<Rightarrow> MemConfigs \<Rightarrow> MemConfigs" where
  "prune_post_geom lib cfgs =
     (let keep = fst (fold (prune_post_step lib cfgs) [0..<length cfgs] ([], []))
      in map (\<lambda>i. cfgs ! i) (filter (\<lambda>i. keep ! i) [0..<length cfgs]))"

subsection \<open>The constructor of \<^verbatim>\<open>MemMapping\<close> and the selection in \<^verbatim>\<open>execute\<close>\<close>

text \<open>
  The state the constructor leaves behind: \<^verbatim>\<open>logic_ok\<close>, \<^verbatim>\<open>logic_cost\<close> and the
  surviving candidates.
\<close>

record MemMapping =
  logic_ok :: bool
  logic_cost :: rat
  cfgs :: MemConfigs

definition emulation_stages :: "Mem \<Rightarrow> Library \<Rightarrow> Oracles \<Rightarrow> MemConfigs \<Rightarrow> error + MemConfigs" where
  "emulation_stages mem lib orc cs =
     (let cs = handle_rd_ports mem lib orc cs;
          cs = handle_trans mem lib orc cs;
          cs = handle_priority mem lib cs;
          cs = handle_rd_init mem lib cs;
          cs = handle_rd_arst mem lib cs;
          cs = handle_rd_srst mem lib cs
      in score_emu_ports lib cs)"

definition geometry_stages :: "Mem \<Rightarrow> Library \<Rightarrow> MemConfigs \<Rightarrow> error + MemConfigs" where
  "geometry_stages mem lib cs =
     (let cs = handle_geom_split mem lib cs;
          cs = prune_pre_geom cs
      in case handle_geom mem lib cs of
           Inl e \<Rightarrow> Inl e
         | Inr cs \<Rightarrow> Inr (prune_post_geom lib cs))"

definition after_binding :: "Mem \<Rightarrow> Library \<Rightarrow> Oracles \<Rightarrow> MemConfigs \<Rightarrow> error + MemConfigs" where
  "after_binding mem lib orc cs =
     (case emulation_stages mem lib orc cs of
        Inl e \<Rightarrow> Inl e
      | Inr cs \<Rightarrow> geometry_stages mem lib cs)"

text \<open>
  The constructor. \<^verbatim>\<open>logic_cost = mem.width * mem.size\<close> is a product of two
  \<^verbatim>\<open>int\<close>, formed in \<^verbatim>\<open>int\<close> and then widened to \<^verbatim>\<open>double\<close>.
\<close>

definition new_MemMapping ::
  "Mem \<Rightarrow> Library \<Rightarrow> Oracles \<Rightarrow> RamKind \<Rightarrow> string \<Rightarrow> error + MemMapping" where
  "new_MemMapping mem lib orc kind style_s =
     (let ok = determine_logic_ok kind mem;
          lc = of_int (int32 (mem_width mem * mem_size mem))
      in if kind = Logic then Inr \<lparr>logic_ok = ok, logic_cost = lc, cfgs = []\<rparr>
         else
           (case handle_ram_kind lib kind style_s
                   (map new_MemConfig [0..<length (ram_defs lib)]) of
              Inl e \<Rightarrow> Inl e
            | Inr cs \<Rightarrow>
                (case handle_ram_style lib style_s cs of
                   Inl e \<Rightarrow> Inl e
                 | Inr cs \<Rightarrow>
                     (case after_binding mem lib orc
                             (handle_wr_ports mem lib (handle_init mem lib cs)) of
                        Inl e \<Rightarrow> Inl e
                      | Inr cs \<Rightarrow> Inr \<lparr>logic_ok = ok, logic_cost = lc, cfgs = cs\<rparr>))))"

text \<open>
  The selection loop of \<^verbatim>\<open>execute\<close>. \<^verbatim>\<open>best\<close> is declared \<^verbatim>\<open>int\<close>: each
  assignment to it truncates the cost. The result is \<^verbatim>\<open>idx\<close>: \<open>-1\<close> leaves the
  memory to the FF mapping, any other value is the index of the candidate that is
  emitted.
\<close>

definition select_step :: "MemConfigs \<Rightarrow> nat \<Rightarrow> int \<times> int \<Rightarrow> int \<times> int" where
  "select_step cs i st =
     (case st of (idx, best) \<Rightarrow>
        if cost (cs ! i) < of_int best then (int i, double_to_int (cost (cs ! i)))
        else (idx, best))"

definition select_cfg :: "MemMapping \<Rightarrow> error + int" where
  "select_cfg m =
     (let idx = -1;
          best = double_to_int (logic_cost m)
      in if \<not> logic_ok m \<and> cfgs m = [] then Inl NoValidMapping
         else
           (let (idx, best) = (if \<not> logic_ok m then (0, double_to_int (cost (cfgs m ! 0)))
                               else (idx, best))
            in Inr (fst (fold (select_step (cfgs m)) [0..<length (cfgs m)] (idx, best)))))"

text \<open>
  The body of the loop of \<^verbatim>\<open>execute\<close> for one memory: the index chosen and the
  candidates it indexes.
\<close>

definition execute_mem ::
  "Mem \<Rightarrow> Library \<Rightarrow> Oracles \<Rightarrow> RamKind \<Rightarrow> string \<Rightarrow> error + (int \<times> MemConfigs)" where
  "execute_mem mem lib orc kind style_s =
     (case new_MemMapping mem lib orc kind style_s of
        Inl e \<Rightarrow> Inl e
      | Inr m \<Rightarrow>
          (case select_cfg m of
             Inl e \<Rightarrow> Inl e
           | Inr idx \<Rightarrow> Inr (idx, cfgs m)))"

subsection \<open>The priority requirement, as specified\<close>

text \<open>
  What the specification asks of a candidate for write ports \<open>w1\<close> and \<open>w2\<close> with
  \<^verbatim>\<open>w2.priority_mask[w1]\<close> set: a \<^verbatim>\<open>wrprio\<close> capability of the port group of
  \<open>w2\<close>, named as the first alias of the port group bound to write port \<open>w1\<close>, has its
  options applied, or \<open>w1\<close> is in the \<^verbatim>\<open>emu_prio\<close> list of \<open>w2\<close>.
\<close>

definition priority_upheld :: "Library \<Rightarrow> MemConfig \<Rightarrow> nat \<Rightarrow> nat \<Rightarrow> bool" where
  "priority_upheld lib cfg w1 w2 =
     (let rdef = ram_defs lib ! ram_def cfg;
          w1def = cap_val (ports rdef ! wr_port_def (wr_ports cfg ! w1));
          w2def = cap_val (ports rdef ! wr_port_def (wr_ports cfg ! w2))
      in list_ex (\<lambda>prdef. cap_val prdef = names w1def ! 0 \<and> wrport_opts_applied cfg w2 prdef)
                 (wrprio w2def)
         \<or> w1 \<in> set (emu_prio (wr_ports cfg ! w2)))"

subsection \<open>The emulation score and the port replication, as specified\<close>

text \<open>
  The table of the specification: three points per write port under
  \<^verbatim>\<open>emu_read_first\<close>, one per \<^verbatim>\<open>emu_prio\<close> entry, three per \<^verbatim>\<open>emu_trans\<close>
  entry, three per read port with \<^verbatim>\<open>emu_en\<close>, two per read port for each of
  \<^verbatim>\<open>emu_init\<close>, \<^verbatim>\<open>emu_arst\<close>, \<^verbatim>\<open>emu_srst\<close>, one per read port with
  \<^verbatim>\<open>emu_srst_en_prio\<close>, one per unshared read port.
\<close>

definition count_rd :: "(RdPortConfig \<Rightarrow> bool) \<Rightarrow> MemConfig \<Rightarrow> int" where
  "count_rd P cfg = int (length (filter P (rd_ports cfg)))"

definition score_emu_spec :: "MemConfig \<Rightarrow> int" where
  "score_emu_spec cfg =
     (if emu_read_first cfg then 3 * int (length (wr_ports cfg)) else 0)
     + (\<Sum>p\<leftarrow>wr_ports cfg. int (length (emu_prio p)))
     + 3 * (\<Sum>p\<leftarrow>rd_ports cfg. int (length (emu_trans p)))
     + 3 * count_rd emu_en cfg
     + 2 * (count_rd emu_init cfg + count_rd emu_arst cfg + count_rd emu_srst cfg)
     + count_rd emu_srst_en_prio cfg
     + count_rd (\<lambda>p. rd_wr_port p = -1) cfg"

text \<open>
  The usage of port group \<open>i\<close>: the write ports bound to it, and the unshared read
  ports bound to it. \<open>slots\<close> is the number of its aliases.
\<close>

definition wr_usage :: "MemConfig \<Rightarrow> nat \<Rightarrow> int" where
  "wr_usage cfg i = int (length (filter (\<lambda>p. wr_port_def p = i) (wr_ports cfg)))"

definition rd_usage :: "MemConfig \<Rightarrow> nat \<Rightarrow> int" where
  "rd_usage cfg i =
     int (length (filter (\<lambda>p. rd_wr_port p = -1 \<and> rd_port_def p = i) (rd_ports cfg)))"

definition slots :: "Library \<Rightarrow> MemConfig \<Rightarrow> nat \<Rightarrow> int" where
  "slots lib cfg i = int (length (names (cap_val (ports (ram_defs lib ! ram_def cfg) ! i))))"

definition repl_port_spec :: "Library \<Rightarrow> MemConfig \<Rightarrow> int" where
  "repl_port_spec lib cfg =
     Max (set (1 # map (\<lambda>i. \<lceil>rat_of_int (rd_usage cfg i) /
                               rat_of_int (slots lib cfg i - wr_usage cfg i)\<rceil>)
                       (filter (\<lambda>i. rd_usage cfg i > 0)
                               [0..<length (ports (ram_defs lib ! ram_def cfg))])))"

text \<open>
  The two assertions of the scorer: no port group has more write ports than aliases,
  and a group that serves unshared read ports has an alias left for them.
\<close>

definition port_space_ok :: "Library \<Rightarrow> MemConfig \<Rightarrow> bool" where
  "port_space_ok lib cfg =
     list_all (\<lambda>i. wr_usage cfg i \<le> slots lib cfg i \<and>
                    (rd_usage cfg i = 0 \<or> wr_usage cfg i < slots lib cfg i))
              [0..<length (ports (ram_defs lib ! ram_def cfg))]"

text \<open>
  The indices a candidate holds are indices into the library: the scorer subscripts
  the usage vectors with them.
\<close>

definition ports_in_range :: "Library \<Rightarrow> MemConfig \<Rightarrow> bool" where
  "ports_in_range lib cfg =
     (ram_def cfg < length (ram_defs lib) \<and>
      list_all (\<lambda>p. wr_port_def p < length (ports (ram_defs lib ! ram_def cfg))) (wr_ports cfg) \<and>
      list_all (\<lambda>p. rd_port_def p < length (ports (ram_defs lib ! ram_def cfg))) (rd_ports cfg))"

definition scored :: "Library \<Rightarrow> MemConfig \<Rightarrow> MemConfig" where
  "scored lib cfg = cfg\<lparr>score_emu := score_emu_spec cfg, repl_port := repl_port_spec lib cfg\<rparr>"

subsection \<open>The enable binding of a shared read port, as specified\<close>

text \<open>
  The rules of the specification for a read port \<open>r\<close> that shares the \<^verbatim>\<open>srsw\<close>
  group of write port \<open>w\<close>, one per \<^verbatim>\<open>rden\<close> kind: \<open>None\<close> emulates the enable
  unless the enable of the memory port is the constant 1, \<open>Any\<close> asks for nothing,
  \<open>WriteImplies\<close> emulates the enable unless \<open>wr_implies_rd(w,r)\<close> holds,
  \<open>WriteExcludes\<close> is dropped unless \<open>wr_excludes_rd(w,r)\<close> holds. The enable
  input of the cell is wired for every kind but \<open>None\<close>.
\<close>

definition rden_kept_spec :: "Oracles \<Rightarrow> nat \<Rightarrow> nat \<Rightarrow> RdEnKind \<Rightarrow> bool" where
  "rden_kept_spec orc w r k =
     (if k = WriteExcludes then get_wr_excludes_rd orc w r else True)"

definition emu_en_spec :: "Oracles \<Rightarrow> MemRd \<Rightarrow> nat \<Rightarrow> nat \<Rightarrow> RdEnKind \<Rightarrow> bool" where
  "emu_en_spec orc port w r k =
     (case k of
        RdEnNone \<Rightarrow> rd_en port \<noteq> [ConstBit S1]
      | RdEnAny \<Rightarrow> False
      | WriteImplies \<Rightarrow> \<not> get_wr_implies_rd orc w r
      | WriteExcludes \<Rightarrow> False)"

definition emit_en_spec :: "RdEnKind \<Rightarrow> bool" where
  "emit_en_spec k = (k \<noteq> RdEnNone)"

text \<open>
  The configuration \<open>pc\<close> of read port \<open>r\<close> carries the flags of kind \<open>k\<close>, and
  \<open>k\<close> is not a kind that is dropped.
\<close>

definition rden_flags_spec ::
  "Oracles \<Rightarrow> MemRd \<Rightarrow> nat \<Rightarrow> nat \<Rightarrow> RdPortConfig \<Rightarrow> RdEnKind \<Rightarrow> bool" where
  "rden_flags_spec orc port w r pc k =
     (rden_kept_spec orc w r k \<and>
      emu_en pc = emu_en_spec orc port w r k \<and>
      emit_en pc = emit_en_spec k)"

text \<open>
  Read port \<open>r\<close> of a candidate is bound shared with write port \<open>w\<close>, on a group
  of kind \<^verbatim>\<open>srsw\<close>.
\<close>

definition shared_on_srsw :: "Library \<Rightarrow> MemConfig \<Rightarrow> nat \<Rightarrow> nat \<Rightarrow> bool" where
  "shared_on_srsw lib cfg r w =
     (rd_wr_port (rd_ports cfg ! r) = int w \<and>
      pg_kind (cap_val (ports (ram_defs lib ! ram_def cfg) !
                          rd_port_def (rd_ports cfg ! r))) = Srsw)"

text \<open>
  What the binding of a read port records of its pairing and its enable: the write
  port it is paired with, \<^verbatim>\<open>emu_en\<close> and \<^verbatim>\<open>emit_en\<close> of the port configuration
  pushed last.
\<close>

definition bound_rden :: "MemConfig \<Rightarrow> int \<times> bool \<times> bool" where
  "bound_rden cfg =
     (rd_wr_port (last (rd_ports cfg)), emu_en (last (rd_ports cfg)),
      emit_en (last (rd_ports cfg)))"

text \<open>
  For the induction over the read ports: the configuration \<open>pc\<close> of read port
  \<open>r\<close>, in a candidate on RAM \<open>ram\<close>, carries the flags of some \<^verbatim>\<open>rden\<close>
  capability of its group if it is shared on an \<^verbatim>\<open>srsw\<close> group.
\<close>

definition rden_port_ok ::
  "Mem \<Rightarrow> Library \<Rightarrow> Oracles \<Rightarrow> nat \<Rightarrow> nat \<Rightarrow> RdPortConfig \<Rightarrow> bool" where
  "rden_port_ok mem lib orc ram r pc =
     (\<forall>w. rd_wr_port pc = int w \<and>
          pg_kind (cap_val (ports (ram_defs lib ! ram) ! rd_port_def pc)) = Srsw \<longrightarrow>
          list_ex (\<lambda>endef. rden_flags_spec orc (mem_rd_ports mem ! r) w r pc (cap_val endef))
                  (rden (cap_val (ports (ram_defs lib ! ram) ! rd_port_def pc))))"

subsection \<open>The transparency requirement, as specified\<close>

text \<open>
  A pair of a read port \<open>r\<close> and a write port \<open>w\<close> carries a transparency requirement
  in a candidate when both ports are clocked, on the same clock signal and polarity,
  \<^verbatim>\<open>transparency_mask[w]\<close> of \<open>r\<close> is set, and the pair is not skipped for an undefined
  collision (\<^verbatim>\<open>collision_x_mask[w]\<close> without \<^verbatim>\<open>emu_read_first\<close>).
\<close>

definition trans_required :: "Mem \<Rightarrow> MemConfig \<Rightarrow> nat \<Rightarrow> nat \<Rightarrow> bool" where
  "trans_required mem cfg r w =
     (let rport = mem_rd_ports mem ! r; wport = mem_wr_ports mem ! w
      in rd_clk_enable rport \<and> wr_clk_enable wport \<and> rd_clk rport = wr_clk wport \<and>
         rd_clk_polarity rport = wr_clk_polarity wport \<and>
         transparency_mask rport ! w \<and>
         \<not> (collision_x_mask rport ! w \<and> \<not> emu_read_first cfg))"

text \<open>
  The requirement is met when a \<^verbatim>\<open>wrtrans\<close> capability of the group of \<open>w\<close>, of kind
  \<open>New\<close> and with a target that matches the pairing of the two ports, has its options
  applied in the candidate, or \<open>w\<close> is in the \<^verbatim>\<open>emu_trans\<close> list of \<open>r\<close>, or
  \<^verbatim>\<open>emu_read_first\<close> is set.
\<close>

definition transparency_upheld :: "Library \<Rightarrow> MemConfig \<Rightarrow> nat \<Rightarrow> nat \<Rightarrow> bool" where
  "transparency_upheld lib cfg r w =
     (let rdef = ram_defs lib ! ram_def cfg;
          wpdef = cap_val (ports rdef ! wr_port_def (wr_ports cfg ! w));
          rpdef = cap_val (ports rdef ! rd_port_def (rd_ports cfg ! r))
      in list_ex (\<lambda>tdef. trans_kind (cap_val tdef) = New \<and>
                          trans_target_ok cfg rpdef r w (cap_val tdef) \<and>
                          wrport_opts_applied cfg w tdef)
                 (wrtrans wpdef)
         \<or> w \<in> set (emu_trans (rd_ports cfg ! r))
         \<or> emu_read_first cfg)"

text \<open>
  The binders leave one port configuration per port of the memory.
\<close>

definition ports_bound :: "Mem \<Rightarrow> MemConfig \<Rightarrow> bool" where
  "ports_bound mem cfg =
     (length (rd_ports cfg) = length (mem_rd_ports mem) \<and>
      length (wr_ports cfg) = length (mem_wr_ports mem))"

subsection \<open>Notions for the proof of the transparency invariant\<close>

text \<open>What a later step of the transparency handler may change in a candidate.\<close>

definition cfg_extends :: "MemConfig \<Rightarrow> MemConfig \<Rightarrow> bool" where
  "cfg_extends cfg cfg' \<longleftrightarrow>
     ram_def cfg' = ram_def cfg \<and> emu_read_first cfg' = emu_read_first cfg \<and>
     length (rd_ports cfg') = length (rd_ports cfg) \<and>
     length (wr_ports cfg') = length (wr_ports cfg) \<and>
     (\<forall>k v. map_of (cfg_opts cfg) k = Some v \<longrightarrow> map_of (cfg_opts cfg') k = Some v) \<and>
     (\<forall>i < length (wr_ports cfg).
        wr_port_def (wr_ports cfg' ! i) = wr_port_def (wr_ports cfg ! i) \<and>
        wr_rd_port (wr_ports cfg' ! i) = wr_rd_port (wr_ports cfg ! i) \<and>
        (\<forall>k v. map_of (wr_portopts (wr_ports cfg ! i)) k = Some v \<longrightarrow>
               map_of (wr_portopts (wr_ports cfg' ! i)) k = Some v)) \<and>
     (\<forall>i < length (rd_ports cfg).
        rd_port_def (rd_ports cfg' ! i) = rd_port_def (rd_ports cfg ! i) \<and>
        set (emu_trans (rd_ports cfg ! i)) \<subseteq> set (emu_trans (rd_ports cfg' ! i)))"

text \<open>The invariant of the two loops: the requirement holds for the pairs in \<open>S\<close>.\<close>

definition trans_inv :: "Mem \<Rightarrow> Library \<Rightarrow> (nat \<times> nat) set \<Rightarrow> MemConfig \<Rightarrow> bool" where
  "trans_inv mem lib S cfg \<longleftrightarrow>
     ports_bound mem cfg \<and>
     (\<forall>(r, w)\<in>S. r < length (mem_rd_ports mem) \<and> w < length (mem_wr_ports mem) \<longrightarrow>
        trans_required mem cfg r w \<longrightarrow> transparency_upheld lib cfg r w)"

section \<open>Example libraries and memories\<close>

text \<open>
  The libraries and memories at which the theorems below evaluate the pipeline. A
  capability declared outside every \<^verbatim>\<open>option\<close> block has empty option maps.
\<close>

definition plain_cap :: "'a \<Rightarrow> 'a Capability" where
  "plain_cap v = \<lparr>cap_val = v, cap_opts = [], cap_portopts = []\<rparr>"

definition default_width :: "WidthDef Capability" where
  "default_width = plain_cap \<lparr>wd_tied = True, wr_widths = [], rd_widths = []\<rparr>"

definition default_clock :: "ClockDef Capability" where
  "default_clock = plain_cap \<lparr>clk_kind = Anyedge, clk_name = []\<rparr>"

definition no_pass_options :: PassOptions where
  "no_pass_options =
     \<lparr>no_auto_distributed = False, no_auto_block = False, no_auto_huge = False,
      debug_geom = False\<rparr>"

definition no_oracles :: Oracles where
  "no_oracles =
     \<lparr>emulate_read_first_ok = False, addr_compatible = (\<lambda>w r. True),
      get_wr_implies_rd = (\<lambda>w r. False), get_wr_excludes_rd = (\<lambda>w r. False)\<rparr>"

text \<open>
  A ROM of eight words of three bits with one asynchronous read port.
\<close>

definition rom_rd_port :: MemRd where
  "rom_rd_port =
     \<lparr>rd_clk_enable = False, rd_clk_polarity = True, ce_over_srst = False,
      rd_clk = ConstBit Sx, rd_en = [ConstBit S1], arst = [ConstBit S0],
      srst = [ConstBit S0],
      rd_data = [WireBit ''q'' 0, WireBit ''q'' 1, WireBit ''q'' 2], rd_wide_log2 = 0,
      init_value = [Sx, Sx, Sx], arst_value = [Sx, Sx, Sx], srst_value = [Sx, Sx, Sx],
      transparency_mask = [], collision_x_mask = []\<rparr>"

definition rom_8x3 :: Mem where
  "rom_8x3 =
     \<lparr>mem_width = 3, start_offset = 0, mem_size = 8, inits = [],
      mem_rd_ports = [rom_rd_port], mem_wr_ports = []\<rparr>"

definition ar_port :: PortGroupDef where
  "ar_port =
     \<lparr>pg_kind = Ar, names = [''R''], clock = [], width = [default_width], rden = [],
      rdrstval = [], rdsrstmode = [], wrprio = [], wrtrans = []\<rparr>"

text \<open>
  \<^verbatim>\<open>ram distributed $lut { abits 4 dbits 4 cost 0.5; port ar "R" { } }\<close> and
  \<^verbatim>\<open>ram block $bram { abits 4 dbits 4 cost 0.25; port ar "R" { } }\<close>.
\<close>

definition lut_ram :: RamDef where
  "lut_ram =
     \<lparr>ram_id = ''$lut'', ram_kind = Distributed, prune_rom = False,
      ports = [plain_cap ar_port],
      dims = [plain_cap \<lparr>abits = 4, dbits = [4], dims_tied = False, resource_name = [],
                         resource_count = 1, dims_cost = 1 / 2\<rparr>],
      byte = [], init = [], style = []\<rparr>"

definition block_ram :: RamDef where
  "block_ram =
     \<lparr>ram_id = ''$bram'', ram_kind = Block, prune_rom = False,
      ports = [plain_cap ar_port],
      dims = [plain_cap \<lparr>abits = 4, dbits = [4], dims_tied = False, resource_name = [],
                         resource_count = 1, dims_cost = 1 / 4\<rparr>],
      byte = [], init = [], style = []\<rparr>"

definition two_ram_lib :: Library where
  "two_ram_lib = \<lparr>ram_defs = [lut_ram, block_ram], lib_opts = no_pass_options\<rparr>"

text \<open>
  The library of the one distributed RAM, read with \<^verbatim>\<open>-no-auto-distributed\<close>.
\<close>

definition no_auto_dist_lib :: Library where
  "no_auto_dist_lib =
     \<lparr>ram_defs = [lut_ram],
      lib_opts = no_pass_options\<lparr>no_auto_distributed := True\<rparr>\<rparr>"

text \<open>
  \<^verbatim>\<open>ram block $wide { abits 4 dbits 2 4 cost 0.25; port ar "R" { } }\<close>.
\<close>

definition wide_dims :: MemoryDimsDef where
  "wide_dims =
     \<lparr>abits = 4, dbits = [2, 4], dims_tied = False, resource_name = [],
      resource_count = 1, dims_cost = 1 / 4\<rparr>"

definition wide_ram :: RamDef where
  "wide_ram =
     \<lparr>ram_id = ''$wide'', ram_kind = Block, prune_rom = False,
      ports = [plain_cap ar_port], dims = [plain_cap wide_dims],
      byte = [], init = [], style = []\<rparr>"

definition wide_lib :: Library where
  "wide_lib = \<lparr>ram_defs = [wide_ram], lib_opts = no_pass_options\<rparr>"

text \<open>
  The candidate for the ROM on \<open>wide_lib\<close> as it enters the geometry search: the read
  port on group \<^verbatim>\<open>"R"\<close>, unshared, one point of emulation score for it.
\<close>

definition rom_candidate :: MemConfig where
  "rom_candidate =
     (new_MemConfig 0)
       \<lparr>rd_ports := [new_RdPortConfig], repl_port := 1, score_emu := 1\<rparr>"

text \<open>
  An option value written as an integer in the library file is a 32-bit constant.
\<close>

definition int_const :: "int \<Rightarrow> Const" where
  "int_const n = map (\<lambda>i. if bit n i then S1 else S0) [0..<32]"

text \<open>
  \<^verbatim>\<open>ram block $en { abits 4 dbits 4 cost 1; port sr "R" { portoption "EN" 0 rden none;
  portoption "EN" 1 rden any; } }\<close>, and a ROM with one synchronous read port
  that has a clock enable.
\<close>

definition en_port :: PortGroupDef where
  "en_port =
     \<lparr>pg_kind = Sr, names = [''R''], clock = [default_clock], width = [default_width],
      rden = [\<lparr>cap_val = RdEnNone, cap_opts = [], cap_portopts = [(''EN'', int_const 0)]\<rparr>,
              \<lparr>cap_val = RdEnAny, cap_opts = [], cap_portopts = [(''EN'', int_const 1)]\<rparr>],
      rdrstval = [], rdsrstmode = [], wrprio = [], wrtrans = []\<rparr>"

definition en_lib :: Library where
  "en_lib =
     \<lparr>ram_defs =
        [\<lparr>ram_id = ''$en'', ram_kind = Block, prune_rom = False,
          ports = [plain_cap en_port],
          dims = [plain_cap \<lparr>abits = 4, dbits = [4], dims_tied = False, resource_name = [],
                             resource_count = 1, dims_cost = 1\<rparr>],
          byte = [], init = [], style = []\<rparr>],
      lib_opts = no_pass_options\<rparr>"

definition sync_rd_port :: MemRd where
  "sync_rd_port =
     rom_rd_port\<lparr>rd_clk_enable := True, rd_clk := WireBit ''clk'' 0,
                 rd_en := [WireBit ''re'' 0]\<rparr>"

definition sync_rom :: Mem where
  "sync_rom = rom_8x3\<lparr>mem_rd_ports := [sync_rd_port]\<rparr>"

text \<open>
  \<^verbatim>\<open>ram block $prio { abits 4 dbits 4 cost 1; port srsw "A" { rden any; }
  port sw "B1" "B2" { wrprio "A"; } }\<close>, and a memory with two write ports and one
  read port on one clock, write port 1 having priority over write port 0. Collisions of
  the read port with the write ports are undefined.
\<close>

definition prio_lib :: Library where
  "prio_lib =
     \<lparr>ram_defs =
        [\<lparr>ram_id = ''$prio'', ram_kind = Block, prune_rom = False,
          ports =
            [plain_cap \<lparr>pg_kind = Srsw, names = [''A''], clock = [default_clock],
                        width = [default_width], rden = [plain_cap RdEnAny],
                        rdrstval = [], rdsrstmode = [], wrprio = [], wrtrans = []\<rparr>,
             plain_cap \<lparr>pg_kind = Sw, names = [''B1'', ''B2''], clock = [default_clock],
                        width = [default_width], rden = [],
                        rdrstval = [], rdsrstmode = [], wrprio = [plain_cap ''A''],
                        wrtrans = []\<rparr>],
          dims = [plain_cap \<lparr>abits = 4, dbits = [4], dims_tied = False, resource_name = [],
                             resource_count = 1, dims_cost = 1\<rparr>],
          byte = [], init = [], style = []\<rparr>],
      lib_opts = no_pass_options\<rparr>"

definition prio_wr_port :: "nat \<Rightarrow> bool list \<Rightarrow> MemWr" where
  "prio_wr_port n pm =
     \<lparr>wr_clk_enable = True, wr_clk_polarity = True, wr_clk = WireBit ''clk'' 0,
      wr_en = replicate 3 (WireBit ''we'' n), wr_wide_log2 = 0, priority_mask = pm\<rparr>"

definition prio_mem :: Mem where
  "prio_mem =
     \<lparr>mem_width = 3, start_offset = 0, mem_size = 8, inits = [],
      mem_rd_ports =
        [rom_rd_port\<lparr>rd_clk_enable := True, rd_clk := WireBit ''clk'' 0,
                      transparency_mask := [False, False],
                      collision_x_mask := [True, True]\<rparr>],
      mem_wr_ports = [prio_wr_port 0 [False, False], prio_wr_port 1 [True, False]]\<rparr>"

text \<open>
  The candidates a stage of the pipeline receives: the stages before it, from the
  initial candidates on.
\<close>

definition port_candidates :: "Mem \<Rightarrow> Library \<Rightarrow> Oracles \<Rightarrow> MemConfigs" where
  "port_candidates mem lib orc =
     handle_rd_ports mem lib orc
       (handle_wr_ports mem lib (map new_MemConfig [0..<length (ram_defs lib)]))"

definition bound_candidates :: "Mem \<Rightarrow> Library \<Rightarrow> Oracles \<Rightarrow> MemConfigs" where
  "bound_candidates mem lib orc = handle_trans mem lib orc (port_candidates mem lib orc)"

definition prio_candidates :: MemConfigs where
  "prio_candidates =
     handle_priority prio_mem prio_lib (bound_candidates prio_mem prio_lib no_oracles)"

text \<open>
  \<^verbatim>\<open>ram block $sp { abits 4 dbits 4 cost 1; port srsw "A" { rden any; wrtrans self new; }
  port sr "R" { rden any; } }\<close>, and a memory with one write port and one read
  port on one clock, the read port transparent to the write port.
\<close>

definition trans_lib :: Library where
  "trans_lib =
     \<lparr>ram_defs =
        [\<lparr>ram_id = ''$sp'', ram_kind = Block, prune_rom = False,
          ports =
            [plain_cap \<lparr>pg_kind = Srsw, names = [''A''], clock = [default_clock],
                        width = [default_width], rden = [plain_cap RdEnAny],
                        rdrstval = [], rdsrstmode = [], wrprio = [],
                        wrtrans = [plain_cap \<lparr>target_kind = Self, target_name = [],
                                               trans_kind = New\<rparr>]\<rparr>,
             plain_cap \<lparr>pg_kind = Sr, names = [''R''], clock = [default_clock],
                        width = [default_width], rden = [plain_cap RdEnAny],
                        rdrstval = [], rdsrstmode = [], wrprio = [], wrtrans = []\<rparr>],
          dims = [plain_cap \<lparr>abits = 4, dbits = [4], dims_tied = False, resource_name = [],
                             resource_count = 1, dims_cost = 1\<rparr>],
          byte = [], init = [], style = []\<rparr>],
      lib_opts = no_pass_options\<rparr>"

definition trans_mem :: Mem where
  "trans_mem =
     \<lparr>mem_width = 3, start_offset = 0, mem_size = 8, inits = [],
      mem_rd_ports =
        [rom_rd_port\<lparr>rd_clk_enable := True, rd_clk := WireBit ''clk'' 0,
                      transparency_mask := [True], collision_x_mask := [False]\<rparr>],
      mem_wr_ports = [prio_wr_port 0 [False]]\<rparr>"

text \<open>
  The same memory with an asynchronous write port.
\<close>

definition async_mem :: Mem where
  "async_mem =
     trans_mem\<lparr>mem_wr_ports := [(prio_wr_port 0 [False])\<lparr>wr_clk_enable := False\<rparr>]\<rparr>"

text \<open>
  The library of the one distributed RAM.
\<close>

definition lut_lib :: Library where
  "lut_lib = \<lparr>ram_defs = [lut_ram], lib_opts = no_pass_options\<rparr>"

text \<open>
  A RAM with one \<^verbatim>\<open>srsw\<close> port whose port option \<^verbatim>\<open>EN\<close> selects the read
  enable, \<^verbatim>\<open>port srsw "A" { portoption "EN" 0 { rden none; } portoption "EN" 1
  { rden any; } portoption "EN" 2 { rden write-implies; } portoption "EN" 3
  { rden write-excludes; } }\<close>, and a memory with one write port and one read port
  on the same clock, the read port with an enable signal.
\<close>

definition rden_port :: PortGroupDef where
  "rden_port =
     \<lparr>pg_kind = Srsw, names = [''A''], clock = [default_clock], width = [default_width],
      rden = [\<lparr>cap_val = RdEnNone, cap_opts = [], cap_portopts = [(''EN'', int_const 0)]\<rparr>,
              \<lparr>cap_val = RdEnAny, cap_opts = [], cap_portopts = [(''EN'', int_const 1)]\<rparr>,
              \<lparr>cap_val = WriteImplies, cap_opts = [],
               cap_portopts = [(''EN'', int_const 2)]\<rparr>,
              \<lparr>cap_val = WriteExcludes, cap_opts = [],
               cap_portopts = [(''EN'', int_const 3)]\<rparr>],
      rdrstval = [], rdsrstmode = [], wrprio = [], wrtrans = []\<rparr>"

definition rden_lib :: Library where
  "rden_lib =
     \<lparr>ram_defs =
        [\<lparr>ram_id = ''$rden'', ram_kind = Block, prune_rom = False,
          ports = [plain_cap rden_port],
          dims = [plain_cap \<lparr>abits = 4, dbits = [4], dims_tied = False, resource_name = [],
                             resource_count = 1, dims_cost = 1\<rparr>],
          byte = [], init = [], style = []\<rparr>],
      lib_opts = no_pass_options\<rparr>"

definition rden_mem :: Mem where
  "rden_mem =
     \<lparr>mem_width = 3, start_offset = 0, mem_size = 8, inits = [],
      mem_rd_ports =
        [rom_rd_port\<lparr>rd_clk_enable := True, rd_clk := WireBit ''clk'' 0,
                      rd_en := [WireBit ''re'' 0],
                      transparency_mask := [False], collision_x_mask := [False]\<rparr>],
      mem_wr_ports = [prio_wr_port 0 [False]]\<rparr>"

text \<open>
  The candidates of that library when the read port's turn comes: the write port is
  bound.
\<close>

definition rden_wr_candidates :: MemConfigs where
  "rden_wr_candidates =
     handle_wr_ports rden_mem rden_lib (map new_MemConfig [0..<length (ram_defs rden_lib)])"

text \<open>
  An oracle that proves every implication and exclusion it is asked.
\<close>

definition all_oracles :: Oracles where
  "all_oracles =
     \<lparr>emulate_read_first_ok = False, addr_compatible = (\<lambda>w r. True),
      get_wr_implies_rd = (\<lambda>w r. True), get_wr_excludes_rd = (\<lambda>w r. True)\<rparr>"

section \<open>Termination of the hard-wide-bit loop\<close>

text \<open>
  Every round of \<open>hw_loop\<close> that continues adds a bit below
  \<open>max (max_wide_log2 gv) (wide_nu_start gv)\<close> that the mask did not have.
\<close>

lemma find_Some_elem: "find P xs = Some x \<Longrightarrow> P x \<and> x \<in> set xs"
  by (induction xs) (auto split: if_splits)

lemma scan_hw_Some:
  "scan_hw mem gv base hwm sf st = Some new \<Longrightarrow>
   \<exists>b. b < nat sf \<and> \<not> bit hwm b \<and> new = set_bit b hwm"
  by (auto simp: scan_hw_def Let_def split: option.splits if_splits dest!: find_Some_elem)

lemma min_width_step_le: "snd (min_width_step mem gv base hwm i st) \<le> snd st"
  by (cases st) (simp add: min_width_step_def Let_def)

lemma min_width_fold_le: "snd (fold (min_width_step mem gv base hwm) is st) \<le> snd st"
proof (induction "is" arbitrary: st)
  case Nil
  then show ?case by simp
next
  case (Cons i "is")
  have "snd (fold (min_width_step mem gv base hwm) is (min_width_step mem gv base hwm i st))
        \<le> snd (min_width_step mem gv base hwm i st)" by (rule Cons.IH)
  also have "\<dots> \<le> snd st" by (rule min_width_step_le)
  finally show ?case by simp
qed

lemma min_width_check_le:
  "min_width_check mem gv base hwm = (ok, mb) \<Longrightarrow> mb \<le> wide_nu_start gv"
  using min_width_fold_le[of mem gv base hwm "[0..<length (mem_wr_ports mem)]"
      "(True, wide_nu_start gv)"]
  by (simp add: min_width_check_def)

lemma next_hw_Some:
  assumes "next_hw mem gv base hwm num ok mb bf = (Some new, bf')"
    and "mb \<le> wide_nu_start gv"
  shows "\<exists>b. b < nat (max (max_wide_log2 gv) (wide_nu_start gv)) \<and> \<not> bit hwm b \<and>
             new = set_bit b hwm"
proof -
  from assms obtain sf st where s: "scan_hw mem gv base hwm sf st = Some new"
    and le: "sf \<le> max (max_wide_log2 gv) (wide_nu_start gv)"
    by (auto simp: next_hw_def split: if_splits option.splits)
  from scan_hw_Some[OF s] obtain b where b: "b < nat sf" "\<not> bit hwm b" "new = set_bit b hwm"
    by blast
  from b(1) le have "b < nat (max (max_wide_log2 gv) (wide_nu_start gv))" by linarith
  with b show ?thesis by blast
qed

lemma hw_measure_less:
  fixes hwm :: int
  assumes "b < B" "\<not> bit hwm b"
  shows "card {c. c < B \<and> \<not> bit (set_bit b hwm) c} < card {c. c < B \<and> \<not> bit hwm c}"
proof (rule psubset_card_mono)
  show "finite {c. c < B \<and> \<not> bit hwm c}" by simp
  show "{c. c < B \<and> \<not> bit (set_bit b hwm) c} \<subset> {c. c < B \<and> \<not> bit hwm c}"
    using assms by (auto simp: bit_simps)
qed

termination hw_loop
proof (relation "measure (\<lambda>(mem, d, gv, base, unit_log2, swz, hwm, num, bf, best).
          card {c. c < nat (max (max_wide_log2 gv) (wide_nu_start gv)) \<and> \<not> bit hwm c})",
       goal_cases)
  case 1
  then show ?case by simp
next
  case (2 mem d gv base unit_log2 swz hwm num bf best x1 x2 xa x2a y1 y2)
  from 2(1) have le: "x2 \<le> wide_nu_start gv"
    by (rule min_width_check_le[OF sym])
  from 2(4,5) have "next_hw mem gv base hwm num x1 x2 bf = (Some y2, y1)" by simp
  from next_hw_Some[OF this le] obtain b
    where "b < nat (max (max_wide_log2 gv) (wide_nu_start gv))" "\<not> bit hwm b"
      "y2 = set_bit b hwm" by blast
  then show ?case using hw_measure_less[of b _ hwm] by simp
qed

declare hw_loop.simps [simp del]

section \<open>Option maps: commit and detection agree\<close>

lemma apply_opts_mono:
  "apply_opts dst src = (ok, dst') \<Longrightarrow> map_of dst k = Some v \<Longrightarrow> map_of dst' k = Some v"
proof (induction dst src arbitrary: ok dst' rule: apply_opts.induct)
  case (1 dst)
  then show ?case by simp
next
  case (2 dst k' v' src)
  show ?case
  proof (cases "map_of dst k'")
    case None
    with "2.prems" have ne: "k \<noteq> k'" by auto
    from None "2.prems" have "apply_opts ((k', v') # dst) src = (ok, dst')" by simp
    from "2.IH"(1)[OF None this] ne "2.prems"(2) show ?thesis by simp
  next
    case (Some w)
    show ?thesis
    proof (cases "w \<noteq> v'")
      case True
      with Some "2.prems" show ?thesis by simp
    next
      case False
      with Some "2.prems" have "apply_opts dst src = (ok, dst')" by simp
      from "2.IH"(2)[OF Some False this "2.prems"(2)] show ?thesis .
    qed
  qed
qed

lemma opts_applied_iff:
  "opts_applied dst src \<longleftrightarrow> (\<forall>(k, v) \<in> set src. map_of dst k = Some v)"
  by (induction dst src rule: opts_applied.induct)
     (auto split: option.splits if_splits)

lemma opts_applied_mono:
  "opts_applied dst src \<Longrightarrow> (\<And>k v. map_of dst k = Some v \<Longrightarrow> map_of dst' k = Some v) \<Longrightarrow>
   opts_applied dst' src"
  unfolding opts_applied_iff by fast

lemma apply_opts_applied:
  "apply_opts dst src = (True, dst') \<Longrightarrow> opts_applied dst' src"
proof (induction dst src arbitrary: dst' rule: apply_opts.induct)
  case (1 dst)
  then show ?case by simp
next
  case (2 dst k v src)
  show ?case
  proof (cases "map_of dst k")
    case None
    with 2 have a: "apply_opts ((k, v) # dst) src = (True, dst')" by simp
    with 2 None have "opts_applied dst' src" by simp
    moreover have "map_of dst' k = Some v"
      using apply_opts_mono[OF a, of k v] by simp
    ultimately show ?thesis by simp
  next
    case (Some w)
    with 2 have wv: "w = v" and a: "apply_opts dst src = (True, dst')"
      by (auto split: if_splits)
    with 2 Some have "opts_applied dst' src" by simp
    moreover have "map_of dst' k = Some v"
      using apply_opts_mono[OF a, of k v] Some wv by simp
    ultimately show ?thesis by simp
  qed
qed

lemma apply_opts_idem:
  "opts_applied dst src \<Longrightarrow> apply_opts dst src = (True, dst)"
  by (induction dst src rule: opts_applied.induct)
     (auto split: option.splits if_splits)

text \<open>
  Claim C10. Whenever \<open>apply_opts dst src\<close> succeeds, \<open>opts_applied\<close> holds of the
  updated map and \<open>src\<close>: every key of \<open>src\<close> is in the updated map with the value
  \<open>src\<close> gives it. Applying \<open>src\<close> to the updated map again succeeds and changes
  nothing.
\<close>

theorem apply_opts_coherent:
  assumes "apply_opts dst src = (True, dst')"
  shows "opts_applied dst' src \<and>
         (\<forall>(k, v) \<in> set src. map_of dst' k = Some v) \<and>
         apply_opts dst' src = (True, dst')"
proof -
  have a: "opts_applied dst' src" using assms by (rule apply_opts_applied)
  moreover from a have "\<forall>(k, v) \<in> set src. map_of dst' k = Some v"
    by (simp add: opts_applied_iff)
  moreover from a have "apply_opts dst' src = (True, dst')" by (rule apply_opts_idem)
  ultimately show ?thesis by blast
qed

theorem apply_opts_coherent_witness:
  "apply_opts [(''A'', [S1])] [(''B'', [S0]), (''A'', [S1])]
     = (True, [(''B'', [S0]), (''A'', [S1])]) \<and>
   opts_applied [(''B'', [S0]), (''A'', [S1])] [(''B'', [S0]), (''A'', [S1])] \<and>
   map_of [(''B'', [S0]), (''A'', [S1])] ''B'' = Some [S0] \<and>
   apply_opts [(''B'', [S0]), (''A'', [S1])] [(''B'', [S0]), (''A'', [S1])]
     = (True, [(''B'', [S0]), (''A'', [S1])])"
proof -
  have h: "apply_opts [(''A'', [S1])] [(''B'', [S0]), (''A'', [S1])]
             = (True, [(''B'', [S0]), (''A'', [S1])])"
    by simp
  from apply_opts_coherent[OF h] h show ?thesis by simp
qed

section \<open>The kind filter and the \<^verbatim>\<open>no_auto_*\<close> options\<close>

lemma ram_kind_pass_auto:
  "kind = Auto \<or> kind = NotLogic \<Longrightarrow> ram_kind_pass lib kind rdef"
  by (auto simp: ram_kind_pass_def)

text \<open>
  Claim C3. With no named style and a requested kind of \<open>Auto\<close> or \<open>NotLogic\<close>, a
  candidate of library kind \<open>Distributed\<close> (\<open>Block\<close>, \<open>Huge\<close>) is to be retained
  exactly if \<^verbatim>\<open>no_auto_distributed\<close> (\<^verbatim>\<open>no_auto_block\<close>, \<^verbatim>\<open>no_auto_huge\<close>) is not
  set. The filter tests the requested kind where the kind of the library entry is
  meant, so under \<open>Auto\<close> the option changes nothing: with \<^verbatim>\<open>no_auto_distributed\<close>
  set, the candidate of the distributed RAM passes the filter.
\<close>

theorem handle_ram_kind_ignores_no_auto:
  "ram_kind (ram_defs no_auto_dist_lib ! 0) = Distributed \<and>
   no_auto_distributed (lib_opts no_auto_dist_lib) \<and>
   handle_ram_kind no_auto_dist_lib Auto [] [new_MemConfig 0] = Inr [new_MemConfig 0]"
  by code_simp

section \<open>Pre-geometry pruning keeps a costlier twin\<close>

text \<open>
  Claim C4. Of the candidates that agree on \<^verbatim>\<open>ram_def\<close>, \<^verbatim>\<open>dims_def\<close>,
  \<^verbatim>\<open>byte\<close> and on pairing, \<^verbatim>\<open>port_def\<close> and \<^verbatim>\<open>width_def\<close> of every port,
  \<open>prune_pre_geom\<close> is to keep exactly one, of the lowest \<^verbatim>\<open>score_emu\<close>. For the
  ROM with a clock enable on \<open>en_lib\<close> the geometry split yields two candidates of the
  same geometry, with scores 4 (\<^verbatim>\<open>rden none\<close>, the enable emulated) and 1
  (\<^verbatim>\<open>rden any\<close>); the second has the lower score, the first is not dropped, and both
  survive.
\<close>

theorem prune_pre_geom_keeps_both:
  "map_sum id
     (\<lambda>cs. let cs' = handle_geom_split sync_rom en_lib cs
            in (map score_emu cs', same_geom (cs' ! 1) (cs' ! 0),
                map score_emu (prune_pre_geom cs')))
     (emulation_stages sync_rom en_lib no_oracles [new_MemConfig 0])
   = Inr ([4, 1], True, [4, 1])"
  by code_simp

section \<open>Priority is matched against the read port's group\<close>

text \<open>
  Claim C5. For write ports \<open>w1\<close>, \<open>w2\<close> with \<^verbatim>\<open>w2.priority_mask[w1]\<close> set, every
  candidate that leaves \<open>handle_priority\<close> is to have a \<^verbatim>\<open>wrprio\<close> capability of the
  group of \<open>w2\<close>, named as the first alias of the group bound to write port \<open>w1\<close>,
  applied, or \<open>w1\<close> in the \<^verbatim>\<open>emu_prio\<close> list of \<open>w2\<close>. The source compares the
  capability's name with the group of read port \<open>w1\<close>. On \<open>prio_lib\<close> the third
  candidate has both write ports on the group \<^verbatim>\<open>"B1" "B2"\<close>, whose \<^verbatim>\<open>wrprio\<close> names
  \<^verbatim>\<open>"A"\<close>, and the read port on \<^verbatim>\<open>"A"\<close>: it leaves the stage with no priority
  emulation and with no capability for the pair.
\<close>

theorem handle_priority_reads_rd_port:
  "map (\<lambda>cfg. (map wr_port_def (wr_ports cfg), map rd_port_def (rd_ports cfg),
               map emu_prio (wr_ports cfg), priority_upheld prio_lib cfg 0 1))
       (handle_priority prio_mem prio_lib (bound_candidates prio_mem prio_lib no_oracles))
   = [([0, 1], [0], [[], []], True),
      ([1, 0], [0], [[], [0]], True),
      ([1, 1], [0], [[], []], False)]"
  by code_simp

section \<open>The running best cost is an integer\<close>

text \<open>
  Claim C2. Among the configurations the geometry search evaluates as feasible, the
  one stored in the candidate is to be of minimal cost, the cost being
  \<open>unit_cost * repl_d * repl_port + 0.5 * score_mux + 0.5 * score_demux + 2 * score_emu\<close>
  and \<open>repl_d\<close> the ceiling of \<open>mult_a * mult_wide * |swizzle| / unit_width\<close>. The
  source keeps the cost of the best configuration in an \<^verbatim>\<open>int\<close>. For the ROM of
  eight words of three bits on \<open>wide_lib\<close> the search stores base width 2 at cost
  \<open>5/2\<close>, remembers 2, then evaluates base width 4, which is feasible at cost
  \<open>9/4\<close>, and keeps the first.
\<close>

theorem handle_geom_keeps_costlier:
  "emulation_stages rom_8x3 wide_lib no_oracles [new_MemConfig 0] = Inr [rom_candidate] \<and>
   prune_pre_geom (handle_geom_split rom_8x3 wide_lib [rom_candidate]) = [rom_candidate] \<and>
   map_sum id (\<lambda>c. (base_width_log2 c, repl_d c, cost c))
     (handle_geom_cfg rom_8x3 wide_lib rom_candidate) = Inr (0, 2, 5 / 2) \<and>
   (case geom_vars rom_8x3 wide_lib rom_candidate of
      Inl e \<Rightarrow> None
    | Inr gv \<Rightarrow>
        Some (clamp_unit gv 1, fst (min_width_check rom_8x3 gv 1 0),
              cost (geom_candidate rom_8x3 wide_dims gv 1 1 (make_swizzle rom_8x3 1) 0 0
                      rom_candidate)))
     = Some (1, True, 9 / 4)"
  by code_simp

section \<open>The selection truncates the best cost\<close>

text \<open>
  Claim C1. The pass is to compare the costs of the surviving candidates and, when the
  soft-logic fallback is feasible, its cost \<open>width * size\<close>, and to emit a candidate
  whose cost is at most that of every other survivor; the memory is left to the FF
  mapping exactly if no hard candidate exists or the soft-logic cost is the lowest. The
  loop keeps the best cost in an \<^verbatim>\<open>int\<close>. For the ROM on \<open>two_ram_lib\<close> the
  survivors cost \<open>5/2\<close> and \<open>9/4\<close> and the fallback 24; the loop takes candidate 0,
  remembers 2, finds \<open>9/4 < 2\<close> false, and emits candidate 0.
\<close>

theorem execute_emits_costlier:
  "determine_logic_ok Auto rom_8x3 \<and>
   map_sum id (\<lambda>(idx, cs). (idx, map cost cs))
     (execute_mem rom_8x3 two_ram_lib no_oracles Auto []) = Inr (0, [5 / 2, 9 / 4])"
  by code_simp

section \<open>The scorer computes the specified score\<close>

lemma score_wr_ports_eq:
  "score_wr_ports ps (s, u) =
     (s + (\<Sum>p\<leftarrow>ps. int (length (emu_prio p))),
      map (\<lambda>i. u ! i + int (length (filter (\<lambda>p. wr_port_def p = i) ps))) [0..<length u])"
proof (induction ps arbitrary: s u)
  case Nil
  then show ?case by (simp add: map_nth)
next
  case (Cons p ps)
  have "map (\<lambda>i. u[wr_port_def p := u ! wr_port_def p + 1] ! i +
                 int (length (filter (\<lambda>p. wr_port_def p = i) ps))) [0..<length u]
      = map (\<lambda>i. u ! i + int (length (filter (\<lambda>p. wr_port_def p = i) (p # ps)))) [0..<length u]"
    by (rule map_cong) (auto simp: nth_list_update)
  then show ?case by (simp add: Cons.IH add.assoc)
qed

lemma score_rd_port_eq:
  "score_rd_port p s = s + 3 * int (length (emu_trans p)) + (if emu_en p then 3 else 0)
     + (if emu_init p then 2 else 0) + (if emu_arst p then 2 else 0) + (if emu_srst p then 2 else 0)
     + (if emu_srst_en_prio p then 1 else 0) + (if rd_wr_port p = -1 then 1 else 0)"
  by (simp add: score_rd_port_def Let_def)

lemma score_rd_ports_eq:
  "score_rd_ports ps (s, u) =
     (s + 3 * (\<Sum>p\<leftarrow>ps. int (length (emu_trans p)))
        + 3 * int (length (filter emu_en ps))
        + 2 * (int (length (filter emu_init ps)) + int (length (filter emu_arst ps))
               + int (length (filter emu_srst ps)))
        + int (length (filter emu_srst_en_prio ps))
        + int (length (filter (\<lambda>p. rd_wr_port p = -1) ps)),
      map (\<lambda>i. u ! i + int (length (filter (\<lambda>p. rd_wr_port p = -1 \<and> rd_port_def p = i) ps)))
          [0..<length u])"
proof (induction ps arbitrary: s u)
  case Nil
  then show ?case by (simp add: map_nth)
next
  case (Cons p ps)
  let ?u' = "if rd_wr_port p = -1 then u[rd_port_def p := u ! rd_port_def p + 1] else u"
  have "map (\<lambda>i. ?u' ! i +
                 int (length (filter (\<lambda>p. rd_wr_port p = -1 \<and> rd_port_def p = i) ps))) [0..<length u]
      = map (\<lambda>i. u ! i + int (length (filter (\<lambda>p. rd_wr_port p = -1 \<and> rd_port_def p = i) (p # ps))))
            [0..<length u]"
    by (rule map_cong) (auto simp: nth_list_update)
  moreover have "length ?u' = length u" by simp
  ultimately show ?case
    by (simp add: Cons.IH score_rd_port_eq algebra_simps del: One_nat_def)
qed

lemma ceil_div_pos:
  fixes u s :: int
  assumes "0 < u" "0 < s"
  shows "(u + s - 1) sdiv s = \<lceil>rat_of_int u / rat_of_int s\<rceil>"
proof -
  define q where "q = (u + s - 1) div s"
  define r where "r = (u + s - 1) mod s"
  have r: "0 \<le> r" "r < s" using assms by (simp_all add: r_def)
  have eq: "u + s - 1 = s * q + r" by (simp add: q_def r_def)
  have "- u = s * (- q) + (s - 1 - r)" using eq by (simp add: algebra_simps)
  moreover have "0 \<le> s - 1 - r" "s - 1 - r < s" using r by simp_all
  ultimately have "(- u) div s = - q"
    by (metis int_div_pos_eq)
  then have "- ((- u) div s) = q" by simp
  moreover have "(u + s - 1) sdiv s = (u + s - 1) div s"
    using assms by (simp add: signed_divide_int_def sgn_if)
  moreover have "\<lceil>rat_of_int u / rat_of_int s\<rceil> = - ((- u) div s)"
    by (simp add: ceiling_divide_eq_div)
  ultimately show ?thesis by (simp add: q_def)
qed


lemma Max_cons_if:
  fixes r c :: "'a::linorder"
  shows "Max (set ((if c > r then c else r) # xs)) = Max (set (r # c # xs))"
proof (cases xs)
  case Nil
  then show ?thesis by (auto simp: max_def)
next
  case (Cons x ys)
  then have ne: "set xs \<noteq> {}" by simp
  have "Max (set (r # c # xs)) = max r (max c (Max (set xs)))"
    using ne by simp
  moreover have "Max (set ((if c > r then c else r) # xs)) = max (if c > r then c else r) (Max (set xs))"
    using ne by simp
  ultimately show ?thesis by (auto simp: max_def)
qed

lemma repl_port_loop_eq:
  assumes "\<forall>i\<in>set is. 0 \<le> ur ! i"
  shows "repl_port_loop pdefs uw ur is r =
    (if list_all (\<lambda>i. uw ! i \<le> int (length (names (cap_val (pdefs ! i)))) \<and>
                       (ur ! i = 0 \<or> uw ! i < int (length (names (cap_val (pdefs ! i)))))) is
     then Inr (Max (set (r # map (\<lambda>i. \<lceil>rat_of_int (ur ! i) /
                      rat_of_int (int (length (names (cap_val (pdefs ! i)))) - uw ! i)\<rceil>)
                    (filter (\<lambda>i. ur ! i > 0) is))))
     else Inl AssertFailed)"
  using assms
proof (induction "is" arbitrary: r)
  case Nil
  then show ?case by simp
next
  case (Cons i "is")
  let ?sl = "int (length (names (cap_val (pdefs ! i))))"
  let ?f = "\<lambda>i. \<lceil>rat_of_int (ur ! i) /
                      rat_of_int (int (length (names (cap_val (pdefs ! i)))) - uw ! i)\<rceil>"
  from Cons.prems have nn: "0 \<le> ur ! i" and rest: "\<forall>i\<in>set is. 0 \<le> ur ! i" by simp_all
  note IH = Cons.IH[OF rest]
  show ?case
  proof (cases "uw ! i \<le> ?sl")
    case False
    then show ?thesis by (simp add: Let_def)
  next
    case le: True
    show ?thesis
    proof (cases "ur ! i > 0")
      case False
      with nn have z: "ur ! i = 0" by simp
      with le show ?thesis by (simp add: Let_def IH)
    next
      case pos: True
      show ?thesis
      proof (cases "uw ! i < ?sl")
        case False
        with pos le show ?thesis by (simp add: Let_def)
      next
        case lt: True
        then have sp: "0 < ?sl - uw ! i" by simp
        have cur: "(ur ! i + (?sl - uw ! i) - 1) sdiv (?sl - uw ! i) = ?f i"
          by (rule ceil_div_pos[OF pos sp])
        have step: "repl_port_loop pdefs uw ur (i # is) r
              = repl_port_loop pdefs uw ur is (if ?f i > r then ?f i else r)"
          using pos le lt cur by (simp add: Let_def)
        have "repl_port_loop pdefs uw ur is (if ?f i > r then ?f i else r)
              = (if list_all (\<lambda>i. uw ! i \<le> int (length (names (cap_val (pdefs ! i)))) \<and>
                       (ur ! i = 0 \<or> uw ! i < int (length (names (cap_val (pdefs ! i)))))) is
                 then Inr (Max (set ((if ?f i > r then ?f i else r)
                                      # map ?f (filter (\<lambda>i. ur ! i > 0) is))))
                 else Inl AssertFailed)"
          by (rule IH)
        also have "Max (set ((if ?f i > r then ?f i else r) # map ?f (filter (\<lambda>i. ur ! i > 0) is)))
                   = Max (set (r # ?f i # map ?f (filter (\<lambda>i. ur ! i > 0) is)))"
          by (rule Max_cons_if)
        finally show ?thesis
          using step pos le lt by simp
      qed
    qed
  qed
qed


lemma score_emu_cfg_eq:
  "score_emu_cfg lib cfg =
     (if port_space_ok lib cfg then Inr (scored lib cfg) else Inl AssertFailed)"
proof -
  let ?pdefs = "ports (ram_defs lib ! ram_def cfg)"
  let ?n = "length ?pdefs"
  let ?uw = "map (wr_usage cfg) [0..<?n]"
  let ?ur = "map (rd_usage cfg) [0..<?n]"
  let ?s0 = "if emu_read_first cfg then 3 * int (length (wr_ports cfg)) else 0"
  have wr: "score_wr_ports (wr_ports cfg) (?s0, replicate ?n 0)
            = (?s0 + (\<Sum>p\<leftarrow>wr_ports cfg. int (length (emu_prio p))), ?uw)"
    by (simp add: score_wr_ports_eq wr_usage_def cong: map_cong)
  have rd: "score_rd_ports (rd_ports cfg)
              (?s0 + (\<Sum>p\<leftarrow>wr_ports cfg. int (length (emu_prio p))), replicate ?n 0)
            = (score_emu_spec cfg, ?ur)"
    by (simp add: score_rd_ports_eq rd_usage_def score_emu_spec_def count_rd_def cong: map_cong)
  have nn: "\<forall>i\<in>set [0..<?n]. 0 \<le> ?ur ! i" by (simp add: rd_usage_def)
  have ok: "list_all (\<lambda>i. ?uw ! i \<le> int (length (names (cap_val (?pdefs ! i)))) \<and>
                       (?ur ! i = 0 \<or> ?uw ! i < int (length (names (cap_val (?pdefs ! i))))))
              [0..<?n] = port_space_ok lib cfg"
    by (simp add: port_space_ok_def slots_def list_all_iff)
  have mx: "Max (set (1 # map (\<lambda>i. \<lceil>rat_of_int (?ur ! i) /
                      rat_of_int (int (length (names (cap_val (?pdefs ! i)))) - ?uw ! i)\<rceil>)
                    (filter (\<lambda>i. ?ur ! i > 0) [0..<?n]))) = repl_port_spec lib cfg"
  proof -
    have f: "filter (\<lambda>i. ?ur ! i > 0) [0..<?n] = filter (\<lambda>i. rd_usage cfg i > 0) [0..<?n]"
      by (rule filter_cong) simp_all
    have m: "map (\<lambda>i. \<lceil>rat_of_int (?ur ! i) /
                      rat_of_int (int (length (names (cap_val (?pdefs ! i)))) - ?uw ! i)\<rceil>)
                 (filter (\<lambda>i. rd_usage cfg i > 0) [0..<?n])
           = map (\<lambda>i. \<lceil>rat_of_int (rd_usage cfg i) /
                               rat_of_int (slots lib cfg i - wr_usage cfg i)\<rceil>)
                 (filter (\<lambda>i. rd_usage cfg i > 0) [0..<?n])"
      by (rule map_cong) (simp_all add: slots_def)
    show ?thesis unfolding repl_port_spec_def f m ..
  qed
  have loop: "repl_port_loop ?pdefs ?uw ?ur [0..<?n] 1
        = (if port_space_ok lib cfg then Inr (repl_port_spec lib cfg) else Inl AssertFailed)"
    unfolding repl_port_loop_eq[OF nn] ok mx ..
  show ?thesis
    unfolding score_emu_cfg_def Let_def wr rd prod.case loop
    by (simp add: scored_def)
qed

lemma score_emu_ports_eq:
  "score_emu_ports lib cs =
     (if list_all (port_space_ok lib) cs then Inr (map (scored lib) cs) else Inl AssertFailed)"
  by (induction cs) (simp_all add: score_emu_cfg_eq)

text \<open>
  Claim C7. For every candidate, whose indices are indices into the library, the
  scorer either fails an assertion (a port group holds more write ports than it has
  aliases, or none is left for its unshared read ports) or sets \<^verbatim>\<open>score_emu\<close> to
  the sum of the table: 3 per write port under \<^verbatim>\<open>emu_read_first\<close>, 1 per
  \<^verbatim>\<open>emu_prio\<close> entry, 3 per \<^verbatim>\<open>emu_trans\<close> entry, 3 per read port with
  \<^verbatim>\<open>emu_en\<close>, 2 per read port for each of \<^verbatim>\<open>emu_init\<close>, \<^verbatim>\<open>emu_arst\<close>,
  \<^verbatim>\<open>emu_srst\<close>, 1 per read port with \<^verbatim>\<open>emu_srst_en_prio\<close>, 1 per unshared read
  port; and \<^verbatim>\<open>repl_port\<close> to the maximum, over the port groups with unshared read
  ports, of the ceiling of \<open>rd_usage / (alias_count - wr_usage)\<close>, and to 1 at least.
  Nothing else of the candidate changes.
\<close>

theorem score_emu_ports_spec:
  assumes "list_all (ports_in_range lib) cs"
  shows "score_emu_ports lib cs =
           (if list_all (port_space_ok lib) cs then Inr (map (scored lib) cs)
            else Inl AssertFailed)"
  by (rule score_emu_ports_eq)

theorem score_emu_ports_spec_witness:
  "list_all (ports_in_range prio_lib) prio_candidates \<and>
   list_all (port_space_ok prio_lib) prio_candidates \<and>
   score_emu_ports prio_lib prio_candidates = Inr (map (scored prio_lib) prio_candidates) \<and>
   map score_emu_spec prio_candidates = [0, 1, 1] \<and>
   map (repl_port_spec prio_lib) prio_candidates = [1, 1, 1]"
proof -
  have h: "list_all (ports_in_range prio_lib) prio_candidates" by code_simp
  have v: "list_all (port_space_ok prio_lib) prio_candidates \<and>
           map score_emu_spec prio_candidates = [0, 1, 1] \<and>
           map (repl_port_spec prio_lib) prio_candidates = [1, 1, 1]"
    by code_simp
  from score_emu_ports_spec[OF h] v h show ?thesis by simp
qed

section \<open>The binders bind every port\<close>

text \<open>
  The binders leave one port configuration per port of the memory: the candidates
  that reach the transparency handler in the constructor of \<^verbatim>\<open>MemMapping\<close> are
  \<open>ports_bound\<close>.
\<close>

lemma apply_clock_ports:
  "apply_clock cfg d c p = (ok, cfg') \<Longrightarrow>
   wr_ports cfg' = wr_ports cfg \<and> rd_ports cfg' = rd_ports cfg"
  by (auto simp: apply_clock_def Let_def split: if_splits option.splits)

lemma apply_wrport_opts_lengths:
  "apply_wrport_opts cfg w cap = (ok, cfg') \<Longrightarrow>
   length (wr_ports cfg') = length (wr_ports cfg) \<and> rd_ports cfg' = rd_ports cfg"
  by (auto simp: apply_wrport_opts_def split: prod.splits bool.splits)

lemma wr_bind_clock_len:
  "cfg' \<in> set (wr_bind_clock port cfg2 pcfg2 cdef) \<Longrightarrow>
   length (wr_ports cfg') = Suc (length (wr_ports cfg2)) \<and> rd_ports cfg' = rd_ports cfg2"
  by (auto simp: wr_bind_clock_def split: prod.splits bool.splits dest!: apply_clock_ports[OF sym])

lemma wr_bind_cfg_len:
  "cfg' \<in> set (wr_bind_cfg lib port cfg) \<Longrightarrow>
   length (wr_ports cfg') = Suc (length (wr_ports cfg)) \<and> rd_ports cfg' = rd_ports cfg"
  by (auto simp: wr_bind_cfg_def wr_bind_def_def Let_def
      split: if_splits prod.splits bool.splits dest!: wr_bind_clock_len)

lemma wr_ports_loop_len:
  "\<forall>cfg\<in>set cs. length (wr_ports cfg) = n \<and> rd_ports cfg = [] \<Longrightarrow>
   \<forall>cfg'\<in>set (wr_ports_loop lib ps cs). length (wr_ports cfg') = n + length ps \<and> rd_ports cfg' = []"
proof (induction ps arbitrary: cs n)
  case Nil
  then show ?case by simp
next
  case (Cons p ps)
  show ?case
  proof (cases "wr_clk_enable p")
    case False
    then show ?thesis by simp
  next
    case True
    have "\<forall>cfg\<in>set (concat (map (wr_bind_cfg lib p) cs)).
            length (wr_ports cfg) = Suc n \<and> rd_ports cfg = []"
      using Cons.prems by (auto dest!: wr_bind_cfg_len)
    from Cons.IH[OF this] True show ?thesis by simp
  qed
qed

lemma handle_wr_ports_len:
  assumes "\<forall>cfg\<in>set cs. wr_ports cfg = [] \<and> rd_ports cfg = []"
  shows "\<forall>cfg'\<in>set (handle_wr_ports mem lib cs).
           length (wr_ports cfg') = length (mem_wr_ports mem) \<and> rd_ports cfg' = []"
proof -
  have "\<forall>cfg\<in>set (if mem_wr_ports mem = []
                   then filter (\<lambda>cfg. \<not> prune_rom (ram_defs lib ! ram_def cfg)) cs
                   else cs). length (wr_ports cfg) = 0 \<and> rd_ports cfg = []"
    using assms by auto
  from wr_ports_loop_len[OF this] show ?thesis
    by (simp add: handle_wr_ports_def Let_def)
qed

lemma rd_unshared_len:
  "cfg' \<in> set (rd_unshared port cfg i d) \<Longrightarrow>
   length (wr_ports cfg') = length (wr_ports cfg) \<and>
   length (rd_ports cfg') = Suc (length (rd_ports cfg))"
  by (auto simp: rd_unshared_def rd_unshared_clock_def rd_unshared_rden_def Let_def
      split: if_splits prod.splits bool.splits dest!: apply_clock_ports[OF sym])

lemma rd_shared_rden_len:
  "cfg' \<in> set (rd_shared_rden orc port pidx wpidx cfg2 pcfg2 endef) \<Longrightarrow>
   length (wr_ports cfg') = length (wr_ports cfg2) \<and>
   length (rd_ports cfg') = Suc (length (rd_ports cfg2))"
  by (cases "cap_val endef")
    (auto simp: rd_shared_rden_def split: if_splits prod.splits bool.splits
      dest!: apply_wrport_opts_lengths[OF sym])

lemma rd_shared_len:
  "cfg' \<in> set (rd_shared mem lib orc pidx cfg wpidx) \<Longrightarrow>
   length (wr_ports cfg') = length (wr_ports cfg) \<and>
   length (rd_ports cfg') = Suc (length (rd_ports cfg))"
  by (auto simp: rd_shared_def Let_def split: if_splits dest!: rd_shared_rden_len)

lemma rd_bind_cfg_len:
  "cfg' \<in> set (rd_bind_cfg mem lib orc pidx cfg) \<Longrightarrow>
   length (wr_ports cfg') = length (wr_ports cfg) \<and>
   length (rd_ports cfg') = Suc (length (rd_ports cfg))"
  by (auto simp: rd_bind_cfg_def Let_def dest!: rd_unshared_len rd_shared_len)

lemma rd_ports_fold_len:
  "\<forall>cfg\<in>set cs. length (wr_ports cfg) = nw \<and> length (rd_ports cfg) = k \<Longrightarrow>
   \<forall>cfg'\<in>set (fold (\<lambda>pidx cfgs. concat (map (rd_bind_cfg mem lib orc pidx) cfgs)) is cs).
     length (wr_ports cfg') = nw \<and> length (rd_ports cfg') = k + length is"
proof (induction "is" arbitrary: cs k)
  case Nil
  then show ?case by simp
next
  case (Cons i "is")
  have "\<forall>cfg\<in>set (concat (map (rd_bind_cfg mem lib orc i) cs)).
          length (wr_ports cfg) = nw \<and> length (rd_ports cfg) = Suc k"
    using Cons.prems by (auto dest!: rd_bind_cfg_len)
  from Cons.IH[OF this] show ?case by simp
qed

lemma binders_bound:
  assumes "\<forall>cfg\<in>set cs. wr_ports cfg = [] \<and> rd_ports cfg = []"
  shows "list_all (ports_bound mem) (handle_rd_ports mem lib orc (handle_wr_ports mem lib cs))"
proof -
  have "\<forall>cfg\<in>set (handle_wr_ports mem lib cs).
          length (wr_ports cfg) = length (mem_wr_ports mem) \<and> length (rd_ports cfg) = 0"
    using handle_wr_ports_len[OF assms, of mem lib] by auto
  from rd_ports_fold_len[OF this, of mem lib orc "[0..<length (mem_rd_ports mem)]"]
  show ?thesis
    by (simp add: handle_rd_ports_def ports_bound_def list_all_iff)
qed

lemma handle_ram_kind_unbound:
  "handle_ram_kind lib kind style_s cs = Inr cs1 \<Longrightarrow>
   \<forall>cfg\<in>set cs. wr_ports cfg = [] \<and> rd_ports cfg = [] \<Longrightarrow>
   \<forall>cfg\<in>set cs1. wr_ports cfg = [] \<and> rd_ports cfg = []"
  by (auto simp: handle_ram_kind_def Let_def split: if_splits list.splits RamKind.splits)

lemma handle_ram_style_unbound:
  "handle_ram_style lib style_s cs = Inr cs1 \<Longrightarrow>
   \<forall>cfg\<in>set cs. wr_ports cfg = [] \<and> rd_ports cfg = [] \<Longrightarrow>
   \<forall>cfg\<in>set cs1. wr_ports cfg = [] \<and> rd_ports cfg = []"
  by (auto simp: handle_ram_style_def style_cfg_def Let_def
      split: if_splits list.splits prod.splits bool.splits)

lemma handle_init_unbound:
  "\<forall>cfg\<in>set cs. wr_ports cfg = [] \<and> rd_ports cfg = [] \<Longrightarrow>
   \<forall>cfg\<in>set (handle_init mem lib cs). wr_ports cfg = [] \<and> rd_ports cfg = []"
  by (auto simp: handle_init_def init_cfg_def Let_def
      split: if_splits prod.splits bool.splits)

lemma pipeline_bound:
  assumes "handle_ram_kind lib kind style_s (map new_MemConfig is) = Inr cs1"
    and "handle_ram_style lib style_s cs1 = Inr cs2"
  shows "list_all (ports_bound mem)
           (handle_rd_ports mem lib orc (handle_wr_ports mem lib (handle_init mem lib cs2)))"
proof -
  have "\<forall>cfg\<in>set (map new_MemConfig is). wr_ports cfg = [] \<and> rd_ports cfg = []"
    by (simp add: new_MemConfig_def)
  from handle_init_unbound[OF handle_ram_style_unbound[OF assms(2)
        handle_ram_kind_unbound[OF assms(1) this]]]
  show ?thesis by (rule binders_bound)
qed

lemma port_candidates_bound:
  "list_all (ports_bound mem) (port_candidates mem lib orc)"
  unfolding port_candidates_def
  by (rule binders_bound) (simp add: new_MemConfig_def)

lemma pipeline_rd_unbound:
  assumes "handle_ram_kind lib kind style_s (map new_MemConfig is) = Inr cs1"
    and "handle_ram_style lib style_s cs1 = Inr cs2"
  shows "list_all (\<lambda>cfg. rd_ports cfg = [])
           (handle_wr_ports mem lib (handle_init mem lib cs2))"
proof -
  have "\<forall>cfg\<in>set (map new_MemConfig is). wr_ports cfg = [] \<and> rd_ports cfg = []"
    by (simp add: new_MemConfig_def)
  from handle_wr_ports_len[OF handle_init_unbound[OF handle_ram_style_unbound[OF assms(2)
        handle_ram_kind_unbound[OF assms(1) this]]], of mem lib mem]
  show ?thesis by (simp add: list_all_iff)
qed

section \<open>Enable binding of a shared read port\<close>

text \<open>
  One \<^verbatim>\<open>rden\<close> capability in the shared pass of \<^verbatim>\<open>handle_rd_ports\<close>, and the
  loop over the capabilities of the group: what is recorded of every branch that is
  kept.
\<close>

lemma rd_shared_rden_eq:
  assumes "rd_wr_port pcfg2 = int w" and "\<not> emu_en pcfg2"
  shows "map bound_rden (rd_shared_rden orc port r w cfg2 pcfg2 endef) =
         (if fst (apply_wrport_opts cfg2 w endef) \<and> rden_kept_spec orc w r (cap_val endef)
          then [(int w, emu_en_spec orc port w r (cap_val endef), emit_en_spec (cap_val endef))]
          else [])"
proof -
  obtain ok cfg3 where a: "apply_wrport_opts cfg2 w endef = (ok, cfg3)"
    by (cases "apply_wrport_opts cfg2 w endef")
  show ?thesis
    unfolding rd_shared_rden_def a using assms
    by (cases ok; cases "cap_val endef")
      (simp_all add: bound_rden_def rden_kept_spec_def emu_en_spec_def emit_en_spec_def)
qed

lemma rd_shared_rden_loop_eq:
  assumes "rd_wr_port pcfg2 = int w" and "\<not> emu_en pcfg2"
  shows "map bound_rden (concat (map (rd_shared_rden orc port r w cfg2 pcfg2) es)) =
         map (\<lambda>endef. (int w, emu_en_spec orc port w r (cap_val endef),
                         emit_en_spec (cap_val endef)))
           (filter (\<lambda>endef. fst (apply_wrport_opts cfg2 w endef) \<and>
                       rden_kept_spec orc w r (cap_val endef)) es)"
  by (induction es) (simp_all add: rd_shared_rden_eq[OF assms])

lemma shared_RdPortConfig_fields:
  "rd_wr_port (shared_RdPortConfig port pdef w didx) = int w"
  "rd_port_def (shared_RdPortConfig port pdef w didx) = didx"
  "\<not> emu_en (shared_RdPortConfig port pdef w didx)"
  by (simp_all add: shared_RdPortConfig_def new_RdPortConfig_def)

lemma rd_shared_srsw_eq:
  assumes "pg_kind (cap_val (ports (ram_defs lib ! ram_def cfg) !
             wr_port_def (wr_ports cfg ! w))) = Srsw"
    and "wr_rd_port (wr_ports cfg ! w) = -1"
    and "addr_compatible orc w r"
    and "rd_clk_enable (mem_rd_ports mem ! r)"
    and "rd_clk (mem_rd_ports mem ! r) = wr_clk (mem_wr_ports mem ! w)"
    and "rd_clk_polarity (mem_rd_ports mem ! r) = wr_clk_polarity (mem_wr_ports mem ! w)"
  shows "map bound_rden (rd_shared mem lib orc r cfg w) =
         map (\<lambda>endef. (int w, emu_en_spec orc (mem_rd_ports mem ! r) w r (cap_val endef),
                         emit_en_spec (cap_val endef)))
           (filter (\<lambda>endef.
               fst (apply_wrport_opts
                      (cfg\<lparr>wr_ports := (wr_ports cfg)
                         [w := (wr_ports cfg ! w)\<lparr>wr_rd_port := int r\<rparr>]\<rparr>) w endef) \<and>
               rden_kept_spec orc w r (cap_val endef))
             (rden (cap_val (ports (ram_defs lib ! ram_def cfg) !
                      wr_port_def (wr_ports cfg ! w)))))"
  using assms
  by (simp add: rd_shared_def Let_def
      rd_shared_rden_loop_eq[OF shared_RdPortConfig_fields(1) shared_RdPortConfig_fields(3)])

lemma rd_shared_in_step:
  "w < length (mem_wr_ports mem) \<Longrightarrow>
   set (rd_shared mem lib orc r cfg w) \<subseteq> set (rd_bind_cfg mem lib orc r cfg)"
  by (auto simp: rd_bind_cfg_def Let_def)

lemma apply_clock_frame:
  "apply_clock cfg d c p = (ok, cfg') \<Longrightarrow>
   ram_def cfg' = ram_def cfg \<and> rd_ports cfg' = rd_ports cfg"
  by (auto simp: apply_clock_def Let_def split: if_splits option.splits)

lemma apply_wrport_opts_frame:
  "apply_wrport_opts cfg w cap = (ok, cfg') \<Longrightarrow>
   ram_def cfg' = ram_def cfg \<and> rd_ports cfg' = rd_ports cfg"
  by (auto simp: apply_wrport_opts_def split: prod.splits bool.splits)

lemma rd_unshared_step:
  "cfg' \<in> set (rd_unshared port cfg i d) \<Longrightarrow>
   ram_def cfg' = ram_def cfg \<and>
   (\<exists>pc. rd_ports cfg' = rd_ports cfg @ [pc] \<and> rd_wr_port pc = -1)"
  by (auto simp: rd_unshared_def rd_unshared_clock_def rd_unshared_rden_def Let_def
      new_RdPortConfig_def
      split: if_splits prod.splits bool.splits dest!: apply_clock_frame[OF sym])

lemma rd_shared_rden_step:
  assumes "cfg' \<in> set (rd_shared_rden orc port r w cfg2 pcfg2 endef)"
    and "rd_wr_port pcfg2 = int w" and "\<not> emu_en pcfg2"
  shows "ram_def cfg' = ram_def cfg2 \<and>
         (\<exists>pc. rd_ports cfg' = rd_ports cfg2 @ [pc] \<and> rd_wr_port pc = int w \<and>
               rd_port_def pc = rd_port_def pcfg2 \<and>
               rden_flags_spec orc port w r pc (cap_val endef))"
proof -
  obtain ok cfg3 where a: "apply_wrport_opts cfg2 w endef = (ok, cfg3)"
    by (cases "apply_wrport_opts cfg2 w endef")
  note f = apply_wrport_opts_frame[OF a]
  show ?thesis
    using assms f unfolding rd_shared_rden_def a
    by (cases ok; cases "cap_val endef")
      (auto simp: rden_flags_spec_def rden_kept_spec_def emu_en_spec_def emit_en_spec_def
         split: if_splits)
qed

lemma rd_shared_step:
  assumes "cfg' \<in> set (rd_shared mem lib orc r cfg w)"
  shows "ram_def cfg' = ram_def cfg \<and>
         (\<exists>pc. rd_ports cfg' = rd_ports cfg @ [pc] \<and>
               rden_port_ok mem lib orc (ram_def cfg) r pc)"
proof -
  let ?didx = "wr_port_def (wr_ports cfg ! w)"
  let ?pdef = "cap_val (ports (ram_defs lib ! ram_def cfg) ! ?didx)"
  let ?port = "mem_rd_ports mem ! r"
  let ?cfg2 = "cfg\<lparr>wr_ports := (wr_ports cfg)[w := (wr_ports cfg ! w)\<lparr>wr_rd_port := int r\<rparr>]\<rparr>"
  let ?pcfg2 = "shared_RdPortConfig ?port ?pdef w ?didx"
  show ?thesis
  proof (cases "pg_kind ?pdef = Srsw")
    case True
    with assms obtain endef where e: "endef \<in> set (rden ?pdef)"
      and c: "cfg' \<in> set (rd_shared_rden orc ?port r w ?cfg2 ?pcfg2 endef)"
      by (auto simp: rd_shared_def Let_def split: if_splits)
    from rd_shared_rden_step[OF c shared_RdPortConfig_fields(1) shared_RdPortConfig_fields(3)]
    obtain pc where pc: "ram_def cfg' = ram_def cfg" "rd_ports cfg' = rd_ports cfg @ [pc]"
      "rd_wr_port pc = int w" "rd_port_def pc = ?didx"
      "rden_flags_spec orc ?port w r pc (cap_val endef)"
      by (auto simp: shared_RdPortConfig_fields(2))
    have "rden_port_ok mem lib orc (ram_def cfg) r pc"
      unfolding rden_port_ok_def using pc(3,4,5) e by (auto simp: list_ex_iff)
    with pc(1,2) show ?thesis by blast
  next
    case False
    with assms have "ram_def cfg' = ram_def cfg"
      "rd_ports cfg' = rd_ports cfg @ [?pcfg2]"
      by (auto simp: rd_shared_def Let_def split: if_splits)
    moreover have "rden_port_ok mem lib orc (ram_def cfg) r ?pcfg2"
      unfolding rden_port_ok_def using False by (simp add: shared_RdPortConfig_fields(2))
    ultimately show ?thesis by blast
  qed
qed

lemma rd_bind_cfg_step:
  assumes "cfg' \<in> set (rd_bind_cfg mem lib orc r cfg)"
  shows "ram_def cfg' = ram_def cfg \<and>
         (\<exists>pc. rd_ports cfg' = rd_ports cfg @ [pc] \<and>
               rden_port_ok mem lib orc (ram_def cfg) r pc)"
proof -
  from assms consider
    (u) i where "cfg' \<in> set (rd_unshared (mem_rd_ports mem ! r) cfg i
                              (ports (ram_defs lib ! ram_def cfg) ! i))"
  | (s) w where "cfg' \<in> set (rd_shared mem lib orc r cfg w)"
    by (auto simp: rd_bind_cfg_def Let_def)
  then show ?thesis
  proof cases
    case u
    from rd_unshared_step[OF u] show ?thesis
      by (auto simp: rden_port_ok_def)
  next
    case s
    then show ?thesis by (rule rd_shared_step)
  qed
qed

lemma rd_ports_fold_rden:
  assumes "\<forall>cfg\<in>set cs. length (rd_ports cfg) = k \<and>
             (\<forall>r<k. rden_port_ok mem lib orc (ram_def cfg) r (rd_ports cfg ! r))"
  shows "\<forall>cfg'\<in>set (fold (\<lambda>pidx cfgs. concat (map (rd_bind_cfg mem lib orc pidx) cfgs))
                         [k..<k + n] cs).
           length (rd_ports cfg') = k + n \<and>
           (\<forall>r<k + n. rden_port_ok mem lib orc (ram_def cfg') r (rd_ports cfg' ! r))"
proof (induction n)
  case 0
  with assms show ?case by simp
next
  case (Suc n)
  let ?prev = "fold (\<lambda>pidx cfgs. concat (map (rd_bind_cfg mem lib orc pidx) cfgs)) [k..<k + n] cs"
  have f: "fold (\<lambda>pidx cfgs. concat (map (rd_bind_cfg mem lib orc pidx) cfgs))
             [k..<k + Suc n] cs = concat (map (rd_bind_cfg mem lib orc (k + n)) ?prev)"
    by simp
  show ?case unfolding f
  proof
    fix cfg' assume "cfg' \<in> set (concat (map (rd_bind_cfg mem lib orc (k + n)) ?prev))"
    then obtain cfg where c: "cfg \<in> set ?prev" and s: "cfg' \<in> set (rd_bind_cfg mem lib orc (k + n) cfg)"
      by auto
    from Suc.IH c have len: "length (rd_ports cfg) = k + n"
      and old: "\<forall>r<k + n. rden_port_ok mem lib orc (ram_def cfg) r (rd_ports cfg ! r)"
      by auto
    from rd_bind_cfg_step[OF s] obtain pc where
      pc: "ram_def cfg' = ram_def cfg" "rd_ports cfg' = rd_ports cfg @ [pc]"
      "rden_port_ok mem lib orc (ram_def cfg) (k + n) pc"
      by blast
    have "rden_port_ok mem lib orc (ram_def cfg') r (rd_ports cfg' ! r)" if "r < k + Suc n" for r
    proof (cases "r < k + n")
      case True
      with old len pc(1,2) show ?thesis by (simp add: nth_append)
    next
      case False
      with that have "r = k + n" by simp
      with len pc show ?thesis by (simp add: nth_append)
    qed
    with len pc(2) show "length (rd_ports cfg') = k + Suc n \<and>
      (\<forall>r<k + Suc n. rden_port_ok mem lib orc (ram_def cfg') r (rd_ports cfg' ! r))"
      by simp
  qed
qed

lemma handle_rd_ports_rden:
  assumes "list_all (\<lambda>cfg. rd_ports cfg = []) cs"
    and "cfg' \<in> set (handle_rd_ports mem lib orc cs)"
    and "r < length (mem_rd_ports mem)"
  shows "rden_port_ok mem lib orc (ram_def cfg') r (rd_ports cfg' ! r)"
proof -
  from assms(1) have "\<forall>cfg\<in>set cs. length (rd_ports cfg) = 0 \<and>
             (\<forall>r<0. rden_port_ok mem lib orc (ram_def cfg) r (rd_ports cfg ! r))"
    by (simp add: list_all_iff)
  from rd_ports_fold_rden[OF this, of "length (mem_rd_ports mem)"] assms(2,3)
  show ?thesis by (simp add: handle_rd_ports_def)
qed

text \<open>
  Claim C6. Let write port \<open>w\<close> of a candidate be bound on an \<^verbatim>\<open>srsw\<close> group and
  not yet shared, its address compatible with read port \<open>r\<close>, and \<open>r\<close> clocked on
  the clock and polarity of \<open>w\<close>. Then the shared pass of \<^verbatim>\<open>handle_rd_ports\<close>
  for \<open>r\<close> and \<open>w\<close> yields one candidate for each \<^verbatim>\<open>rden\<close> capability of the
  group, in their order, except those whose options conflict and a \<open>WriteExcludes\<close>
  for which \<open>get_wr_excludes_rd w r\<close> fails. The read port pushed by a branch is
  paired with \<open>w\<close>; its \<^verbatim>\<open>emu_en\<close> holds exactly if the kind is \<open>None\<close> and the
  enable is not the constant 1, or the kind is \<open>WriteImplies\<close> and
  \<open>get_wr_implies_rd w r\<close> fails (\<open>Any\<close> and \<open>WriteExcludes\<close> leave it clear), and
  its \<^verbatim>\<open>emit_en\<close> holds exactly if the kind is not \<open>None\<close>. These candidates are
  among those the binding of \<open>r\<close> makes of the candidate. And in every candidate
  that leaves \<^verbatim>\<open>handle_rd_ports\<close>, having entered it with no read port bound,
  every read port shared with a write port on an \<^verbatim>\<open>srsw\<close> group carries the
  flags of an \<^verbatim>\<open>rden\<close> capability of that group which is not a dropped one.
\<close>

theorem shared_rden_binding:
  fixes mem lib orc r cfg w cs
  defines "port \<equiv> mem_rd_ports mem ! r"
    and "pdef \<equiv> cap_val (ports (ram_defs lib ! ram_def cfg) ! wr_port_def (wr_ports cfg ! w))"
    and "cfg2 \<equiv> cfg\<lparr>wr_ports := (wr_ports cfg)[w := (wr_ports cfg ! w)\<lparr>wr_rd_port := int r\<rparr>]\<rparr>"
  shows "(pg_kind pdef = Srsw \<and> wr_rd_port (wr_ports cfg ! w) = -1 \<and>
          addr_compatible orc w r \<and> rd_clk_enable port \<and>
          rd_clk port = wr_clk (mem_wr_ports mem ! w) \<and>
          rd_clk_polarity port = wr_clk_polarity (mem_wr_ports mem ! w) \<longrightarrow>
            map bound_rden (rd_shared mem lib orc r cfg w) =
            map (\<lambda>endef. (int w, emu_en_spec orc port w r (cap_val endef),
                            emit_en_spec (cap_val endef)))
              (filter (\<lambda>endef. fst (apply_wrport_opts cfg2 w endef) \<and>
                                 rden_kept_spec orc w r (cap_val endef))
                      (rden pdef))) \<and>
         (w < length (mem_wr_ports mem) \<longrightarrow>
            set (rd_shared mem lib orc r cfg w) \<subseteq> set (rd_bind_cfg mem lib orc r cfg)) \<and>
         (list_all (\<lambda>cfg. rd_ports cfg = []) cs \<longrightarrow>
            (\<forall>cfg'\<in>set (handle_rd_ports mem lib orc cs).
               \<forall>r'<length (mem_rd_ports mem). \<forall>w'.
                 shared_on_srsw lib cfg' r' w' \<longrightarrow>
                 list_ex (\<lambda>endef. rden_flags_spec orc (mem_rd_ports mem ! r') w' r'
                                     (rd_ports cfg' ! r') (cap_val endef))
                   (rden (cap_val (ports (ram_defs lib ! ram_def cfg') !
                                     rd_port_def (rd_ports cfg' ! r'))))))"
proof (intro conjI impI ballI allI)
  assume "pg_kind pdef = Srsw \<and> wr_rd_port (wr_ports cfg ! w) = -1 \<and>
          addr_compatible orc w r \<and> rd_clk_enable port \<and>
          rd_clk port = wr_clk (mem_wr_ports mem ! w) \<and>
          rd_clk_polarity port = wr_clk_polarity (mem_wr_ports mem ! w)"
  then show "map bound_rden (rd_shared mem lib orc r cfg w) =
            map (\<lambda>endef. (int w, emu_en_spec orc port w r (cap_val endef),
                            emit_en_spec (cap_val endef)))
              (filter (\<lambda>endef. fst (apply_wrport_opts cfg2 w endef) \<and>
                                 rden_kept_spec orc w r (cap_val endef))
                      (rden pdef))"
    unfolding port_def pdef_def cfg2_def by (intro rd_shared_srsw_eq) simp_all
next
  assume "w < length (mem_wr_ports mem)"
  then show "set (rd_shared mem lib orc r cfg w) \<subseteq> set (rd_bind_cfg mem lib orc r cfg)"
    by (rule rd_shared_in_step)
next
  fix cfg' r' w'
  assume "list_all (\<lambda>cfg. rd_ports cfg = []) cs"
    and "cfg' \<in> set (handle_rd_ports mem lib orc cs)"
    and "r' < length (mem_rd_ports mem)"
    and s: "shared_on_srsw lib cfg' r' w'"
  from handle_rd_ports_rden[OF this(1,2,3)] s
  show "list_ex (\<lambda>endef. rden_flags_spec orc (mem_rd_ports mem ! r') w' r'
                                     (rd_ports cfg' ! r') (cap_val endef))
                   (rden (cap_val (ports (ram_defs lib ! ram_def cfg') !
                                     rd_port_def (rd_ports cfg' ! r'))))"
    by (simp add: rden_port_ok_def shared_on_srsw_def)
qed

theorem shared_rden_binding_witness:
  "(pg_kind (cap_val (ports (ram_defs rden_lib ! ram_def (hd rden_wr_candidates)) !
       wr_port_def (wr_ports (hd rden_wr_candidates) ! 0))) = Srsw \<and>
    wr_rd_port (wr_ports (hd rden_wr_candidates) ! 0) = -1 \<and>
    addr_compatible no_oracles 0 0 \<and> rd_clk_enable (mem_rd_ports rden_mem ! 0) \<and>
    rd_clk (mem_rd_ports rden_mem ! 0) = wr_clk (mem_wr_ports rden_mem ! 0) \<and>
    rd_clk_polarity (mem_rd_ports rden_mem ! 0) = wr_clk_polarity (mem_wr_ports rden_mem ! 0)) \<and>
   map bound_rden (rd_shared rden_mem rden_lib no_oracles 0 (hd rden_wr_candidates) 0)
     = [(0, True, False), (0, False, True), (0, True, True)] \<and>
   addr_compatible all_oracles 0 0 \<and>
   map bound_rden (rd_shared rden_mem rden_lib all_oracles 0 (hd rden_wr_candidates) 0)
     = [(0, True, False), (0, False, True), (0, False, True), (0, False, True)] \<and>
   0 < length (mem_wr_ports rden_mem) \<and>
   list_all (\<lambda>c. c \<in> set (rd_bind_cfg rden_mem rden_lib no_oracles 0 (hd rden_wr_candidates)))
     (rd_shared rden_mem rden_lib no_oracles 0 (hd rden_wr_candidates) 0) \<and>
   list_all (\<lambda>cfg. rd_ports cfg = []) rden_wr_candidates \<and>
   length (handle_rd_ports rden_mem rden_lib no_oracles rden_wr_candidates) = 3 \<and>
   list_all (\<lambda>cfg'. shared_on_srsw rden_lib cfg' 0 0 \<and>
       list_ex (\<lambda>endef. rden_flags_spec no_oracles (mem_rd_ports rden_mem ! 0) 0 0
                           (rd_ports cfg' ! 0) (cap_val endef))
         (rden (cap_val (ports (ram_defs rden_lib ! ram_def cfg') !
                           rd_port_def (rd_ports cfg' ! 0)))))
     (handle_rd_ports rden_mem rden_lib no_oracles rden_wr_candidates)"
proof -
  have g: "pg_kind (cap_val (ports (ram_defs rden_lib ! ram_def (hd rden_wr_candidates)) !
       wr_port_def (wr_ports (hd rden_wr_candidates) ! 0))) = Srsw \<and>
    wr_rd_port (wr_ports (hd rden_wr_candidates) ! 0) = -1 \<and>
    addr_compatible no_oracles 0 0 \<and> rd_clk_enable (mem_rd_ports rden_mem ! 0) \<and>
    rd_clk (mem_rd_ports rden_mem ! 0) = wr_clk (mem_wr_ports rden_mem ! 0) \<and>
    rd_clk_polarity (mem_rd_ports rden_mem ! 0) = wr_clk_polarity (mem_wr_ports rden_mem ! 0)"
    by code_simp
  have w: "0 < length (mem_wr_ports rden_mem)" by code_simp
  have u: "list_all (\<lambda>cfg. rd_ports cfg = []) rden_wr_candidates" by code_simp
  have n: "length (handle_rd_ports rden_mem rden_lib no_oracles rden_wr_candidates) = 3"
    by code_simp
  have s: "list_all (\<lambda>cfg'. shared_on_srsw rden_lib cfg' 0 0)
             (handle_rd_ports rden_mem rden_lib no_oracles rden_wr_candidates)"
    by code_simp
  have r: "0 < length (mem_rd_ports rden_mem)" by code_simp
  have v: "map (\<lambda>endef. (int 0, emu_en_spec no_oracles (mem_rd_ports rden_mem ! 0) 0 0
                                   (cap_val endef), emit_en_spec (cap_val endef)))
             (filter (\<lambda>endef.
                 fst (apply_wrport_opts
                        ((hd rden_wr_candidates)\<lparr>wr_ports := (wr_ports (hd rden_wr_candidates))
                           [0 := (wr_ports (hd rden_wr_candidates) ! 0)\<lparr>wr_rd_port := int 0\<rparr>]\<rparr>)
                        0 endef) \<and>
                 rden_kept_spec no_oracles 0 0 (cap_val endef))
               (rden (cap_val (ports (ram_defs rden_lib ! ram_def (hd rden_wr_candidates)) !
                        wr_port_def (wr_ports (hd rden_wr_candidates) ! 0)))))
           = [(0, True, False), (0, False, True), (0, True, True)]"
    by code_simp
  have g': "addr_compatible all_oracles 0 0" by code_simp
  have v': "map (\<lambda>endef. (int 0, emu_en_spec all_oracles (mem_rd_ports rden_mem ! 0) 0 0
                                   (cap_val endef), emit_en_spec (cap_val endef)))
             (filter (\<lambda>endef.
                 fst (apply_wrport_opts
                        ((hd rden_wr_candidates)\<lparr>wr_ports := (wr_ports (hd rden_wr_candidates))
                           [0 := (wr_ports (hd rden_wr_candidates) ! 0)\<lparr>wr_rd_port := int 0\<rparr>]\<rparr>)
                        0 endef) \<and>
                 rden_kept_spec all_oracles 0 0 (cap_val endef))
               (rden (cap_val (ports (ram_defs rden_lib ! ram_def (hd rden_wr_candidates)) !
                        wr_port_def (wr_ports (hd rden_wr_candidates) ! 0)))))
           = [(0, True, False), (0, False, True), (0, False, True), (0, False, True)]"
    by code_simp
  from shared_rden_binding[where mem = rden_mem and lib = rden_lib and orc = all_oracles
      and r = 0 and w = 0 and cfg = "hd rden_wr_candidates" and cs = rden_wr_candidates]
    g g' v'
  have a': "map bound_rden (rd_shared rden_mem rden_lib all_oracles 0
      (hd rden_wr_candidates) 0)
      = [(0, True, False), (0, False, True), (0, False, True), (0, False, True)]"
    by simp
  note t = shared_rden_binding[where mem = rden_mem and lib = rden_lib and orc = no_oracles
      and r = 0 and w = 0 and cfg = "hd rden_wr_candidates" and cs = rden_wr_candidates]
  from t g v have a: "map bound_rden (rd_shared rden_mem rden_lib no_oracles 0
      (hd rden_wr_candidates) 0) = [(0, True, False), (0, False, True), (0, True, True)]"
    by simp
  from t w have b: "list_all (\<lambda>c. c \<in> set (rd_bind_cfg rden_mem rden_lib no_oracles 0
      (hd rden_wr_candidates))) (rd_shared rden_mem rden_lib no_oracles 0 (hd rden_wr_candidates) 0)"
    by (auto simp: list_all_iff)
  from t u r s have c: "list_all (\<lambda>cfg'. shared_on_srsw rden_lib cfg' 0 0 \<and>
       list_ex (\<lambda>endef. rden_flags_spec no_oracles (mem_rd_ports rden_mem ! 0) 0 0
                           (rd_ports cfg' ! 0) (cap_val endef))
         (rden (cap_val (ports (ram_defs rden_lib ! ram_def cfg') !
                           rd_port_def (rd_ports cfg' ! 0)))))
     (handle_rd_ports rden_mem rden_lib no_oracles rden_wr_candidates)"
    by (simp add: list_all_iff)
  from g a g' a' w b u n c show ?thesis by blast
qed

section \<open>The transparency invariant\<close>

lemma nth_update_cases: "xs[i := x] ! j = (if i = j \<and> i < length xs then x else xs ! j)"
  by (cases "i < length xs") (auto simp: nth_list_update list_update_beyond)

lemma cfg_extends_refl: "cfg_extends cfg cfg"
  by (simp add: cfg_extends_def)

lemma apply_wrport_opts_extends:
  assumes "apply_wrport_opts cfg w cap = (ok, cfg')"
  shows "cfg_extends cfg cfg'"
proof -
  obtain ok1 o1 where a1: "apply_opts (cfg_opts cfg) (cap_opts cap) = (ok1, o1)"
    by (cases "apply_opts (cfg_opts cfg) (cap_opts cap)")
  obtain ok2 po where a2:
    "apply_opts (wr_portopts (wr_ports cfg ! w)) (cap_portopts cap) = (ok2, po)"
    by (cases "apply_opts (wr_portopts (wr_ports cfg ! w)) (cap_portopts cap)")
  note m1 = apply_opts_mono[OF a1]
  note m2 = apply_opts_mono[OF a2]
  show ?thesis
  proof (cases ok1)
    case False
    with assms a1 have "cfg' = cfg\<lparr>cfg_opts := o1\<rparr>"
      by (simp add: apply_wrport_opts_def)
    then show ?thesis using m1 by (simp add: cfg_extends_def)
  next
    case True
    with assms a1 a2 have "cfg' = cfg\<lparr>cfg_opts := o1,
            wr_ports := (wr_ports cfg)[w := (wr_ports cfg ! w)\<lparr>wr_portopts := po\<rparr>]\<rparr>"
      by (simp add: apply_wrport_opts_def)
    then show ?thesis using m1 m2
      by (auto simp: cfg_extends_def nth_update_cases)
  qed
qed

lemma apply_wrport_opts_applied:
  assumes "apply_wrport_opts cfg w cap = (True, cfg')" and "w < length (wr_ports cfg)"
  shows "wrport_opts_applied cfg' w cap"
proof -
  obtain ok1 o1 where a1: "apply_opts (cfg_opts cfg) (cap_opts cap) = (ok1, o1)"
    by (cases "apply_opts (cfg_opts cfg) (cap_opts cap)")
  obtain ok2 po where a2:
    "apply_opts (wr_portopts (wr_ports cfg ! w)) (cap_portopts cap) = (ok2, po)"
    by (cases "apply_opts (wr_portopts (wr_ports cfg ! w)) (cap_portopts cap)")
  from assms(1) a1 a2 have ok: "ok1" "ok2"
    and eq: "cfg' = cfg\<lparr>cfg_opts := o1,
            wr_ports := (wr_ports cfg)[w := (wr_ports cfg ! w)\<lparr>wr_portopts := po\<rparr>]\<rparr>"
    by (cases ok1; simp add: apply_wrport_opts_def)+
  from a1 a2 ok have "opts_applied o1 (cap_opts cap)" "opts_applied po (cap_portopts cap)"
    by (auto intro: apply_opts_applied)
  then show ?thesis using eq assms(2) by (simp add: wrport_opts_applied_def)
qed

lemma push_emu_trans_extends: "cfg_extends cfg (push_emu_trans cfg r w)"
  by (auto simp: cfg_extends_def push_emu_trans_def nth_update_cases)

lemma push_emu_trans_mem:
  "r < length (rd_ports cfg) \<Longrightarrow> w \<in> set (emu_trans (rd_ports (push_emu_trans cfg r w) ! r))"
  by (simp add: push_emu_trans_def)

lemma wrport_opts_applied_extends:
  assumes "wrport_opts_applied cfg w cap" "cfg_extends cfg cfg'" "w < length (wr_ports cfg)"
  shows "wrport_opts_applied cfg' w cap"
  using assms unfolding wrport_opts_applied_def cfg_extends_def
  by (auto intro: opts_applied_mono)

lemma trans_target_ok_extends:
  assumes "cfg_extends cfg cfg'" "w < length (wr_ports cfg)"
  shows "trans_target_ok cfg' rpdef r w t = trans_target_ok cfg rpdef r w t"
  using assms by (simp add: trans_target_ok_def cfg_extends_def split: TransTargetKind.splits)

lemma transparency_upheld_extends:
  assumes up: "transparency_upheld lib cfg r w" and ext: "cfg_extends cfg cfg'"
    and r: "r < length (rd_ports cfg)" and w: "w < length (wr_ports cfg)"
  shows "transparency_upheld lib cfg' r w"
proof -
  from ext r w have same:
    "ram_def cfg' = ram_def cfg"
    "wr_port_def (wr_ports cfg' ! w) = wr_port_def (wr_ports cfg ! w)"
    "rd_port_def (rd_ports cfg' ! r) = rd_port_def (rd_ports cfg ! r)"
    "emu_read_first cfg' = emu_read_first cfg"
    "set (emu_trans (rd_ports cfg ! r)) \<subseteq> set (emu_trans (rd_ports cfg' ! r))"
    by (simp_all add: cfg_extends_def)
  from up show ?thesis
    unfolding transparency_upheld_def Let_def same(1-4) list_ex_iff
    using same(5) wrport_opts_applied_extends[OF _ ext w] trans_target_ok_extends[OF ext w]
    by blast
qed


lemma trans_caps_sound:
  assumes "cfg' \<in> set (snd (trans_caps cfg rpdef r w transparent tdefs))"
    and "w < length (wr_ports cfg)"
  shows "cfg_extends cfg cfg' \<and>
         (\<exists>tdef\<in>set tdefs. trans_target_ok cfg rpdef r w (cap_val tdef) \<and>
             trans_kind_ok transparent (cap_val tdef) \<and> wrport_opts_applied cfg' w tdef)"
  using assms(1)
proof (induction tdefs)
  case Nil
  then show ?case by simp
next
  case (Cons tdef tdefs)
  obtain ff rest where tc: "trans_caps cfg rpdef r w transparent tdefs = (ff, rest)"
    by (cases "trans_caps cfg rpdef r w transparent tdefs")
  obtain ok cfg2 where ap: "apply_wrport_opts cfg w tdef = (ok, cfg2)"
    by (cases "apply_wrport_opts cfg w tdef")
  from Cons.prems tc ap consider
      (tail) "cfg' \<in> set rest"
    | (free) "trans_target_ok cfg rpdef r w (cap_val tdef)"
        "trans_kind_ok transparent (cap_val tdef)" "wrport_opts_applied cfg w tdef" "cfg' = cfg"
    | (commit) "trans_target_ok cfg rpdef r w (cap_val tdef)"
        "trans_kind_ok transparent (cap_val tdef)" "ok" "cfg' = cfg2"
    by (cases ok) (auto split: if_splits)
  then show ?case
  proof cases
    case tail
    with Cons.IH tc show ?thesis by auto
  next
    case free
    then show ?thesis by (auto simp: cfg_extends_refl)
  next
    case commit
    with ap have a: "apply_wrport_opts cfg w tdef = (True, cfg')" by simp
    from apply_wrport_opts_applied[OF a assms(2)] apply_wrport_opts_extends[OF a] commit
    show ?thesis by auto
  qed
qed

lemma trans_cfg_extends:
  assumes "cfg' \<in> set (trans_cfg mem lib r w cfg)" and "w < length (wr_ports cfg)"
  shows "cfg_extends cfg cfg'"
proof -
  let ?tc = "trans_caps cfg
      (cap_val (ports (ram_defs lib ! ram_def cfg) ! rd_port_def (rd_ports cfg ! r))) r w
      (transparency_mask (mem_rd_ports mem ! r) ! w \<or> emu_read_first cfg)
      (wrtrans (cap_val (ports (ram_defs lib ! ram_def cfg) ! wr_port_def (wr_ports cfg ! w))))"
  obtain ff new where tc: "?tc = (ff, new)" by (cases ?tc)
  from assms(1) tc have "cfg' = cfg \<or> cfg' = push_emu_trans cfg r w \<or> cfg' \<in> set (snd ?tc)"
    by (auto simp: trans_cfg_def Let_def split: if_splits)
  then show ?thesis
    using cfg_extends_refl push_emu_trans_extends trans_caps_sound[OF _ assms(2)] by blast
qed

lemma trans_kind_ok_New: "trans_kind_ok True t \<Longrightarrow> trans_kind t = New"
  by (cases "trans_kind t") (simp_all add: trans_kind_ok_def)

lemma trans_cfg_establishes:
  assumes mem: "cfg' \<in> set (trans_cfg mem lib r w cfg)"
    and req: "trans_required mem cfg' r w"
    and r: "r < length (rd_ports cfg)" and w: "w < length (wr_ports cfg)"
  shows "transparency_upheld lib cfg' r w"
proof -
  let ?rpdef = "cap_val (ports (ram_defs lib ! ram_def cfg) ! rd_port_def (rd_ports cfg ! r))"
  let ?wpdef = "cap_val (ports (ram_defs lib ! ram_def cfg) ! wr_port_def (wr_ports cfg ! w))"
  let ?tc = "trans_caps cfg ?rpdef r w True (wrtrans ?wpdef)"
  have ext: "cfg_extends cfg cfg'" by (rule trans_cfg_extends[OF mem w])
  then have erf: "emu_read_first cfg' = emu_read_first cfg" by (simp add: cfg_extends_def)
  from req erf have tm: "transparency_mask (mem_rd_ports mem ! r) ! w"
    and nx: "\<not> (collision_x_mask (mem_rd_ports mem ! r) ! w \<and> \<not> emu_read_first cfg)"
    by (simp_all add: trans_required_def Let_def)
  obtain ff new where tc: "?tc = (ff, new)" by (cases ?tc)
  from mem tm nx tc have "cfg' = push_emu_trans cfg r w \<or> cfg' \<in> set (snd ?tc)"
    by (auto simp: trans_cfg_def Let_def split: if_splits)
  then show ?thesis
  proof
    assume "cfg' = push_emu_trans cfg r w"
    with push_emu_trans_mem[OF r] show ?thesis
      by (simp add: transparency_upheld_def Let_def)
  next
    assume "cfg' \<in> set (snd ?tc)"
    from trans_caps_sound[OF this w] obtain tdef where t: "tdef \<in> set (wrtrans ?wpdef)"
      "trans_target_ok cfg ?rpdef r w (cap_val tdef)" "trans_kind_ok True (cap_val tdef)"
      "wrport_opts_applied cfg' w tdef" by blast
    from ext r w have same:
      "ram_def cfg' = ram_def cfg"
      "wr_port_def (wr_ports cfg' ! w) = wr_port_def (wr_ports cfg ! w)"
      "rd_port_def (rd_ports cfg' ! r) = rd_port_def (rd_ports cfg ! r)"
      by (simp_all add: cfg_extends_def)
    from t trans_target_ok_extends[OF ext w] trans_kind_ok_New show ?thesis
      unfolding transparency_upheld_def Let_def same list_ex_iff by blast
  qed
qed


lemma trans_required_extends:
  "cfg_extends cfg cfg' \<Longrightarrow> trans_required mem cfg' r w = trans_required mem cfg r w"
  by (simp add: trans_required_def cfg_extends_def)

lemma trans_inv_step:
  assumes inv: "trans_inv mem lib S cfg"
    and r: "r < length (mem_rd_ports mem)" and w: "w < length (mem_wr_ports mem)"
    and mem: "cfg' \<in> set (trans_cfg mem lib r w cfg)"
  shows "trans_inv mem lib (insert (r, w) S) cfg'"
proof -
  from inv have pb: "ports_bound mem cfg" by (simp add: trans_inv_def)
  with r w have r': "r < length (rd_ports cfg)" and w': "w < length (wr_ports cfg)"
    by (simp_all add: ports_bound_def)
  have ext: "cfg_extends cfg cfg'" by (rule trans_cfg_extends[OF mem w'])
  from ext pb have pb': "ports_bound mem cfg'"
    by (simp add: ports_bound_def cfg_extends_def)
  have new: "trans_required mem cfg' r w \<longrightarrow> transparency_upheld lib cfg' r w"
    using trans_cfg_establishes[OF mem _ r' w'] by blast
  have old: "trans_required mem cfg' a b \<longrightarrow> transparency_upheld lib cfg' a b"
    if "(a, b) \<in> S" "a < length (mem_rd_ports mem)" "b < length (mem_wr_ports mem)" for a b
  proof
    assume "trans_required mem cfg' a b"
    then have "trans_required mem cfg a b" by (simp add: trans_required_extends[OF ext])
    with inv that have "transparency_upheld lib cfg a b" by (auto simp: trans_inv_def)
    moreover from pb that have "a < length (rd_ports cfg)" "b < length (wr_ports cfg)"
      by (simp_all add: ports_bound_def)
    ultimately show "transparency_upheld lib cfg' a b"
      using transparency_upheld_extends[OF _ ext] by blast
  qed
  show ?thesis unfolding trans_inv_def using pb' new old by auto
qed

lemma trans_inv_skip:
  assumes "trans_inv mem lib S cfg"
    and "\<not> trans_pair mem r w \<or> \<not> rd_clk_enable (mem_rd_ports mem ! r)"
  shows "trans_inv mem lib (insert (r, w) S) cfg"
proof -
  from assms(2) have "\<not> trans_required mem cfg r w"
    by (auto simp: trans_required_def trans_pair_def Let_def)
  with assms(1) show ?thesis by (auto simp: trans_inv_def)
qed

lemma trans_inv_inner:
  assumes "\<forall>cfg\<in>set cs. trans_inv mem lib S cfg"
    and "r < length (mem_rd_ports mem)" and "\<forall>w\<in>set ws. w < length (mem_wr_ports mem)"
  shows "\<forall>cfg\<in>set (fold (\<lambda>wpidx cfgs.
                              if trans_pair mem r wpidx
                              then concat (map (trans_cfg mem lib r wpidx) cfgs)
                              else cfgs) ws cs).
           trans_inv mem lib (S \<union> {r} \<times> set ws) cfg"
  using assms(1,3)
proof (induction ws arbitrary: cs S)
  case Nil
  then show ?case by simp
next
  case (Cons w ws)
  let ?step = "if trans_pair mem r w then concat (map (trans_cfg mem lib r w) cs) else cs"
  from Cons.prems have w: "w < length (mem_wr_ports mem)"
    and ws: "\<forall>w\<in>set ws. w < length (mem_wr_ports mem)" by simp_all
  have "\<forall>cfg\<in>set ?step. trans_inv mem lib (insert (r, w) S) cfg"
  proof (cases "trans_pair mem r w")
    case True
    then show ?thesis
      using Cons.prems(1) trans_inv_step[OF _ assms(2) w] by auto
  next
    case False
    then show ?thesis using Cons.prems(1) trans_inv_skip by auto
  qed
  from Cons.IH[OF this ws] have
    "\<forall>cfg\<in>set (fold (\<lambda>wpidx cfgs.
                              if trans_pair mem r wpidx
                              then concat (map (trans_cfg mem lib r wpidx) cfgs)
                              else cfgs) ws ?step).
           trans_inv mem lib (insert (r, w) S \<union> {r} \<times> set ws) cfg" .
  moreover have "insert (r, w) S \<union> {r} \<times> set ws = S \<union> {r} \<times> set (w # ws)" by auto
  ultimately show ?case by simp
qed

lemma trans_inv_skip_row:
  assumes "trans_inv mem lib S cfg" and "\<not> rd_clk_enable (mem_rd_ports mem ! r)"
  shows "trans_inv mem lib (S \<union> {r} \<times> W) cfg"
proof -
  from assms(2) have "\<not> trans_required mem cfg r w" for w
    by (simp add: trans_required_def Let_def)
  with assms(1) show ?thesis by (auto simp: trans_inv_def)
qed

lemma trans_inv_outer:
  assumes "\<forall>cfg\<in>set cs. trans_inv mem lib S cfg"
    and "\<forall>r\<in>set rs. r < length (mem_rd_ports mem)"
  shows "\<forall>cfg\<in>set (fold (\<lambda>rpidx cfgs.
                 if \<not> rd_clk_enable (mem_rd_ports mem ! rpidx) then cfgs
                 else fold (\<lambda>wpidx cfgs.
                              if trans_pair mem rpidx wpidx
                              then concat (map (trans_cfg mem lib rpidx wpidx) cfgs)
                              else cfgs)
                           [0..<length (mem_wr_ports mem)] cfgs) rs cs).
           trans_inv mem lib (S \<union> set rs \<times> {..<length (mem_wr_ports mem)}) cfg"
  using assms
proof (induction rs arbitrary: cs S)
  case Nil
  then show ?case by simp
next
  case (Cons r rs)
  let ?W = "{..<length (mem_wr_ports mem)}"
  let ?inner = "fold (\<lambda>wpidx cfgs.
                              if trans_pair mem r wpidx
                              then concat (map (trans_cfg mem lib r wpidx) cfgs)
                              else cfgs)
                           [0..<length (mem_wr_ports mem)] cs"
  let ?step = "if \<not> rd_clk_enable (mem_rd_ports mem ! r) then cs else ?inner"
  from Cons.prems have r: "r < length (mem_rd_ports mem)"
    and rs: "\<forall>r\<in>set rs. r < length (mem_rd_ports mem)" by simp_all
  have "\<forall>cfg\<in>set ?step. trans_inv mem lib (S \<union> {r} \<times> ?W) cfg"
  proof (cases "rd_clk_enable (mem_rd_ports mem ! r)")
    case True
    then show ?thesis
      using trans_inv_inner[OF Cons.prems(1) r, of "[0..<length (mem_wr_ports mem)]"]
      by (simp add: atLeast0LessThan)
  next
    case False
    then show ?thesis using Cons.prems(1) trans_inv_skip_row by auto
  qed
  from Cons.IH[OF this rs] have
    "\<forall>cfg\<in>set (fold (\<lambda>rpidx cfgs.
                 if \<not> rd_clk_enable (mem_rd_ports mem ! rpidx) then cfgs
                 else fold (\<lambda>wpidx cfgs.
                              if trans_pair mem rpidx wpidx
                              then concat (map (trans_cfg mem lib rpidx wpidx) cfgs)
                              else cfgs)
                           [0..<length (mem_wr_ports mem)] cfgs) rs ?step).
           trans_inv mem lib (S \<union> {r} \<times> ?W \<union> set rs \<times> ?W) cfg" .
  moreover have "S \<union> {r} \<times> ?W \<union> set rs \<times> ?W = S \<union> set (r # rs) \<times> ?W" by auto
  ultimately show ?case by simp
qed

lemma read_first_fork_bound:
  "ports_bound mem cfg \<Longrightarrow> cfg' \<in> set (read_first_fork cfg) \<Longrightarrow> ports_bound mem cfg'"
  by (auto simp: read_first_fork_def ports_bound_def split: if_splits)

text \<open>
  Claim C8. Let the candidates that enter the transparency handler hold one port
  configuration per port of the memory. Then in every candidate that leaves it, for
  every read port \<open>r\<close> and write port \<open>w\<close> that are both clocked, on the same clock
  signal and polarity, with \<^verbatim>\<open>transparency_mask[w]\<close> of \<open>r\<close> set and the pair not
  skipped for \<^verbatim>\<open>collision_x_mask[w]\<close>: a \<^verbatim>\<open>wrtrans\<close> capability of kind \<open>New\<close> of
  the group of \<open>w\<close>, its target matching the pairing, has its options applied, or \<open>w\<close>
  is in the \<^verbatim>\<open>emu_trans\<close> list of \<open>r\<close>, or \<^verbatim>\<open>emu_read_first\<close> is set.
\<close>

theorem handle_trans_upholds:
  assumes bound: "list_all (ports_bound mem) cs"
  shows "\<forall>cfg'\<in>set (handle_trans mem lib orc cs).
           \<forall>r<length (mem_rd_ports mem). \<forall>w<length (mem_wr_ports mem).
             trans_required mem cfg' r w \<longrightarrow> transparency_upheld lib cfg' r w"
proof (intro ballI allI impI)
  fix cfg' r w
  assume out: "cfg' \<in> set (handle_trans mem lib orc cs)"
    and r: "r < length (mem_rd_ports mem)" and w: "w < length (mem_wr_ports mem)"
    and req: "trans_required mem cfg' r w"
  let ?cs1 = "if emulate_read_first_ok orc then concat (map read_first_fork cs) else cs"
  from bound have "\<forall>cfg\<in>set ?cs1. ports_bound mem cfg"
    by (auto simp: list_all_iff dest: read_first_fork_bound)
  then have "\<forall>cfg\<in>set ?cs1. trans_inv mem lib {} cfg" by (simp add: trans_inv_def)
  from trans_inv_outer[OF this, of "[0..<length (mem_rd_ports mem)]"] out
  have "trans_inv mem lib
          ({} \<union> set [0..<length (mem_rd_ports mem)] \<times> {..<length (mem_wr_ports mem)}) cfg'"
    by (simp add: handle_trans_def Let_def)
  with r w req show "transparency_upheld lib cfg' r w" by (auto simp: trans_inv_def)
qed

theorem handle_trans_upholds_witness:
  "list_all (ports_bound trans_mem) (port_candidates trans_mem trans_lib no_oracles) \<and>
   list_all (\<lambda>cfg. trans_required trans_mem cfg 0 0 \<and> transparency_upheld trans_lib cfg 0 0)
     (handle_trans trans_mem trans_lib no_oracles
        (port_candidates trans_mem trans_lib no_oracles)) \<and>
   map (\<lambda>cfg. (map rd_wr_port (rd_ports cfg), map emu_trans (rd_ports cfg)))
     (handle_trans trans_mem trans_lib no_oracles
        (port_candidates trans_mem trans_lib no_oracles))
     = [([-1], [[0]]), ([0], [[]])]"
proof -
  have h: "list_all (ports_bound trans_mem) (port_candidates trans_mem trans_lib no_oracles)"
    by code_simp
  have req: "list_all (\<lambda>cfg. trans_required trans_mem cfg 0 0)
     (handle_trans trans_mem trans_lib no_oracles
        (port_candidates trans_mem trans_lib no_oracles))"
    by code_simp
  have len: "0 < length (mem_rd_ports trans_mem)" "0 < length (mem_wr_ports trans_mem)"
    by (simp_all add: trans_mem_def)
  have v: "map (\<lambda>cfg. (map rd_wr_port (rd_ports cfg), map emu_trans (rd_ports cfg)))
     (handle_trans trans_mem trans_lib no_oracles
        (port_candidates trans_mem trans_lib no_oracles))
     = [([-1], [[0]]), ([0], [[]])]"
    by code_simp
  from handle_trans_upholds[OF h, of trans_lib no_oracles] req len
  have "list_all (\<lambda>cfg. trans_required trans_mem cfg 0 0 \<and> transparency_upheld trans_lib cfg 0 0)
     (handle_trans trans_mem trans_lib no_oracles
        (port_candidates trans_mem trans_lib no_oracles))"
    unfolding list_all_iff by blast
  with h v show ?thesis by blast
qed

section \<open>Asynchronous write ports\<close>

lemma same_domain_async:
  "list_ex (\<lambda>p. \<not> wr_clk_enable p) ps \<Longrightarrow> \<not> same_domain p0 ps"
  by (induction ps) auto

lemma determine_logic_ok_async:
  "list_ex (\<lambda>p. \<not> wr_clk_enable p) (mem_wr_ports mem) \<Longrightarrow> \<not> determine_logic_ok kind mem"
  by (cases "mem_wr_ports mem")
     (auto simp: determine_logic_ok_def dest: same_domain_async[where ?p0.0="hd (mem_wr_ports mem)"])

lemma wr_ports_loop_async:
  "list_ex (\<lambda>p. \<not> wr_clk_enable p) ps \<Longrightarrow> wr_ports_loop lib ps cs = []"
  by (induction ps arbitrary: cs) auto

lemma handle_wr_ports_async:
  "list_ex (\<lambda>p. \<not> wr_clk_enable p) (mem_wr_ports mem) \<Longrightarrow> handle_wr_ports mem lib cs = []"
  by (simp add: handle_wr_ports_def Let_def wr_ports_loop_async)

lemma fold_concat_Nil: "fold (\<lambda>i cs. concat (map (f i) cs)) is [] = []"
  by (induction "is") simp_all

lemma fold_if_concat_Nil: "fold (\<lambda>i cs. if c i then cs else concat (map (f i) cs)) is [] = []"
  by (induction "is") simp_all

lemma handle_rd_ports_Nil: "handle_rd_ports mem lib orc [] = []"
  by (simp add: handle_rd_ports_def fold_concat_Nil)

lemma handle_trans_Nil: "handle_trans mem lib orc [] = []"
proof -
  have inner: "fold (\<lambda>wpidx cfgs. if trans_pair mem r wpidx
                              then concat (map (trans_cfg mem lib r wpidx) cfgs)
                              else cfgs) ws [] = []" for r ws
    by (induction ws) simp_all
  have "fold (\<lambda>rpidx cfgs.
                 if \<not> rd_clk_enable (mem_rd_ports mem ! rpidx) then cfgs
                 else fold (\<lambda>wpidx cfgs.
                              if trans_pair mem rpidx wpidx
                              then concat (map (trans_cfg mem lib rpidx wpidx) cfgs)
                              else cfgs)
                           [0..<length (mem_wr_ports mem)] cfgs) rs [] = []" for rs
    by (induction rs) (simp_all add: inner)
  then show ?thesis by (simp add: handle_trans_def)
qed

lemma handle_priority_Nil: "handle_priority mem lib [] = []"
proof -
  have inner: "fold (\<lambda>p2idx cfgs.
                     if \<not> priority_mask (mem_wr_ports mem ! p2idx) ! p1 then cfgs
                     else concat (map (prio_cfg lib p1 p2idx) cfgs)) ws [] = []" for p1 ws
    by (induction ws) simp_all
  have "fold (\<lambda>p1idx cfgs.
             fold (\<lambda>p2idx cfgs.
                     if \<not> priority_mask (mem_wr_ports mem ! p2idx) ! p1idx then cfgs
                     else concat (map (prio_cfg lib p1idx p2idx) cfgs))
                  [0..<length (mem_wr_ports mem)] cfgs) rs [] = []" for rs
    by (induction rs) (simp_all add: inner)
  then show ?thesis by (simp add: handle_priority_def)
qed

lemma handle_rd_init_Nil: "handle_rd_init mem lib [] = []"
proof -
  have "fold (\<lambda>pidx cfgs.
             let port = mem_rd_ports mem ! pidx
             in if \<not> rd_clk_enable port then cfgs
                else if is_fully_undef (init_value port) then cfgs
                else concat (map (rd_init_cfg mem lib pidx) cfgs)) rs [] = []" for rs
    by (induction rs) (simp_all add: Let_def)
  then show ?thesis by (simp add: handle_rd_init_def)
qed

lemma handle_rd_arst_Nil: "handle_rd_arst mem lib [] = []"
proof -
  have "fold (\<lambda>pidx cfgs.
             let port = mem_rd_ports mem ! pidx
             in if \<not> rd_clk_enable port then cfgs
                else if arst port = [ConstBit S0] then cfgs
                else if is_fully_undef (arst_value port) then cfgs
                else concat (map (rd_arst_cfg mem lib pidx) cfgs)) rs [] = []" for rs
    by (induction rs) (simp_all add: Let_def)
  then show ?thesis by (simp add: handle_rd_arst_def)
qed

lemma handle_rd_srst_Nil: "handle_rd_srst mem lib [] = []"
proof -
  have "fold (\<lambda>pidx cfgs.
             let port = mem_rd_ports mem ! pidx
             in if \<not> rd_clk_enable port then cfgs
                else if srst port = [ConstBit S0] then cfgs
                else if is_fully_undef (srst_value port) then cfgs
                else concat (map (rd_srst_cfg mem lib pidx) cfgs)) rs [] = []" for rs
    by (induction rs) (simp_all add: Let_def)
  then show ?thesis by (simp add: handle_rd_srst_def)
qed

lemma emulation_stages_Nil: "emulation_stages mem lib orc [] = Inr []"
  by (simp add: emulation_stages_def handle_rd_ports_Nil handle_trans_Nil handle_priority_Nil
      handle_rd_init_Nil handle_rd_arst_Nil handle_rd_srst_Nil)

lemma geometry_stages_Nil: "geometry_stages mem lib [] = Inr []"
  by (simp add: geometry_stages_def handle_geom_split_def fold_concat_Nil prune_pre_geom_def
      handle_geom_def prune_post_geom_def)

lemma after_binding_Nil: "after_binding mem lib orc [] = Inr []"
  by (simp add: after_binding_def emulation_stages_Nil geometry_stages_Nil)

text \<open>
  Claim C9, as the pass behaves. If a write port of the memory has no clock, the
  soft-logic fallback is infeasible, the write-port binder empties the candidate set
  whatever it held, and the pass ends in a hard error for the memory: the kind filter's
  or the style filter's own error if one of them finds no RAM of the requested kind or
  style, and \<open>NoValidMapping\<close> in every other case (a requested kind of \<open>Logic\<close>
  included).
\<close>

theorem async_write_fatal:
  assumes "list_ex (\<lambda>p. \<not> wr_clk_enable p) (mem_wr_ports mem)"
  shows "\<not> determine_logic_ok kind mem \<and>
         handle_wr_ports mem lib cs = [] \<and>
         execute_mem mem lib orc kind style_s =
           (if kind = Logic then Inl NoValidMapping
            else case handle_ram_kind lib kind style_s
                        (map new_MemConfig [0..<length (ram_defs lib)]) of
                   Inl e \<Rightarrow> Inl e
                 | Inr cs1 \<Rightarrow>
                     (case handle_ram_style lib style_s cs1 of
                        Inl e \<Rightarrow> Inl e
                      | Inr cs2 \<Rightarrow> Inl NoValidMapping))"
proof -
  note a = determine_logic_ok_async[OF assms] handle_wr_ports_async[OF assms]
  show ?thesis
    by (simp add: a execute_mem_def new_MemMapping_def Let_def after_binding_Nil select_cfg_def
        split: sum.splits)
qed

theorem async_write_fatal_witness:
  "list_ex (\<lambda>p. \<not> wr_clk_enable p) (mem_wr_ports async_mem) \<and>
   \<not> determine_logic_ok Auto async_mem \<and>
   handle_wr_ports async_mem trans_lib [new_MemConfig 0] = [] \<and>
   execute_mem async_mem trans_lib no_oracles Auto [] = Inl NoValidMapping"
proof -
  have h: "list_ex (\<lambda>p. \<not> wr_clk_enable p) (mem_wr_ports async_mem)" by code_simp
  have k: "handle_ram_kind trans_lib Auto []
             (map new_MemConfig [0..<length (ram_defs trans_lib)]) = Inr [new_MemConfig 0]"
    by code_simp
  have s: "handle_ram_style trans_lib [] [new_MemConfig 0] = Inr [new_MemConfig 0]"
    by code_simp
  from async_write_fatal[OF h, of Auto trans_lib "[new_MemConfig 0]" no_oracles "[]"] h
  show ?thesis by (simp add: k s)
qed

text \<open>
  Claim C9 as stated, with \<open>NoValidMapping\<close> as the error in every case, fails for a
  requested kind the library does not offer: the memory with the asynchronous write
  port and \<^verbatim>\<open>ram_style = "block"\<close> on the library of the one distributed RAM ends in
  the kind filter's error.
\<close>

theorem async_write_other_error:
  "list_ex (\<lambda>p. \<not> wr_clk_enable p) (mem_wr_ports async_mem) \<and>
   execute_mem async_mem lut_lib no_oracles Block [] = Inl (NoAvailableRams Block) \<and>
   execute_mem async_mem lut_lib no_oracles Block [] \<noteq> Inl NoValidMapping"
  by code_simp

end
